theory Spec2Isabelle
  imports Main "HOL-Library.Word" "HOL-Library.Sublist"
begin

unbundle bit_operations_syntax

section \<open>Data model shared by the type-conversion engine and the instruction mapper\<close>

subsection \<open>Types\<close>

text \<open>
  Modelled from the spec: the class \<open>DataType\<close> (Types.h/Types.cpp are not part of the
  sources at hand). A type has a float/integer/pointer tag, a scalar bit width and a vector
  width; aggregate (array, struct) types are the "complex" ones. The getters of the source
  are the fields of the record.
\<close>

datatype TypeKind = IntegerType | FloatingType | PointerType | ComplexType

record DataType =
  typeKind :: TypeKind
  getScalarBitCount :: nat
  getVectorWidth :: nat

definition isFloatingType :: "DataType \<Rightarrow> bool" where
  "isFloatingType t = (typeKind t = FloatingType)"

definition isPointerType :: "DataType \<Rightarrow> bool" where
  "isPointerType t = (typeKind t = PointerType)"

definition isSimpleType :: "DataType \<Rightarrow> bool" where
  "isSimpleType t = (typeKind t = IntegerType \<or> typeKind t = FloatingType)"

definition isScalarType :: "DataType \<Rightarrow> bool" where
  "isScalarType t = (typeKind t \<noteq> ComplexType \<and> getVectorWidth t = 1)"

definition isVectorType :: "DataType \<Rightarrow> bool" where
  "isVectorType t = (isSimpleType t \<and> 1 < getVectorWidth t)"

definition toVectorType :: "DataType \<Rightarrow> nat \<Rightarrow> DataType" where
  "toVectorType t n = t\<lparr>getVectorWidth := n\<rparr>"

definition getElementType :: "DataType \<Rightarrow> DataType" where
  "getElementType t = t\<lparr>getVectorWidth := 1\<rparr>"

text \<open>
  Modelled from the spec: \<open>getScalarWidthMask\<close>, "src's bit-width mask": the low
  \<open>getScalarBitCount\<close> bits set, as a 32-bit literal (all ones from 32 bits on).
\<close>

definition getScalarWidthMask :: "DataType \<Rightarrow> 32 word" where
  "getScalarWidthMask t = mask (getScalarBitCount t)"

definition TYPE_INT8 :: DataType where
  "TYPE_INT8 = \<lparr>typeKind = IntegerType, getScalarBitCount = 8, getVectorWidth = 1\<rparr>"

definition TYPE_INT16 :: DataType where
  "TYPE_INT16 = \<lparr>typeKind = IntegerType, getScalarBitCount = 16, getVectorWidth = 1\<rparr>"

definition TYPE_INT32 :: DataType where
  "TYPE_INT32 = \<lparr>typeKind = IntegerType, getScalarBitCount = 32, getVectorWidth = 1\<rparr>"

definition TYPE_INT64 :: DataType where
  "TYPE_INT64 = \<lparr>typeKind = IntegerType, getScalarBitCount = 64, getVectorWidth = 1\<rparr>"

definition TYPE_BOOL :: DataType where
  "TYPE_BOOL = \<lparr>typeKind = IntegerType, getScalarBitCount = 1, getVectorWidth = 1\<rparr>"

definition TYPE_LABEL :: DataType where
  "TYPE_LABEL = \<lparr>typeKind = ComplexType, getScalarBitCount = 32, getVectorWidth = 1\<rparr>"

definition TYPE_UNKNOWN :: DataType where
  "TYPE_UNKNOWN = \<lparr>typeKind = ComplexType, getScalarBitCount = 0, getVectorWidth = 1\<rparr>"

subsection \<open>Values\<close>

text \<open>
  Modelled from the spec: a value is a compile-time literal, a reference to a named local
  or a register, and carries a type; the undefined sentinel is a value of its own. A literal
  is its 32-bit payload (\<open>signedInt\<close> and \<open>unsignedInt\<close> read the same bits).
  A local is referred to by its name: \<open>addNewLocal\<close> builds a process-unique name from a
  prefix and a counter, which is the constructor \<open>Temp\<close>; every other local has a
  \<open>Named\<close> name.
\<close>

type_synonym Literal = "32 word"

datatype LocalName = Named string | Temp string nat

datatype RegisterFile = PHYSICAL_A | PHYSICAL_B | ACCUMULATOR

datatype Register = Register (regFile: "RegisterFile set") (regNum: nat)

definition has_flag :: "RegisterFile set \<Rightarrow> RegisterFile \<Rightarrow> bool" where
  "has_flag fs f = (f \<in> fs)"

datatype Value =
    LiteralValue Literal DataType
  | LocalValue LocalName DataType
  | RegisterValue Register DataType
  | UndefinedValue DataType

datatype ValueType = LITERAL | LOCAL | REGISTER | UNDEFINED

fun vtype :: "Value \<Rightarrow> DataType" where
  "vtype (LiteralValue l t) = t"
| "vtype (LocalValue n t) = t"
| "vtype (RegisterValue r t) = t"
| "vtype (UndefinedValue t) = t"

fun hasType :: "Value \<Rightarrow> ValueType \<Rightarrow> bool" where
  "hasType (LiteralValue l t) k = (k = LITERAL)"
| "hasType (LocalValue n t) k = (k = LOCAL)"
| "hasType (RegisterValue r t) k = (k = REGISTER)"
| "hasType (UndefinedValue t) k = (k = UNDEFINED)"

fun getLiteralValue :: "Value \<Rightarrow> Literal option" where
  "getLiteralValue (LiteralValue l t) = Some l"
| "getLiteralValue v = None"

fun hasLiteral :: "Value \<Rightarrow> Literal \<Rightarrow> bool" where
  "hasLiteral (LiteralValue l t) l' = (l = l')"
| "hasLiteral v l' = False"

fun isUndefined :: "Value \<Rightarrow> bool" where
  "isUndefined (UndefinedValue t) = True"
| "isUndefined v = False"

fun isZeroInitializer :: "Value \<Rightarrow> bool" where
  "isZeroInitializer (LiteralValue l t) = (l = 0)"
| "isZeroInitializer v = False"

fun localOf :: "Value \<Rightarrow> LocalName option" where
  "localOf (LocalValue n t) = Some n"
| "localOf v = None"

definition signedInt :: "Literal \<Rightarrow> int" where
  "signedInt l = sint l"

definition unsignedInt :: "Literal \<Rightarrow> int" where
  "unsignedInt l = uint l"

definition isTrue :: "Literal \<Rightarrow> bool" where
  "isTrue l = (l \<noteq> 0)"

definition REG_NOP :: Register where
  "REG_NOP = Register {PHYSICAL_A, PHYSICAL_B} 39"

definition REG_REPLICATE_ALL :: Register where
  "REG_REPLICATE_ALL = Register {PHYSICAL_B} 37"

definition INT_ZERO :: Value where
  "INT_ZERO = LiteralValue 0 TYPE_INT8"

definition BOOL_TRUE :: Value where
  "BOOL_TRUE = LiteralValue 1 TYPE_BOOL"

definition UNDEFINED_VALUE :: Value where
  "UNDEFINED_VALUE = UndefinedValue TYPE_UNKNOWN"

definition NOP_REGISTER :: Value where
  "NOP_REGISTER = RegisterValue REG_NOP TYPE_UNKNOWN"

subsection \<open>Low-level instructions\<close>

datatype OpCode = OP_AND | OP_OR | OP_XOR | OP_SHL | OP_SHR | OP_ASR | OP_ADD | OP_SUB
  | OP_FMUL | OP_FADD | OP_NOP

datatype ConditionCode = COND_ALWAYS | COND_ZERO_CLEAR | COND_ZERO_SET

datatype SetFlag = DONT_SET | SET_FLAGS

datatype PackMode = PACK_NOP | PACK_INT_TO_CHAR_TRUNCATE | PACK_INT_TO_SHORT_TRUNCATE
  | PACK_INT_TO_UNSIGNED_CHAR_SATURATE | PACK_INT_TO_SIGNED_SHORT_SATURATE | PACK_32_32
  | PACK_FLOAT_TO_HALF_TRUNCATE

datatype UnpackMode = UNPACK_NOP | UNPACK_CHAR_TO_INT_ZEXT | UNPACK_SHORT_TO_INT_SEXT
  | UNPACK_HALF_TO_FLOAT

datatype Decoration = UNSIGNED_RESULT | OTHER_DECORATION nat

type_synonym InstructionDecorations = "Decoration set"

datatype Direction = UP | DOWN

datatype MemoryOperation = READ | WRITE | COPY | FILL

datatype MemorySemantics = ACQUIRE_RELEASE

text \<open>
  The instruction classes of the intermediate representation that the two source files
  construct. The last six constructors stand for the helper routines of Helper.h
  (vector rotation, lane extraction and insertion, byte swap, shuffle, index calculation),
  which are consumed interfaces: each call is recorded with its operands.
\<close>

datatype InstructionBody =
    Move Value Value
  | Operation OpCode Value Value "Value option"
  | IntrinsicOperation string Value Value "Value option"
  | LoadImmediate Value Literal
  | Comparison string Value Value Value
  | MemoryInstruction MemoryOperation Value Value "Value option"
  | MemoryBarrier Literal MemorySemantics
  | Branch LocalName Value
  | PhiNode Value "(Value \<times> LocalName) list"
  | LifetimeBoundary Value bool
  | MethodCall "Value option" string "Value list"
  | BranchLabel LocalName
  | Return "Value option"
  | VectorRotation Value Value Value Direction
  | VectorExtraction Value Value Value
  | VectorInsertion Value Value Value
  | ByteSwap Value Value
  | VectorShuffle Value Value Value Value
  | CalculateIndices Value Value "Value list"

record Instruction =
  body :: InstructionBody
  conditional :: ConditionCode
  setFlags :: SetFlag
  packMode :: PackMode
  unpackMode :: UnpackMode
  decorations :: InstructionDecorations

definition mkInstruction :: "InstructionBody \<Rightarrow> ConditionCode \<Rightarrow> SetFlag \<Rightarrow> Instruction" where
  "mkInstruction b c f = \<lparr>body = b, conditional = c, setFlags = f, packMode = PACK_NOP,
     unpackMode = UNPACK_NOP, decorations = {}\<rparr>"

definition MoveOperation :: "Value \<Rightarrow> Value \<Rightarrow> ConditionCode \<Rightarrow> SetFlag \<Rightarrow> Instruction" where
  "MoveOperation dest src c f = mkInstruction (Move dest src) c f"

definition plain :: "InstructionBody \<Rightarrow> Instruction" where
  "plain b = mkInstruction b COND_ALWAYS DONT_SET"

definition addDecorations :: "InstructionDecorations \<Rightarrow> Instruction \<Rightarrow> Instruction" where
  "addDecorations d i = i\<lparr>decorations := decorations i \<union> d\<rparr>"

definition setPackMode :: "PackMode \<Rightarrow> Instruction \<Rightarrow> Instruction" where
  "setPackMode p i = i\<lparr>packMode := p\<rparr>"

definition setUnpackMode :: "UnpackMode \<Rightarrow> Instruction \<Rightarrow> Instruction" where
  "setUnpackMode u i = i\<lparr>unpackMode := u\<rparr>"

subsection \<open>Locals, the method under construction and the insertion cursor\<close>

datatype LocalKind = PlainLocal | StackAllocation | Parameter

text \<open>
  A local of the method: its kind (\<open>is<StackAllocation>()\<close>, \<open>is<Parameter>()\<close>), the
  alias back-reference \<open>reference\<close>, the volatile decoration of a parameter, and the
  results of \<open>getSingleWriter()\<close> and \<open>getBase(true)\<close>, which are computed by code
  outside the sources at hand and are therefore fields.
\<close>

record Local =
  localType :: DataType
  localKind :: LocalKind
  reference :: "(LocalName \<times> int) option"
  getSingleWriter :: "Instruction option"
  getBase :: LocalName
  volatileParameter :: bool

text \<open>
  Modelled from the spec: the consumed interface of \<open>Method\<close> and of the insertion cursor
  \<open>InstructionWalker\<close>. The method owns a linear instruction list, its table of locals and
  the counter behind the unique names. A cursor is a position in the instruction list.
  \<open>emplace\<close> inserts before the current position and leaves the cursor on the inserted
  instruction (the source reads it back through \<open>it->\<close> right after \<open>emplace\<close>);
  \<open>nextInBlock\<close> and \<open>previousInBlock\<close> step by one.
\<close>

record Method =
  name :: string
  returnType :: DataType
  parameters :: "LocalName list"
  instructions :: "Instruction list"
  locals :: "LocalName \<Rightarrow> Local option"
  localCounter :: nat

definition newLocal :: "LocalName \<Rightarrow> DataType \<Rightarrow> Local" where
  "newLocal n t = \<lparr>localType = t, localKind = PlainLocal, reference = None,
     getSingleWriter = None, getBase = n, volatileParameter = False\<rparr>"

definition addNewLocal :: "Method \<Rightarrow> DataType \<Rightarrow> string \<Rightarrow> Value \<times> Method" where
  "addNewLocal m t pfx =
     (let n = Temp pfx (localCounter m)
      in (LocalValue n t,
          m\<lparr>locals := (locals m)(n \<mapsto> newLocal n t), localCounter := Suc (localCounter m)\<rparr>))"

definition findOrCreateLocal :: "Method \<Rightarrow> DataType \<Rightarrow> string \<Rightarrow> LocalName \<times> Method" where
  "findOrCreateLocal m t s =
     (case locals m (Named s) of
        Some l \<Rightarrow> (Named s, m)
      | None \<Rightarrow> (Named s, m\<lparr>locals := (locals m)(Named s \<mapsto> newLocal (Named s) t)\<rparr>))"

definition appendToEnd :: "Method \<Rightarrow> Instruction \<Rightarrow> Method" where
  "appendToEnd m i = m\<lparr>instructions := instructions m @ [i]\<rparr>"

definition endOf :: "Method \<Rightarrow> nat" where
  "endOf m = length (instructions m)"

definition emplace :: "nat \<Rightarrow> Method \<Rightarrow> Instruction \<Rightarrow> Method" where
  "emplace it m i = m\<lparr>instructions := take it (instructions m) @ i # drop it (instructions m)\<rparr>"

definition nextInBlock :: "nat \<Rightarrow> nat" where
  "nextInBlock it = Suc it"

definition previousInBlock :: "nat \<Rightarrow> nat" where
  "previousInBlock it = it - 1"

definition modifyAt :: "nat \<Rightarrow> Method \<Rightarrow> (Instruction \<Rightarrow> Instruction) \<Rightarrow> Method" where
  "modifyAt it m f = m\<lparr>instructions := (instructions m)[it := f (instructions m ! it)]\<rparr>"

subsection \<open>Errors\<close>

text \<open>
  \<open>CompilationError(stage, message, detail)\<close> is the error channel; the detail string
  (a printed type or value) is left out. \<open>at()\<close> on a vector raises \<open>out_of_range\<close>;
  reading through a null pointer, an empty optional or the wrong member of a value is
  \<open>InvalidAccess\<close>, a remainder by zero is \<open>DivisionByZero\<close>. A failure keeps the
  method as it was when the exception left.
\<close>

datatype CompilationStep = GENERAL | PARSER | LLVM_2_IR

datatype error = CompilationError CompilationStep string | OutOfRange | InvalidAccess
  | DivisionByZero

datatype 'a result = Ok 'a Method | Fail error Method

fun isOk :: "'a result \<Rightarrow> bool" where
  "isOk (Ok x m) = True"
| "isOk (Fail e m) = False"

fun methodOf :: "'a result \<Rightarrow> Method" where
  "methodOf (Ok x m) = m"
| "methodOf (Fail e m) = m"


definition InvalidTypeWidth :: error where
  "InvalidTypeWidth = CompilationError GENERAL ''Invalid type-width for zero-extension''"

definition UnsupportedConversion :: error where
  "UnsupportedConversion = CompilationError GENERAL ''Unsupported floating-point conversion''"

definition InvalidSaturationType :: error where
  "InvalidSaturationType = CompilationError GENERAL ''Invalid target type for saturation''"

definition SaturationNotSupported :: error where
  "SaturationNotSupported =
     CompilationError GENERAL ''Saturation to this type is not yet supported''"

text \<open>The spec's error kind UnsupportedSaturationTarget covers both saturation messages.\<close>

definition UnsupportedSaturationTarget :: "error \<Rightarrow> bool" where
  "UnsupportedSaturationTarget e = (e = InvalidSaturationType \<or> e = SaturationNotSupported)"

definition UnsupportedContainerInsertion :: error where
  "UnsupportedContainerInsertion =
     CompilationError LLVM_2_IR ''Container insertion into arrays is not yet implemented!''"

definition UnsupportedContainerExtraction :: error where
  "UnsupportedContainerExtraction =
     CompilationError LLVM_2_IR ''Container extraction from arrays is not yet implemented!''"

definition InvalidLifetimeTarget :: error where
  "InvalidLifetimeTarget =
     CompilationError LLVM_2_IR ''Cannot start life-time of object not located on stack''"

definition ArgumentCountMismatch :: error where
  "ArgumentCountMismatch = CompilationError PARSER ''Invalid numbers of method arguments''"

subsection \<open>Consumed helper routines (Helper.h)\<close>

text \<open>
  Modelled from the spec: the vector primitives \<open>rotate\<close>, \<open>extractLane\<close>,
  \<open>insertLane\<close> and \<open>broadcast\<close>, the byte swap, the shuffle and the address
  arithmetic are consumed interfaces, whose code is not among the sources. Each inserts
  at the cursor and returns the cursor behind what it inserted. A call of a vector primitive
  is one instruction of the list; the broadcast \<open>insertReplication\<close> writes its source
  to the replicate-all register and, when asked to, reads that register into the destination.
\<close>

definition emit :: "nat \<Rightarrow> Method \<Rightarrow> Instruction \<Rightarrow> nat \<times> Method" where
  "emit it m i = (nextInBlock it, emplace it m i)"

definition insertVectorRotation ::
  "nat \<Rightarrow> Method \<Rightarrow> Value \<Rightarrow> Value \<Rightarrow> Value \<Rightarrow> Direction \<Rightarrow> nat \<times> Method" where
  "insertVectorRotation it m src offset dest dir =
     emit it m (plain (VectorRotation src offset dest dir))"

definition insertVectorExtraction ::
  "nat \<Rightarrow> Method \<Rightarrow> Value \<Rightarrow> Value \<Rightarrow> Value \<Rightarrow> nat \<times> Method" where
  "insertVectorExtraction it m container index dest =
     emit it m (plain (VectorExtraction container index dest))"

definition insertVectorInsertion ::
  "nat \<Rightarrow> Method \<Rightarrow> Value \<Rightarrow> Value \<Rightarrow> Value \<Rightarrow> nat \<times> Method" where
  "insertVectorInsertion it m container index val =
     emit it m (plain (VectorInsertion container index val))"

definition insertReplication ::
  "nat \<Rightarrow> Method \<Rightarrow> Value \<Rightarrow> Value \<Rightarrow> bool \<Rightarrow> nat \<times> Method" where
  "insertReplication it m src dest useDestination =
     (let (it1, m1) = emit it m
            (plain (Move (RegisterValue REG_REPLICATE_ALL (vtype src)) src))
      in if useDestination
         then emit it1 m1 (plain (Move dest (RegisterValue REG_REPLICATE_ALL (vtype src))))
         else (it1, m1))"

definition insertByteSwap :: "nat \<Rightarrow> Method \<Rightarrow> Value \<Rightarrow> Value \<Rightarrow> nat \<times> Method" where
  "insertByteSwap it m src dest = emit it m (plain (ByteSwap src dest))"

definition insertVectorShuffle ::
  "nat \<Rightarrow> Method \<Rightarrow> Value \<Rightarrow> Value \<Rightarrow> Value \<Rightarrow> Value \<Rightarrow> nat \<times> Method" where
  "insertVectorShuffle it m dest v1 v2 msk = emit it m (plain (VectorShuffle dest v1 v2 msk))"

definition insertCalculateIndices ::
  "nat \<Rightarrow> Method \<Rightarrow> Value \<Rightarrow> Value \<Rightarrow> Value list \<Rightarrow> nat \<times> Method" where
  "insertCalculateIndices it m container dest indices =
     emit it m (plain (CalculateIndices container dest indices))"

text \<open>
  Modelled from the spec: \<open>saturate<T>\<close> clamps to the range of \<open>T\<close>, here given by
  its bounds.
\<close>

definition saturate :: "int \<Rightarrow> int \<Rightarrow> int \<Rightarrow> int" where
  "saturate lo hi v = max lo (min hi v)"

text \<open>
  Modelled from the spec: the float multiplicative identity
  \<open>OpCode::getRightIdentity(OP_FMUL)\<close>, the bits of 1.0.
\<close>

definition FLOAT_ONE :: Value where
  "FLOAT_ONE = LiteralValue 0x3F800000
     \<lparr>typeKind = FloatingType, getScalarBitCount = 32, getVectorWidth = 1\<rparr>"

section \<open>The type-conversion engine (TypeConversions.cpp)\<close>

definition BIT_CAST :: string where
  "BIT_CAST = ''%bit_cast''"

text \<open>
  The bodies of the loops of \<open>insertCombiningBitcast\<close>, in the order of the source: the
  shifts, the rotations, the OR-accumulation and the assembly of the destination lanes.
  Each takes and returns the cursor, the method and what the loop builds up.
\<close>

definition combineShift ::
  "Value \<Rightarrow> Value \<Rightarrow> Value \<Rightarrow> nat \<Rightarrow> nat \<Rightarrow> nat \<times> Method \<times> Value list
     \<Rightarrow> nat \<times> Method \<times> Value list" where
  "combineShift src dest truncatedSource shift i s =
     (case s of (it, m, stvs) \<Rightarrow>
        let (result, m') = addNewLocal m
              (toVectorType (vtype dest) (getVectorWidth (vtype src))) BIT_CAST;
            (it', m'') = emit it m' (plain (Operation OP_SHL result truncatedSource
              (Some (LiteralValue (of_nat (shift * i)) TYPE_INT8))))
        in (it', m'', stvs @ [result]))"

definition combineRotate ::
  "Value \<Rightarrow> Value \<Rightarrow> Value list \<Rightarrow> nat \<Rightarrow> nat \<times> Method \<times> Value list
     \<Rightarrow> nat \<times> Method \<times> Value list" where
  "combineRotate src dest shiftedTruncatedVectors i s =
     (case s of (it, m, rvs) \<Rightarrow>
        if i = 0 then (it, m, rvs @ [hd shiftedTruncatedVectors])
        else
          let (result, m') = addNewLocal m
                (toVectorType (vtype dest) (getVectorWidth (vtype src))) BIT_CAST;
              (it', m'') = insertVectorRotation it m' (shiftedTruncatedVectors ! i)
                (LiteralValue (of_nat i) TYPE_INT8) result DOWN
          in (it', m'', rvs @ [result]))"

definition combineOr ::
  "Value \<Rightarrow> Value \<Rightarrow> Value \<Rightarrow> nat \<times> Method \<times> Value \<Rightarrow> nat \<times> Method \<times> Value" where
  "combineOr src dest rv s =
     (case s of (it, m, combinedVector) \<Rightarrow>
        let (newCombinedVector, m') = addNewLocal m
              (toVectorType (vtype dest) (getVectorWidth (vtype src))) BIT_CAST;
            (it', m'') = emit it m'
              (plain (Operation OP_OR newCombinedVector combinedVector (Some rv)))
        in (it', m'', newCombinedVector))"

definition combineAssemble ::
  "Value \<Rightarrow> nat \<Rightarrow> Value \<Rightarrow> Value \<Rightarrow> nat \<Rightarrow> nat \<times> Method \<Rightarrow> nat \<times> Method" where
  "combineAssemble dest sizeFactor combinedVector destination i s =
     (case s of (it, m) \<Rightarrow>
        let sourceIndex = i * sizeFactor;
            (tmp, m') = addNewLocal m (vtype dest) BIT_CAST;
            (it', m'') = insertVectorExtraction it m' combinedVector
              (LiteralValue (of_nat sourceIndex) TYPE_INT8) tmp
        in insertVectorInsertion it' m'' destination (LiteralValue (of_nat i) TYPE_INT8) tmp)"

definition insertCombiningBitcast :: "nat \<Rightarrow> Method \<Rightarrow> Value \<Rightarrow> Value \<Rightarrow> nat \<times> Method" where
  "insertCombiningBitcast it0 method0 src dest =
     (let sizeFactor = getScalarBitCount (vtype dest) div getScalarBitCount (vtype src);
          shift = getScalarBitCount (vtype src);
          (truncatedSource, method1) = addNewLocal method0 (vtype src) BIT_CAST;
          (it1, method2) = emit it0 method1 (plain (Operation OP_AND truncatedSource src
              (Some (LiteralValue (getScalarWidthMask (vtype src)) TYPE_INT32))));
          (it2, method3, shiftedTruncatedVectors) =
            fold (combineShift src dest truncatedSource shift) [0..<sizeFactor]
              (it1, method2, []);
          (it3, method4, rotatedVectors) =
            fold (combineRotate src dest shiftedTruncatedVectors)
              [0..<length shiftedTruncatedVectors] (it2, method3, []);
          (it4, method5, combinedVector) =
            fold (combineOr src dest) rotatedVectors (it3, method4, INT_ZERO);
          (destination, method6) = addNewLocal method5 (vtype dest) BIT_CAST;
          (it5, method7) = emit it4 method6 (plain (Move destination INT_ZERO));
          (it6, method8) =
            fold (combineAssemble dest sizeFactor combinedVector destination)
              [0..<getVectorWidth (vtype dest)] (it5, method7)
      in (it6, emplace it6 method8 (plain (Move dest destination))))"

text \<open>The bodies of the two loops of \<open>insertSplittingBitcast\<close>.\<close>

definition splitShift ::
  "Value \<Rightarrow> Value \<Rightarrow> nat \<Rightarrow> nat \<Rightarrow> nat \<times> Method \<times> Value list
     \<Rightarrow> nat \<times> Method \<times> Value list" where
  "splitShift src dest shift i s =
     (case s of (it, m, stvs) \<Rightarrow>
        let (result, m1) = addNewLocal m (vtype dest) BIT_CAST;
            (tmp, m2) = addNewLocal m1 (vtype dest) BIT_CAST;
            (it', m3) = emit it m2 (plain (Operation OP_SHR tmp src
              (Some (LiteralValue (of_nat (shift * i)) TYPE_INT8))));
            (it'', m4) = emit it' m3 (plain (Operation OP_AND result tmp
              (Some (LiteralValue (getScalarWidthMask (vtype dest)) TYPE_INT32))))
        in (it'', m4, stvs @ [result]))"

definition splitAssemble ::
  "Value \<Rightarrow> Value list \<Rightarrow> Value \<Rightarrow> nat \<Rightarrow> nat \<times> Method \<Rightarrow> nat \<times> Method" where
  "splitAssemble dest shiftedTruncatedVectors destination i s =
     (case s of (it, m) \<Rightarrow>
        let stv = shiftedTruncatedVectors ! (i mod length shiftedTruncatedVectors);
            sourceElement = i div length shiftedTruncatedVectors;
            (tmp, m') = addNewLocal m (vtype dest) BIT_CAST;
            (it', m'') = insertVectorExtraction it m' stv
              (LiteralValue (of_nat sourceElement) TYPE_INT8) tmp
        in insertVectorInsertion it' m'' destination (LiteralValue (of_nat i) TYPE_INT8) tmp)"

text \<open>
  \<open>shiftedTruncatedVectors.at(i % shiftedTruncatedVectors.size())\<close> takes a remainder by
  zero when the list is empty; the loop over the destination lanes then stops at its first
  round.
\<close>

definition insertSplittingBitcast :: "nat \<Rightarrow> Method \<Rightarrow> Value \<Rightarrow> Value \<Rightarrow> nat result" where
  "insertSplittingBitcast it0 method0 src dest =
     (let sizeFactor = getScalarBitCount (vtype src) div getScalarBitCount (vtype dest);
          shift = getScalarBitCount (vtype dest);
          (it1, method1, shiftedTruncatedVectors) =
            fold (splitShift src dest shift) [0..<sizeFactor] (it0, method0, []);
          (destination, method2) = addNewLocal method1 (vtype dest) BIT_CAST;
          (it2, method3) = emit it1 method2 (plain (Move destination INT_ZERO))
      in if shiftedTruncatedVectors = [] \<and> 0 < getVectorWidth (vtype dest)
         then Fail DivisionByZero method3
         else
           (let (it3, method4) =
              fold (splitAssemble dest shiftedTruncatedVectors destination)
                [0..<getVectorWidth (vtype dest)] (it2, method3)
            in Ok it3 (emplace it3 method4 (plain (Move dest destination)))))"

definition setReference :: "Method \<Rightarrow> LocalName \<Rightarrow> LocalName \<times> int \<Rightarrow> Method" where
  "setReference m d r =
     m\<lparr>locals := (locals m)(d := map_option (\<lambda>l. l\<lparr>reference := Some r\<rparr>) (locals m d))\<rparr>"

text \<open>
  The last step of \<open>insertBitcast\<close>: a bit-cast between two pointer locals records the
  source as the alias of the destination.
\<close>

definition mapDestinationToSource :: "Method \<Rightarrow> Value \<Rightarrow> Value \<Rightarrow> Method" where
  "mapDestinationToSource m dest src =
     (case (dest, src) of
        (LocalValue d dt, LocalValue s st) \<Rightarrow>
          if isPointerType dt \<and> isPointerType st then setReference m d (s, 0) else m
      | _ \<Rightarrow> m)"

definition insertBitcast ::
  "nat \<Rightarrow> Method \<Rightarrow> Value \<Rightarrow> Value \<Rightarrow> InstructionDecorations \<Rightarrow> nat result" where
  "insertBitcast it method src dest deco =
     (let r =
        (if isUndefined src
         then Ok it (emplace it method (plain (Move dest UNDEFINED_VALUE)))
         else if isZeroInitializer src
         then Ok it (emplace it method (plain (Move dest INT_ZERO)))
         else if getVectorWidth (vtype src) > getVectorWidth (vtype dest)
         then (case insertCombiningBitcast it method src dest of (it', m') \<Rightarrow> Ok it' m')
         else if getVectorWidth (vtype src) < getVectorWidth (vtype dest)
         then insertSplittingBitcast it method src dest
         else Ok it (emplace it method (addDecorations deco (plain (Move dest src)))))
      in case r of
           Fail e m \<Rightarrow> Fail e m
         | Ok it1 m1 \<Rightarrow>
             (let m2 = mapDestinationToSource m1 dest src;
                  m3 = modifyAt it1 m2 (addDecorations deco)
              in Ok (nextInBlock it1) m3))"


definition insertZeroExtension ::
  "nat \<Rightarrow> Method \<Rightarrow> Value \<Rightarrow> Value \<Rightarrow> bool \<Rightarrow> ConditionCode \<Rightarrow> SetFlag \<Rightarrow> nat result" where
  "insertZeroExtension it method src dest allowLiteral cond flags =
     (let r =
        (if getScalarBitCount (vtype src) = 32 \<and> getScalarBitCount (vtype dest) \<le> 32
         then
           (let m1 = emplace it method (MoveOperation dest src cond flags)
            in if getScalarBitCount (vtype dest) = 8
               then Ok it (modifyAt it m1 (setPackMode PACK_INT_TO_CHAR_TRUNCATE))
               else if getScalarBitCount (vtype dest) = 16
               then Ok it (modifyAt it m1 (setPackMode PACK_INT_TO_SHORT_TRUNCATE))
               else if getScalarBitCount (vtype dest) = 32
               then Ok it m1
               else Fail InvalidTypeWidth m1)
         else if getScalarBitCount (vtype dest) \<ge> 32 \<and> getScalarBitCount (vtype src) \<ge> 32
         then Ok it (emplace it method (MoveOperation dest src cond flags))
         else if getScalarBitCount (vtype dest) = 32 \<and>
                 (case src of
                    RegisterValue r t \<Rightarrow>
                      has_flag (regFile r) PHYSICAL_A \<or> has_flag (regFile r) ACCUMULATOR
                  | _ \<Rightarrow> False) \<and>
                 getScalarBitCount (vtype src) = 8
         then
           (let m1 = emplace it method (MoveOperation dest src cond flags)
            in Ok it (modifyAt it m1 (setUnpackMode UNPACK_CHAR_TO_INT_ZEXT)))
         else if allowLiteral
         then Ok it (emplace it method (mkInstruction (Operation OP_AND dest src
                (Some (LiteralValue (getScalarWidthMask (vtype src)) TYPE_INT32))) cond flags))
         else
           (let (tmp, m1) = addNewLocal method TYPE_INT32 ''%zext'';
                (it1, m2) = emit it m1
                  (plain (LoadImmediate tmp (getScalarWidthMask (vtype src))))
            in Ok it1 (emplace it1 m2
                 (mkInstruction (Operation OP_AND dest src (Some tmp)) cond flags))))
      in case r of
           Fail e m \<Rightarrow> Fail e m
         | Ok it' m' \<Rightarrow> Ok (nextInBlock it') (modifyAt it' m' (addDecorations {UNSIGNED_RESULT})))"

definition insertSignExtension ::
  "nat \<Rightarrow> Method \<Rightarrow> Value \<Rightarrow> Value \<Rightarrow> bool \<Rightarrow> ConditionCode \<Rightarrow> SetFlag \<Rightarrow> nat \<times> Method" where
  "insertSignExtension it method src dest allowLiteral cond flags =
     (let (it', m') =
        (if getScalarBitCount (vtype dest) \<ge> 32 \<and> getScalarBitCount (vtype src) \<ge> 32
         then (it, emplace it method (MoveOperation dest src cond flags))
         else if getScalarBitCount (vtype dest) = 32 \<and>
                 (case src of
                    RegisterValue r t \<Rightarrow>
                      has_flag (regFile r) PHYSICAL_A \<or> has_flag (regFile r) ACCUMULATOR
                  | _ \<Rightarrow> False) \<and>
                 getScalarBitCount (vtype src) = 16
         then
           (let m1 = emplace it method (MoveOperation dest src cond flags)
            in (it, modifyAt it m1 (setUnpackMode UNPACK_SHORT_TO_INT_SEXT)))
         else
           (let diff = (of_int (int (getScalarBitCount (vtype dest)) -
                                 int (getScalarBitCount (vtype src))) :: Literal);
                (widthDiff, it1, m1) =
                  (if \<not> allowLiteral
                   then (let (tmp, ma) = addNewLocal method TYPE_INT8 ''%sext'';
                             (ita, mb) = emit it ma (plain (LoadImmediate tmp diff))
                         in (tmp, ita, mb))
                   else (LiteralValue diff TYPE_INT8, it, method));
                (tmp, m2) = addNewLocal m1 TYPE_INT32 ''%sext'';
                (it2, m3) = emit it1 m2
                  (mkInstruction (Operation OP_SHL tmp src (Some widthDiff)) cond DONT_SET)
            in (it2, emplace it2 m3
                 (mkInstruction (Operation OP_ASR dest tmp (Some widthDiff)) cond flags))))
      in (nextInBlock it', m'))"

text \<open>
  The literal handed to the move is built from the clamped integer; \<open>int8_t\<close> to
  \<open>uint32_t\<close> are given by their bounds.
\<close>

definition saturatedLiteral :: "nat \<Rightarrow> bool \<Rightarrow> Literal \<Rightarrow> Literal" where
  "saturatedLiteral bits isSigned l =
     (if isSigned
      then of_int (saturate (- (2 ^ (bits - 1))) (2 ^ (bits - 1) - 1) (signedInt l))
      else of_int (saturate 0 (2 ^ bits - 1) (unsignedInt l)))"

definition saturationDecorations :: "bool \<Rightarrow> InstructionDecorations" where
  "saturationDecorations isSigned = (if isSigned then {} else {UNSIGNED_RESULT})"

definition insertSaturation :: "nat \<Rightarrow> Method \<Rightarrow> Value \<Rightarrow> Value \<Rightarrow> bool \<Rightarrow> nat result" where
  "insertSaturation it method src dest isSigned =
     (if \<not> isSimpleType (vtype dest) \<or> isFloatingType (vtype dest)
      then Fail InvalidSaturationType method
      else
        (case getLiteralValue src of
           Some l \<Rightarrow>
             if getScalarBitCount (vtype dest) = 8
             then Ok it (emplace it method (addDecorations (saturationDecorations isSigned)
                    (plain (Move dest (LiteralValue (saturatedLiteral 8 isSigned l) (vtype dest))))))
             else if getScalarBitCount (vtype dest) = 16
             then Ok it (emplace it method (addDecorations (saturationDecorations isSigned)
                    (plain (Move dest (LiteralValue (saturatedLiteral 16 isSigned l) (vtype dest))))))
             else if getScalarBitCount (vtype dest) = 32
             then Ok it (emplace it method (addDecorations (saturationDecorations isSigned)
                    (plain (Move dest (LiteralValue (saturatedLiteral 32 isSigned l) (vtype dest))))))
             else Fail InvalidSaturationType method
         | None \<Rightarrow>
             if getScalarBitCount (vtype dest) = 8 \<and> \<not> isSigned
             then Ok it (emplace it method (addDecorations {UNSIGNED_RESULT}
                    (setPackMode PACK_INT_TO_UNSIGNED_CHAR_SATURATE (plain (Move dest src)))))
             else if getScalarBitCount (vtype dest) = 16 \<and> isSigned
             then Ok it (emplace it method
                    (setPackMode PACK_INT_TO_SIGNED_SHORT_SATURATE (plain (Move dest src))))
             else if getScalarBitCount (vtype dest) = 32
             then Ok it (emplace it method (setPackMode PACK_32_32 (plain (Move dest src))))
             else Fail SaturationNotSupported method))"

definition insertTruncate :: "nat \<Rightarrow> Method \<Rightarrow> Value \<Rightarrow> Value \<Rightarrow> nat \<times> Method" where
  "insertTruncate it method src dest =
     (let m1 =
        (if getScalarBitCount (vtype dest) \<ge> getScalarBitCount (vtype src)
         then emplace it method (plain (Move dest src))
         else emplace it method (plain (Operation OP_AND dest src
                (Some (LiteralValue (getScalarWidthMask (vtype dest)) TYPE_INT32)))))
      in (nextInBlock it, m1))"

definition insertFloatingPointConversion ::
  "nat \<Rightarrow> Method \<Rightarrow> Value \<Rightarrow> Value \<Rightarrow> nat result" where
  "insertFloatingPointConversion it method src dest =
     (if getScalarBitCount (vtype src) = getScalarBitCount (vtype dest)
      then Ok (nextInBlock it) (emplace it method (plain (Move dest src)))
      else if getScalarBitCount (vtype src) = 16 \<and> getScalarBitCount (vtype dest) = 32
      then Ok (nextInBlock it) (emplace it method (setUnpackMode UNPACK_HALF_TO_FLOAT
             (plain (Operation OP_FMUL dest src (Some FLOAT_ONE)))))
      else if getScalarBitCount (vtype src) = 32 \<and> getScalarBitCount (vtype dest) = 16
      then Ok (nextInBlock it) (emplace it method (setPackMode PACK_FLOAT_TO_HALF_TRUNCATE
             (plain (Operation OP_FMUL dest src (Some FLOAT_ONE)))))
      else Fail UnsupportedConversion method)"


section \<open>The instruction mapper (LLVMInstruction.cpp)\<close>

text \<open>
  The frontend instruction classes. A \<open>const Local*\<close> that a class dereferences without
  a check is a name here, except for the destination of a call, which the
  destination-less constructors leave null. The constructor \<open>Branch(label)\<close>, which
  fixes the condition to \<open>BOOL_TRUE\<close> and leaves the else-label null, is
  \<open>LLVMBranch_unconditional\<close>. The last argument of \<open>CallSite\<close>,
  \<open>UnaryOperator\<close>, \<open>BinaryOperator\<close> and \<open>LLVMComparison\<close> is the member
  \<open>decorations\<close> of the base class, which only these read.
\<close>

datatype LLVMInstruction =
    CallSite "LocalName option" string DataType "Value list" InstructionDecorations
  | Copy Value Value bool bool bool
  | UnaryOperator string Value Value InstructionDecorations
  | BinaryOperator string Value Value Value InstructionDecorations
  | IndexOf Value Value "Value list"
  | LLVMComparison LocalName string Value Value bool InstructionDecorations
  | ContainerInsertion LocalName Value Value Value
  | ContainerExtraction LocalName Value Value
  | ValueReturn bool Value
  | ShuffleVector Value Value Value Value
  | LLVMLabel LocalName
  | LLVMPhiNode LocalName "(Value \<times> LocalName) list"
  | Selection LocalName Value Value Value
  | LLVMBranch_unconditional LocalName
  | LLVMBranch Value LocalName LocalName
  | Switch Value string "(int \<times> string) list"

subsection \<open>The four constructors of \<open>CallSite\<close>\<close>

definition CallSite_dest_name ::
  "LocalName option \<Rightarrow> string \<Rightarrow> DataType \<Rightarrow> Value list \<Rightarrow> LLVMInstruction" where
  "CallSite_dest_name dest methodName retType args = CallSite dest methodName retType args {}"

definition CallSite_dest_method ::
  "LocalName option \<Rightarrow> Method \<Rightarrow> Value list \<Rightarrow> error + LLVMInstruction" where
  "CallSite_dest_method dest method args =
     (if length (parameters method) \<noteq> length args then Inl ArgumentCountMismatch
      else Inr (CallSite dest (name method) (returnType method) args {}))"

definition CallSite_name :: "string \<Rightarrow> DataType \<Rightarrow> Value list \<Rightarrow> LLVMInstruction" where
  "CallSite_name methodName retType args = CallSite None methodName retType args {}"

definition CallSite_method :: "Method \<Rightarrow> Value list \<Rightarrow> error + LLVMInstruction" where
  "CallSite_method method args =
     (if length (parameters method) \<noteq> length args then Inl ArgumentCountMismatch
      else Inr (CallSite None (name method) (returnType method) args {}))"

definition nameEmpty :: "LocalName \<Rightarrow> bool" where
  "nameEmpty n = (n = Named [])"

text \<open>\<open>CallSite::getAllLocals\<close>; the other classes are not needed below.\<close>

fun getAllLocals :: "LLVMInstruction \<Rightarrow> error + LocalName list" where
  "getAllLocals (CallSite dest methodName retType arguments deco) =
     (case dest of
        None \<Rightarrow> Inl InvalidAccess
      | Some d \<Rightarrow>
          Inr ((if \<not> nameEmpty d then [d] else []) @
               concat (map (\<lambda>val. case val of LocalValue n t \<Rightarrow> [n] | _ \<Rightarrow> []) arguments)))"
| "getAllLocals i = Inr []"

subsection \<open>Lowering\<close>

definition arg_at :: "'a list \<Rightarrow> nat \<Rightarrow> 'a option" where
  "arg_at xs i = (if i < length xs then Some (xs ! i) else None)"

text \<open>
  Modelled from the spec: the native-opcode table behind \<open>OpCode::findOpCode\<close>, with the
  opcodes named in this development; a name that is not in the table gives \<open>OP_NOP\<close>.
\<close>

definition findOpCode :: "string \<Rightarrow> OpCode" where
  "findOpCode s =
     (if s = ''and'' then OP_AND else if s = ''or'' then OP_OR else if s = ''xor'' then OP_XOR
      else if s = ''shl'' then OP_SHL else if s = ''shr'' then OP_SHR
      else if s = ''asr'' then OP_ASR else if s = ''add'' then OP_ADD
      else if s = ''sub'' then OP_SUB else if s = ''fmul'' then OP_FMUL
      else if s = ''fadd'' then OP_FADD else OP_NOP)"

text \<open>\<open>pointer.local->is<StackAllocation>()\<close>: the value has to be a local of the method.\<close>

definition isStackAllocation :: "Method \<Rightarrow> Value \<Rightarrow> bool option" where
  "isStackAllocation m v =
     (case localOf v of
        None \<Rightarrow> None
      | Some n \<Rightarrow> (case locals m n of
                     None \<Rightarrow> None
                   | Some l \<Rightarrow> Some (localKind l = StackAllocation)))"

text \<open>
  The unwrapping of the pointer of a lifetime intrinsic, entered when the pointer is not
  a stack allocation itself.
\<close>

definition unwrapPointer :: "Method \<Rightarrow> LocalName \<Rightarrow> Local \<Rightarrow> Value \<Rightarrow> Value" where
  "unwrapPointer m n l pointer =
     (case (case getSingleWriter l of
              Some w \<Rightarrow> (case body w of Move d s \<Rightarrow> Some s | _ \<Rightarrow> None)
            | None \<Rightarrow> None) of
        Some s \<Rightarrow> s
      | None \<Rightarrow>
          (case reference l of
             Some (b, off) \<Rightarrow>
               (case locals m b of
                  Some bl \<Rightarrow> if localKind bl = StackAllocation
                              then LocalValue b (localType bl) else pointer
                | None \<Rightarrow> pointer)
           | None \<Rightarrow> pointer))"

definition lifetimeIntrinsic :: "string \<Rightarrow> Value list \<Rightarrow> Method \<Rightarrow> bool result" where
  "lifetimeIntrinsic methodName arguments method =
     (case arg_at arguments 1 of
        None \<Rightarrow> Fail OutOfRange method
      | Some pointer0 \<Rightarrow>
          (case localOf pointer0 of
             None \<Rightarrow> Fail InvalidAccess method
           | Some n \<Rightarrow>
               (case locals method n of
                  None \<Rightarrow> Fail InvalidAccess method
                | Some l \<Rightarrow>
                    (let pointer = (if localKind l \<noteq> StackAllocation
                                    then unwrapPointer method n l pointer0 else pointer0)
                     in case arg_at arguments 0 of
                          None \<Rightarrow> Fail OutOfRange method
                        | Some a0 \<Rightarrow>
                            if (case getLiteralValue a0 of
                                  Some lit \<Rightarrow> signedInt lit > 0 | None \<Rightarrow> False)
                            then (case isStackAllocation method pointer of
                                    None \<Rightarrow> Fail InvalidAccess method
                                  | Some False \<Rightarrow> Fail InvalidLifetimeTarget method
                                  | Some True \<Rightarrow> Ok True (appendToEnd method
                                      (plain (LifetimeBoundary pointer
                                         (methodName = ''llvm.lifetime.end'')))))
                            else Ok True (appendToEnd method
                                   (plain (LifetimeBoundary pointer
                                      (methodName = ''llvm.lifetime.end''))))))))"

definition markVolatile :: "Method \<Rightarrow> LocalName \<Rightarrow> Method" where
  "markVolatile m n =
     m\<lparr>locals := (locals m)(n := map_option (\<lambda>l. l\<lparr>volatileParameter := True\<rparr>) (locals m n))\<rparr>"

definition memsetIntrinsic :: "Value list \<Rightarrow> Method \<Rightarrow> bool result" where
  "memsetIntrinsic arguments method =
     (case (arg_at arguments 0, arg_at arguments 1, arg_at arguments 2, arg_at arguments 4) of
        (Some memAddr, Some fillByte, Some numBytes, Some volatileAccess) \<Rightarrow>
          (let m1 =
             (if (case getLiteralValue volatileAccess of Some lit \<Rightarrow> isTrue lit | None \<Rightarrow> False)
              then (case memAddr of
                      LocalValue n t \<Rightarrow>
                        (case locals method n of
                           Some l \<Rightarrow>
                             (case locals method (getBase l) of
                                Some bl \<Rightarrow> if localKind bl = Parameter
                                            then markVolatile method (getBase l) else method
                              | None \<Rightarrow> method)
                         | None \<Rightarrow> method)
                    | _ \<Rightarrow> method)
              else method)
           in Ok True (appendToEnd m1
                (plain (MemoryInstruction FILL memAddr fillByte (Some numBytes)))))
      | _ \<Rightarrow> Fail OutOfRange method)"

definition createReference :: "Method \<Rightarrow> LocalName \<Rightarrow> Value option" where
  "createReference m n = map_option (\<lambda>l. LocalValue n (localType l)) (locals m n)"


definition CallSite_mapInstruction ::
  "LocalName option \<Rightarrow> string \<Rightarrow> DataType \<Rightarrow> Value list \<Rightarrow> InstructionDecorations
     \<Rightarrow> Method \<Rightarrow> bool result" where
  "CallSite_mapInstruction dest methodName retType arguments deco method =
     (if prefix ''llvm.lifetime.start'' methodName \<or> prefix ''llvm.lifetime.end'' methodName
      then lifetimeIntrinsic methodName arguments method
      else
        (let output = (case dest of None \<Rightarrow> NOP_REGISTER | Some d \<Rightarrow> LocalValue d retType)
         in if prefix ''llvm.fmuladd'' methodName
            then
              (let (tmp, m1) = addNewLocal method retType ''%fmuladd''
               in case (arg_at arguments 0, arg_at arguments 1) of
                    (Some a0, Some a1) \<Rightarrow>
                      (let m2 = appendToEnd m1 (plain (Operation OP_FMUL tmp a0 (Some a1)))
                       in case arg_at arguments 2 of
                            Some a2 \<Rightarrow>
                              Ok True (appendToEnd m2 (plain (Operation OP_FADD output tmp (Some a2))))
                          | None \<Rightarrow> Fail OutOfRange m2)
                  | _ \<Rightarrow> Fail OutOfRange m1)
            else if prefix ''llvm.memcpy'' methodName
            then
              (case (arg_at arguments 0, arg_at arguments 1, arg_at arguments 2) of
                 (Some a0, Some a1, Some a2) \<Rightarrow>
                   Ok True (appendToEnd method (plain (MemoryInstruction COPY a0 a1 (Some a2))))
               | _ \<Rightarrow> Fail OutOfRange method)
            else if prefix ''llvm.memset'' methodName
            then memsetIntrinsic arguments method
            else if prefix ''llvm.bswap'' methodName
            then
              (case arg_at arguments 0 of
                 Some a0 \<Rightarrow> Ok True (snd (insertByteSwap (endOf method) method a0 output))
               | None \<Rightarrow> Fail OutOfRange method)
            else if prefix ''shuffle2'' methodName
            then
              (case (arg_at arguments 0, arg_at arguments 1, arg_at arguments 2) of
                 (Some a0, Some a1, Some a2) \<Rightarrow>
                   Ok True (snd (insertVectorShuffle (endOf method) method output a0 a1 a2))
               | _ \<Rightarrow> Fail OutOfRange method)
            else if prefix ''mem_fence'' methodName \<or> prefix ''read_mem_fence'' methodName \<or>
                    prefix ''write_mem_fence'' methodName
            then
              (case arg_at arguments 0 of
                 None \<Rightarrow> Fail OutOfRange method
               | Some a0 \<Rightarrow>
                   (case getLiteralValue a0 of
                      None \<Rightarrow> Fail InvalidAccess method
                    | Some lit \<Rightarrow>
                        Ok True (appendToEnd method (plain (MemoryBarrier lit ACQUIRE_RELEASE)))))
            else if dest = None
            then Ok True (appendToEnd method
                   (addDecorations deco (plain (MethodCall None methodName arguments))))
            else Ok True (appendToEnd method
                   (addDecorations deco (plain (MethodCall (Some output) methodName arguments))))))"

definition Selection_mapInstruction ::
  "LocalName \<Rightarrow> Value \<Rightarrow> Value \<Rightarrow> Value \<Rightarrow> Method \<Rightarrow> bool result" where
  "Selection_mapInstruction dest cond opt1 opt2 method =
     (let m1 =
        (if isScalarType (vtype cond) \<and>
            (\<not> isScalarType (vtype opt1) \<or> \<not> isScalarType (vtype opt2))
         then
           (let (it, m') = insertReplication (endOf method) method cond NOP_REGISTER True
            in modifyAt (previousInBlock it) m' (\<lambda>i. i\<lparr>setFlags := SET_FLAGS\<rparr>))
         else appendToEnd method (MoveOperation NOP_REGISTER cond COND_ALWAYS SET_FLAGS));
          m2 = appendToEnd m1
                 (MoveOperation (LocalValue dest (vtype opt1)) opt1 COND_ZERO_CLEAR DONT_SET);
          m3 = appendToEnd m2
                 (MoveOperation (LocalValue dest (vtype opt2)) opt2 COND_ZERO_SET DONT_SET)
      in Ok True m3)"

definition COMP_EQ :: string where
  "COMP_EQ = ''eq''"

text \<open>The body of the loop over the case table of a switch.\<close>

definition Switch_case :: "Value \<Rightarrow> int \<times> string \<Rightarrow> Method \<Rightarrow> Method" where
  "Switch_case cond option m =
     (let (tmp, ma) = addNewLocal m TYPE_BOOL ''%switch'';
          mb = appendToEnd ma (plain (Comparison COMP_EQ tmp cond
                 (LiteralValue (of_int (fst option)) TYPE_INT32)));
          (label, mc) = findOrCreateLocal mb TYPE_LABEL (snd option)
      in appendToEnd mc (mkInstruction (Branch label tmp) COND_ZERO_CLEAR DONT_SET))"

definition Switch_mapInstruction ::
  "Value \<Rightarrow> string \<Rightarrow> (int \<times> string) list \<Rightarrow> Method \<Rightarrow> bool result" where
  "Switch_mapInstruction cond defaultLabel jumpLabels method =
     (let m1 = fold (Switch_case cond) jumpLabels method;
          (label, m2) = findOrCreateLocal m1 TYPE_LABEL defaultLabel
      in Ok True (appendToEnd m2 (mkInstruction (Branch label BOOL_TRUE) COND_ALWAYS DONT_SET)))"

fun mapInstruction :: "LLVMInstruction \<Rightarrow> Method \<Rightarrow> bool result" where
  "mapInstruction (CallSite dest methodName retType arguments deco) method =
     CallSite_mapInstruction dest methodName retType arguments deco method"
| "mapInstruction (Copy dest orig isLoadStore isRead isBitcast) method =
     (if isBitcast
      then (case insertBitcast (endOf method) method orig dest {} of
              Ok it m \<Rightarrow> Ok True m
            | Fail e m \<Rightarrow> Fail e m)
      else if isLoadStore
      then (if isRead
            then Ok True (appendToEnd method (plain (MemoryInstruction READ dest orig None)))
            else Ok True (appendToEnd method (plain (MemoryInstruction WRITE dest orig None))))
      else Ok True (appendToEnd method (plain (Move dest orig))))"
| "mapInstruction (UnaryOperator opCode dest arg deco) method =
     (if findOpCode opCode \<noteq> OP_NOP
      then Ok True (appendToEnd method
             (addDecorations deco (plain (Operation (findOpCode opCode) dest arg None))))
      else Ok True (appendToEnd method
             (addDecorations deco (plain (IntrinsicOperation opCode dest arg None)))))"
| "mapInstruction (BinaryOperator opCode dest arg arg2 deco) method =
     (if findOpCode opCode \<noteq> OP_NOP
      then Ok True (appendToEnd method
             (addDecorations deco (plain (Operation (findOpCode opCode) dest arg (Some arg2)))))
      else Ok True (appendToEnd method
             (addDecorations deco (plain (IntrinsicOperation opCode dest arg (Some arg2))))))"
| "mapInstruction (IndexOf dest container indices) method =
     Ok True (snd (insertCalculateIndices (endOf method) method container dest indices))"
| "mapInstruction (LLVMComparison dest comparison op1 op2 isFloat deco) method =
     (case createReference method dest of
        None \<Rightarrow> Fail InvalidAccess method
      | Some d \<Rightarrow> Ok True (appendToEnd method
                   (addDecorations deco (plain (Comparison comparison d op1 op2)))))"
| "mapInstruction (ContainerInsertion dest container newValue index) method =
     (let m1 = appendToEnd method (plain (Move (LocalValue dest (vtype container)) container))
      in if isVectorType (vtype container) \<or> hasLiteral index 0
         then Ok True (snd (insertVectorInsertion (endOf m1) m1
                (LocalValue dest (vtype container)) index newValue))
         else Fail UnsupportedContainerInsertion m1)"
| "mapInstruction (ContainerExtraction dest container index) method =
     (let elementType = getElementType (vtype container)
      in if isVectorType (vtype container) \<or> hasLiteral index 0
         then Ok True (snd (insertVectorExtraction (endOf method) method container index
                (LocalValue dest elementType)))
         else Fail UnsupportedContainerExtraction method)"
| "mapInstruction (ValueReturn hasValue val) method =
     (if hasValue then Ok True (appendToEnd method (plain (Return (Some val))))
      else Ok True (appendToEnd method (plain (Return None))))"
| "mapInstruction (ShuffleVector dest v1 v2 msk) method =
     Ok True (snd (insertVectorShuffle (endOf method) method dest v1 v2 msk))"
| "mapInstruction (LLVMLabel label) method =
     Ok True (appendToEnd method (plain (BranchLabel label)))"
| "mapInstruction (LLVMPhiNode dest labels) method =
     (case createReference method dest of
        None \<Rightarrow> Fail InvalidAccess method
      | Some d \<Rightarrow> Ok True (appendToEnd method (plain (PhiNode d labels))))"
| "mapInstruction (Selection dest cond opt1 opt2) method =
     Selection_mapInstruction dest cond opt1 opt2 method"
| "mapInstruction (LLVMBranch_unconditional label) method =
     Ok True (appendToEnd method
       (mkInstruction (Branch label BOOL_TRUE) COND_ALWAYS DONT_SET))"
| "mapInstruction (LLVMBranch cond thenLabel elseLabel) method =
     (if cond = BOOL_TRUE
      then Ok True (appendToEnd method
             (mkInstruction (Branch thenLabel BOOL_TRUE) COND_ALWAYS DONT_SET))
      else Ok True (appendToEnd
             (appendToEnd method (mkInstruction (Branch thenLabel cond) COND_ZERO_CLEAR DONT_SET))
             (mkInstruction (Branch elseLabel cond) COND_ZERO_SET DONT_SET)))"
| "mapInstruction (Switch cond defaultLabel jumpLabels) method =
     Switch_mapInstruction cond defaultLabel jumpLabels method"


section \<open>The target machine, to read what an instruction sequence computes\<close>

text \<open>
  Modelled from the spec: the target is a SIMD processor with 16 lanes and a 32-bit ALU per
  lane; its interpreter is no part of the sources. A storage location holds one 32-bit word
  per lane, a scalar occupies lane 0, and each lane has a zero flag. The model covers the
  integer instructions the type-conversion engine emits: moves with the integer pack and
  unpack modes, the bitwise and shift operations (a shift uses the low five bits of its
  amount), load-immediate, and the vector primitives as the spec names them:
  \<open>rotate\<close> moves lane \<open>j + k\<close> to lane \<open>j\<close> when rotating down by \<open>k\<close>,
  \<open>extractLane\<close> yields the chosen lane as a scalar, \<open>insertLane\<close> overwrites the chosen
  lane with a scalar, and the replicate-all register holds lane 0 of what was written to it in
  every lane. Everything else is outside the model: \<open>exec\<close> gives \<open>None\<close>.
\<close>

datatype Location = LocalLoc LocalName | RegisterLoc Register

type_synonym Lanes = "nat \<Rightarrow> 32 word"

record MachineState =
  regs :: "Location \<Rightarrow> Lanes"
  zeroFlags :: "nat \<Rightarrow> bool"

fun readValue :: "MachineState \<Rightarrow> Value \<Rightarrow> Lanes option" where
  "readValue \<sigma> (LiteralValue l t) = Some (\<lambda>j. l)"
| "readValue \<sigma> (LocalValue n t) = Some (regs \<sigma> (LocalLoc n))"
| "readValue \<sigma> (RegisterValue r t) = Some (regs \<sigma> (RegisterLoc r))"
| "readValue \<sigma> (UndefinedValue t) = None"

fun locationOf :: "Value \<Rightarrow> Location option" where
  "locationOf (LocalValue n t) = Some (LocalLoc n)"
| "locationOf (RegisterValue r t) = Some (RegisterLoc r)"
| "locationOf v = None"

fun condHolds :: "ConditionCode \<Rightarrow> bool \<Rightarrow> bool" where
  "condHolds COND_ALWAYS z = True"
| "condHolds COND_ZERO_SET z = z"
| "condHolds COND_ZERO_CLEAR z = (\<not> z)"

definition writeLanes :: "Instruction \<Rightarrow> Location \<Rightarrow> Lanes \<Rightarrow> MachineState \<Rightarrow> MachineState" where
  "writeLanes i loc v \<sigma> =
     (let stored = (if loc = RegisterLoc REG_REPLICATE_ALL then (\<lambda>j. v 0) else v)
      in \<lparr>regs = (regs \<sigma>)(loc := (\<lambda>j. if condHolds (conditional i) (zeroFlags \<sigma> j)
                                          then stored j else regs \<sigma> loc j)),
          zeroFlags = (if setFlags i = SET_FLAGS then (\<lambda>j. v j = 0) else zeroFlags \<sigma>)\<rparr>)"

definition writeResult ::
  "Instruction \<Rightarrow> Value \<Rightarrow> Lanes \<Rightarrow> MachineState \<Rightarrow> MachineState option" where
  "writeResult i dest v \<sigma> = map_option (\<lambda>loc. writeLanes i loc v \<sigma>) (locationOf dest)"

fun aluSupported :: "OpCode \<Rightarrow> bool" where
  "aluSupported OP_FMUL = False"
| "aluSupported OP_FADD = False"
| "aluSupported OP_NOP = False"
| "aluSupported opc = True"

fun alu :: "OpCode \<Rightarrow> 32 word \<Rightarrow> 32 word \<Rightarrow> 32 word" where
  "alu OP_AND x y = x AND y"
| "alu OP_OR x y = x OR y"
| "alu OP_XOR x y = x XOR y"
| "alu OP_SHL x y = push_bit (unat (y AND 31)) x"
| "alu OP_SHR x y = drop_bit (unat (y AND 31)) x"
| "alu OP_ASR x y = signed_drop_bit (unat (y AND 31)) x"
| "alu OP_ADD x y = x + y"
| "alu OP_SUB x y = x - y"
| "alu opc x y = 0"

fun packSupported :: "PackMode \<Rightarrow> bool" where
  "packSupported PACK_FLOAT_TO_HALF_TRUNCATE = False"
| "packSupported p = True"

fun applyPack :: "PackMode \<Rightarrow> 32 word \<Rightarrow> 32 word" where
  "applyPack PACK_INT_TO_CHAR_TRUNCATE x = x AND mask 8"
| "applyPack PACK_INT_TO_SHORT_TRUNCATE x = x AND mask 16"
| "applyPack PACK_INT_TO_UNSIGNED_CHAR_SATURATE x = of_int (saturate 0 255 (sint x))"
| "applyPack PACK_INT_TO_SIGNED_SHORT_SATURATE x = of_int (saturate (- 32768) 32767 (sint x))"
| "applyPack p x = x"

fun unpackSupported :: "UnpackMode \<Rightarrow> bool" where
  "unpackSupported UNPACK_HALF_TO_FLOAT = False"
| "unpackSupported u = True"

fun applyUnpack :: "UnpackMode \<Rightarrow> 32 word \<Rightarrow> 32 word" where
  "applyUnpack UNPACK_CHAR_TO_INT_ZEXT x = x AND mask 8"
| "applyUnpack UNPACK_SHORT_TO_INT_SEXT x = signed_take_bit 15 x"
| "applyUnpack u x = x"

definition laneIndex :: "Lanes \<Rightarrow> nat" where
  "laneIndex v = unat (v 0)"

definition exec :: "Instruction \<Rightarrow> MachineState \<Rightarrow> MachineState option" where
  "exec i \<sigma> =
     (if \<not> packSupported (packMode i) \<or> \<not> unpackSupported (unpackMode i) then None
      else case body i of
        Move d s \<Rightarrow>
          (case readValue \<sigma> s of
             None \<Rightarrow> None
           | Some v \<Rightarrow> writeResult i d
               (\<lambda>j. applyPack (packMode i) (applyUnpack (unpackMode i) (v j))) \<sigma>)
      | Operation opc d a (Some b) \<Rightarrow>
          (if \<not> aluSupported opc then None
           else case (readValue \<sigma> a, readValue \<sigma> b) of
                  (Some va, Some vb) \<Rightarrow> writeResult i d
                    (\<lambda>j. applyPack (packMode i)
                            (alu opc (applyUnpack (unpackMode i) (va j))
                                     (applyUnpack (unpackMode i) (vb j)))) \<sigma>
                | _ \<Rightarrow> None)
      | LoadImmediate d l \<Rightarrow> writeResult i d (\<lambda>j. l) \<sigma>
      | VectorRotation s offset d dir \<Rightarrow>
          (case (readValue \<sigma> s, readValue \<sigma> offset) of
             (Some v, Some k) \<Rightarrow> writeResult i d
               (\<lambda>j. case dir of
                       DOWN \<Rightarrow> v ((j + laneIndex k) mod 16)
                     | UP \<Rightarrow> v ((j + 16 - laneIndex k mod 16) mod 16)) \<sigma>
           | _ \<Rightarrow> None)
      | VectorExtraction container index d \<Rightarrow>
          (case (readValue \<sigma> container, readValue \<sigma> index, readValue \<sigma> d) of
             (Some v, Some k, Some old) \<Rightarrow> writeResult i d (old(0 := v (laneIndex k))) \<sigma>
           | _ \<Rightarrow> None)
      | VectorInsertion container index val \<Rightarrow>
          (case (readValue \<sigma> container, readValue \<sigma> index, readValue \<sigma> val) of
             (Some old, Some k, Some v) \<Rightarrow> writeResult i container (old(laneIndex k := v 0)) \<sigma>
           | _ \<Rightarrow> None)
      | _ \<Rightarrow> None)"

fun run :: "Instruction list \<Rightarrow> MachineState \<Rightarrow> MachineState option" where
  "run [] \<sigma> = Some \<sigma>"
| "run (i # is) \<sigma> = (case exec i \<sigma> of None \<Rightarrow> None | Some \<sigma>' \<Rightarrow> run is \<sigma>')"

text \<open>
  The instructions a conversion routine put into the list: those between the cursor it was
  given and the cursor it returned.
\<close>

definition emitted :: "nat \<Rightarrow> nat \<Rightarrow> Method \<Rightarrow> Instruction list" where
  "emitted it it' m = take (it' - it) (drop it (instructions m))"

text \<open>
  The raw bit pattern of a vector of a type: bit \<open>b\<close> of the pattern is bit
  \<open>b mod w\<close> of lane \<open>b div w\<close>, for the scalar width \<open>w\<close>, so that a low-index
  element occupies the low bits.
\<close>

definition rawBit :: "DataType \<Rightarrow> Lanes \<Rightarrow> nat \<Rightarrow> bool" where
  "rawBit t v b = bit (v (b div getScalarBitCount t)) (b mod getScalarBitCount t)"

definition totalBits :: "DataType \<Rightarrow> nat" where
  "totalBits t = getScalarBitCount t * getVectorWidth t"

text \<open>A value refers to no local that \<open>addNewLocal\<close> is still to create.\<close>

fun knownValue :: "Method \<Rightarrow> Value \<Rightarrow> bool" where
  "knownValue m (LocalValue (Temp p k) t) = (k < localCounter m)"
| "knownValue m v = True"

definition emptyMethod :: Method where
  "emptyMethod = \<lparr>name = ''kernel'', returnType = TYPE_INT32, parameters = [],
     instructions = [], locals = (\<lambda>n. None), localCounter = 0\<rparr>"

text \<open>The names the intrinsic table of \<open>CallSite::mapInstruction\<close> takes out of the generic call.\<close>

definition isIntrinsicName :: "string \<Rightarrow> bool" where
  "isIntrinsicName n =
     (prefix ''llvm.lifetime.start'' n \<or> prefix ''llvm.lifetime.end'' n \<or>
      prefix ''llvm.fmuladd'' n \<or> prefix ''llvm.memcpy'' n \<or> prefix ''llvm.memset'' n \<or>
      prefix ''llvm.bswap'' n \<or> prefix ''shuffle2'' n \<or> prefix ''mem_fence'' n \<or>
      prefix ''read_mem_fence'' n \<or> prefix ''write_mem_fence'' n)"


section \<open>The instruction sequences of the bit-casts\<close>

text \<open>
  The fresh locals of a bit-cast are the temporaries \<open>%bit_cast\<close> numbered from the
  counter of the method on.
\<close>

definition tempValue :: "nat \<Rightarrow> DataType \<Rightarrow> Value" where
  "tempValue k t = LocalValue (Temp BIT_CAST k) t"

definition tempLoc :: "nat \<Rightarrow> Location" where
  "tempLoc k = LocalLoc (Temp BIT_CAST k)"

text \<open>
  \<open>inserted it m it' m' p\<close>: the method \<open>m'\<close> has the instructions of \<open>m\<close> with the list
  \<open>p\<close> put in at the cursor \<open>it\<close>, and \<open>it'\<close> is the cursor behind \<open>p\<close>.
\<close>

definition inserted :: "nat \<Rightarrow> Method \<Rightarrow> nat \<Rightarrow> Method \<Rightarrow> Instruction list \<Rightarrow> bool" where
  "inserted it m it' m' p =
     (it \<le> length (instructions m) \<and> it' = it + length p \<and>
      instructions m' = take it (instructions m) @ p @ drop it (instructions m))"

text \<open>
  What the loops of \<open>insertCombiningBitcast\<close> and \<open>insertSplittingBitcast\<close> put into the
  list, as lists: the shifts, the rotations, the accumulation and the assembly of the
  destination, for the number \<open>c\<close> of the first fresh local. That the two routines emit
  these lists is proved below.
\<close>

definition shlInstruction :: "DataType \<Rightarrow> Value \<Rightarrow> nat \<Rightarrow> nat \<Rightarrow> nat \<Rightarrow> Instruction" where
  "shlInstruction tyV ts shift b i =
     plain (Operation OP_SHL (tempValue (b + i) tyV) ts
       (Some (LiteralValue (of_nat (shift * i)) TYPE_INT8)))"

definition shiftProgram :: "DataType \<Rightarrow> Value \<Rightarrow> nat \<Rightarrow> nat \<Rightarrow> nat \<Rightarrow> Instruction list" where
  "shiftProgram tyV ts shift b n = map (shlInstruction tyV ts shift b) [0..<n]"

definition rotatedValue :: "DataType \<Rightarrow> nat \<Rightarrow> nat \<Rightarrow> nat \<Rightarrow> Value" where
  "rotatedValue tyV b1 b2 i = (if i = 0 then tempValue b1 tyV else tempValue (b2 + i - 1) tyV)"

definition rotateInstructions :: "DataType \<Rightarrow> nat \<Rightarrow> nat \<Rightarrow> nat \<Rightarrow> Instruction list" where
  "rotateInstructions tyV b1 b2 i =
     (if i = 0 then []
      else [plain (VectorRotation (tempValue (b1 + i) tyV) (LiteralValue (of_nat i) TYPE_INT8)
                     (tempValue (b2 + i - 1) tyV) DOWN)])"

definition rotateProgram :: "DataType \<Rightarrow> nat \<Rightarrow> nat \<Rightarrow> nat \<Rightarrow> Instruction list" where
  "rotateProgram tyV b1 b2 n = concat (map (rotateInstructions tyV b1 b2) [0..<n])"

definition combinedValue :: "DataType \<Rightarrow> nat \<Rightarrow> nat \<Rightarrow> Value" where
  "combinedValue tyV b3 k = (if k = 0 then INT_ZERO else tempValue (b3 + k - 1) tyV)"

definition orInstruction :: "DataType \<Rightarrow> (nat \<Rightarrow> Value) \<Rightarrow> nat \<Rightarrow> nat \<Rightarrow> Instruction" where
  "orInstruction tyV rv b3 k =
     plain (Operation OP_OR (tempValue (b3 + k) tyV) (combinedValue tyV b3 k) (Some (rv k)))"

definition orProgram :: "DataType \<Rightarrow> (nat \<Rightarrow> Value) \<Rightarrow> nat \<Rightarrow> nat \<Rightarrow> Instruction list" where
  "orProgram tyV rv b3 n = map (orInstruction tyV rv b3) [0..<n]"

definition assembleInstructions ::
  "DataType \<Rightarrow> (nat \<Rightarrow> Value) \<Rightarrow> (nat \<Rightarrow> nat) \<Rightarrow> Value \<Rightarrow> nat \<Rightarrow> nat \<Rightarrow> Instruction list" where
  "assembleInstructions tyD vec lane dst b i =
     [plain (VectorExtraction (vec i) (LiteralValue (of_nat (lane i)) TYPE_INT8)
               (tempValue (b + i) tyD)),
      plain (VectorInsertion dst (LiteralValue (of_nat i) TYPE_INT8) (tempValue (b + i) tyD))]"

definition assembleProgram ::
  "DataType \<Rightarrow> (nat \<Rightarrow> Value) \<Rightarrow> (nat \<Rightarrow> nat) \<Rightarrow> Value \<Rightarrow> nat \<Rightarrow> nat \<Rightarrow> Instruction list" where
  "assembleProgram tyD vec lane dst b n =
     concat (map (assembleInstructions tyD vec lane dst b) [0..<n])"

definition combiningProgram :: "nat \<Rightarrow> Value \<Rightarrow> Value \<Rightarrow> Instruction list" where
  "combiningProgram c src dest =
     (let sf = getScalarBitCount (vtype dest) div getScalarBitCount (vtype src);
          tyV = toVectorType (vtype dest) (getVectorWidth (vtype src))
      in [plain (Operation OP_AND (tempValue c (vtype src)) src
                  (Some (LiteralValue (getScalarWidthMask (vtype src)) TYPE_INT32)))] @
         shiftProgram tyV (tempValue c (vtype src)) (getScalarBitCount (vtype src)) (c + 1) sf @
         rotateProgram tyV (c + 1) (c + 1 + sf) sf @
         orProgram tyV (rotatedValue tyV (c + 1) (c + 1 + sf)) (c + 2 * sf) sf @
         [plain (Move (tempValue (c + 3 * sf) (vtype dest)) INT_ZERO)] @
         assembleProgram (vtype dest) (\<lambda>i. combinedValue tyV (c + 2 * sf) sf) (\<lambda>i. i * sf)
           (tempValue (c + 3 * sf) (vtype dest)) (c + 3 * sf + 1) (getVectorWidth (vtype dest)))"

definition splitShiftInstructions :: "DataType \<Rightarrow> Value \<Rightarrow> nat \<Rightarrow> nat \<Rightarrow> nat \<Rightarrow> Instruction list" where
  "splitShiftInstructions tyD src shift b i =
     [plain (Operation OP_SHR (tempValue (b + 2 * i + 1) tyD) src
        (Some (LiteralValue (of_nat (shift * i)) TYPE_INT8))),
      plain (Operation OP_AND (tempValue (b + 2 * i) tyD) (tempValue (b + 2 * i + 1) tyD)
        (Some (LiteralValue (getScalarWidthMask tyD) TYPE_INT32)))]"

definition splitShiftProgram :: "DataType \<Rightarrow> Value \<Rightarrow> nat \<Rightarrow> nat \<Rightarrow> nat \<Rightarrow> Instruction list" where
  "splitShiftProgram tyD src shift b n = concat (map (splitShiftInstructions tyD src shift b) [0..<n])"

definition splittingProgram :: "nat \<Rightarrow> Value \<Rightarrow> Value \<Rightarrow> Instruction list" where
  "splittingProgram c src dest =
     (let sf = getScalarBitCount (vtype src) div getScalarBitCount (vtype dest)
      in splitShiftProgram (vtype dest) src (getScalarBitCount (vtype dest)) c sf @
         [plain (Move (tempValue (c + 2 * sf) (vtype dest)) INT_ZERO)] @
         assembleProgram (vtype dest) (\<lambda>i. tempValue (c + 2 * (i mod sf)) (vtype dest))
           (\<lambda>i. i div sf) (tempValue (c + 2 * sf) (vtype dest)) (c + 2 * sf + 1)
           (getVectorWidth (vtype dest)))"

text \<open>
  \<open>frame W \<sigma> \<sigma>'\<close>: the two states differ at most in the temporaries whose numbers
  satisfy \<open>W\<close>. \<open>bigOr f n\<close> is the OR of \<open>f 0\<close>, ..., \<open>f (n - 1)\<close>.
\<close>

definition frame :: "(nat \<Rightarrow> bool) \<Rightarrow> MachineState \<Rightarrow> MachineState \<Rightarrow> bool" where
  "frame W \<sigma> \<sigma>' = (\<forall>l. (\<forall>k. W k \<longrightarrow> l \<noteq> tempLoc k) \<longrightarrow> regs \<sigma>' l = regs \<sigma> l)"

fun bigOr :: "(nat \<Rightarrow> 32 word) \<Rightarrow> nat \<Rightarrow> 32 word" where
  "bigOr f 0 = 0"
| "bigOr f (Suc n) = bigOr f n OR f n"

text \<open>
  The bit-casts the machine can hold: elements of 8, 16 or 32 bits, 1 to 16 lanes, equal total
  size, a destination that is a local, and a source that refers to no temporary still to be
  created.
\<close>

definition castable :: "Method \<Rightarrow> Value \<Rightarrow> Value \<Rightarrow> bool" where
  "castable m src dest =
     (knownValue m src \<and> hasType dest LOCAL \<and>
      getScalarBitCount (vtype src) \<in> {8, 16, 32} \<and>
      getScalarBitCount (vtype dest) \<in> {8, 16, 32} \<and>
      0 < getVectorWidth (vtype src) \<and> getVectorWidth (vtype src) \<le> 16 \<and>
      0 < getVectorWidth (vtype dest) \<and> getVectorWidth (vtype dest) \<le> 16 \<and>
      totalBits (vtype src) = totalBits (vtype dest))"

section \<open>Concrete inputs and shorthands for the statements\<close>

definition ARRAY_TYPE :: DataType where
  "ARRAY_TYPE = \<lparr>typeKind = ComplexType, getScalarBitCount = 32, getVectorWidth = 1\<rparr>"


definition INT32x4 :: DataType where
  "INT32x4 = \<lparr>typeKind = IntegerType, getScalarBitCount = 32, getVectorWidth = 4\<rparr>"

definition zeroState :: MachineState where
  "zeroState = \<lparr>regs = (\<lambda>loc j. 0), zeroFlags = (\<lambda>j. False)\<rparr>"


text \<open>The compare and branch pair of one case of a switch, for the fresh local number \<open>k\<close>.\<close>

definition switchCase :: "Value \<Rightarrow> nat \<times> int \<times> string \<Rightarrow> Instruction list" where
  "switchCase cond kc =
     [plain (Comparison COMP_EQ (LocalValue (Temp ''%switch'' (fst kc)) TYPE_BOOL) cond
        (LiteralValue (of_int (fst (snd kc))) TYPE_INT32)),
      mkInstruction (Branch (Named (snd (snd kc))) (LocalValue (Temp ''%switch'' (fst kc)) TYPE_BOOL))
        COND_ZERO_CLEAR DONT_SET]"






definition INT16x4 :: DataType where
  "INT16x4 = TYPE_INT16\<lparr>getVectorWidth := 4\<rparr>"

definition INT32x2 :: DataType where
  "INT32x2 = TYPE_INT32\<lparr>getVectorWidth := 2\<rparr>"

text \<open>The lanes of a vector given as a list, and the state in which one local holds them.\<close>

definition lanesOf :: "32 word list \<Rightarrow> Lanes" where
  "lanesOf xs j = (if j < length xs then xs ! j else 0)"

definition holding :: "LocalName \<Rightarrow> Lanes \<Rightarrow> MachineState" where
  "holding n v = \<lparr>regs = (\<lambda>l. if l = LocalLoc n then v else (\<lambda>j. 0)), zeroFlags = (\<lambda>j. False)\<rparr>"

text \<open>The operands of the bit-cast examples.\<close>

definition shortVector :: Value where
  "shortVector = LocalValue (Named ''x'') INT16x4"

definition intVector :: Value where
  "intVector = LocalValue (Named ''y'') INT32x2"

definition shortResult :: Value where
  "shortResult = LocalValue (Named ''z'') INT16x4"

definition longValue :: Value where
  "longValue = LocalValue (Named ''w'') TYPE_INT64"

section \<open>Properties\<close>

subsection \<open>The cursor\<close>




lemma instructions_addNewLocal [simp]:
  "instructions (snd (addNewLocal m t p)) = instructions m"
  by (simp add: addNewLocal_def Let_def)

lemma mask_wide [simp]: "32 \<le> n \<Longrightarrow> (x :: 32 word) AND mask n = x"
  by (simp flip: take_bit_eq_mask add: take_bit_word_eq_self)

subsection \<open>Container insertion and extraction\<close>

lemma ContainerInsertion_fails_after_move:
  assumes "\<not> isVectorType (vtype container)" and "\<not> hasLiteral index 0"
  shows "mapInstruction (ContainerInsertion dest container newValue index) method =
           Fail UnsupportedContainerInsertion
             (appendToEnd method (plain (Move (LocalValue dest (vtype container)) container)))"
  using assms by (simp add: Let_def)

lemma ContainerExtraction_fails_before_anything:
  assumes "\<not> isVectorType (vtype container)" and "\<not> hasLiteral index 0"
  shows "mapInstruction (ContainerExtraction dest container index) method =
           Fail UnsupportedContainerExtraction method"
  using assms by (simp add: Let_def)

text \<open>
  C2. Every lowering rule either appends its complete semantics or raises before it appends
  anything. The insertion into an array at index 1 does not: it appends the copy of the
  container and raises after that, and the method keeps the copy. The extraction from the same
  array raises with the method unchanged.
\<close>

theorem ContainerInsertion_half_emitted:
  "mapInstruction (ContainerInsertion (Named ''d'') (LocalValue (Named ''a'') ARRAY_TYPE)
       (LiteralValue 5 TYPE_INT32) (LiteralValue 1 TYPE_INT32)) emptyMethod =
     Fail UnsupportedContainerInsertion
       (emptyMethod\<lparr>instructions :=
          [plain (Move (LocalValue (Named ''d'') ARRAY_TYPE) (LocalValue (Named ''a'') ARRAY_TYPE))]\<rparr>)
   \<and> mapInstruction (ContainerExtraction (Named ''d'') (LocalValue (Named ''a'') ARRAY_TYPE)
       (LiteralValue 1 TYPE_INT32)) emptyMethod =
     Fail UnsupportedContainerExtraction emptyMethod"
  by (simp add: Let_def isVectorType_def isSimpleType_def ARRAY_TYPE_def appendToEnd_def
        emptyMethod_def)

subsection \<open>Saturation\<close>

lemma insertSaturation_cursor:
  assumes "insertSaturation it method src dest isSigned = Ok it' method'"
  shows "it' = it \<and> (\<exists>i. method' = emplace it method i)"
  using assms
  by (auto simp: insertSaturation_def split: if_splits option.splits)

text \<open>
  C3. Every operation of the type-conversion engine returns with the cursor behind what it
  emitted. \<open>insertSaturation\<close> does not: it returns the cursor that \<open>emplace\<close> left on the
  move, here position 0 of a list whose only instruction, at position 0, is that move.
  \<open>insertTruncate\<close>, on the same operands, returns position 1.
\<close>

theorem insertSaturation_cursor_not_advanced:
  "insertSaturation 0 emptyMethod (LocalValue (Named ''x'') TYPE_INT32)
       (LocalValue (Named ''y'') TYPE_INT8) False =
     Ok 0 (emptyMethod\<lparr>instructions :=
        [addDecorations {UNSIGNED_RESULT} (setPackMode PACK_INT_TO_UNSIGNED_CHAR_SATURATE
           (plain (Move (LocalValue (Named ''y'') TYPE_INT8) (LocalValue (Named ''x'') TYPE_INT32))))]\<rparr>)
   \<and> insertTruncate 0 emptyMethod (LocalValue (Named ''x'') TYPE_INT32)
       (LocalValue (Named ''y'') TYPE_INT8) =
     (1, emptyMethod\<lparr>instructions :=
        [plain (Operation OP_AND (LocalValue (Named ''y'') TYPE_INT8)
           (LocalValue (Named ''x'') TYPE_INT32) (Some (LiteralValue 255 TYPE_INT32)))]\<rparr>)"
  by (simp add: insertSaturation_def insertTruncate_def isSimpleType_def isFloatingType_def
        TYPE_INT8_def TYPE_INT32_def emplace_def emptyMethod_def nextInBlock_def
        getScalarWidthMask_def mask_eq_exp_minus_1)

theorem insertSaturation_cursor_not_advanced_witness:
  "\<exists>method'. insertSaturation 0 emptyMethod (LocalValue (Named ''x'') TYPE_INT32)
                  (LocalValue (Named ''y'') TYPE_INT8) False = Ok 0 method' \<and>
     length (instructions method') = 1 \<and>
     fst (insertTruncate 0 emptyMethod (LocalValue (Named ''x'') TYPE_INT32)
            (LocalValue (Named ''y'') TYPE_INT8)) = 1"
  using insertSaturation_cursor_not_advanced by simp

text \<open>
  C4, as stated, fails: the pair (8 bits, signed) is outside the three supported pairs, but
  for the literal 300 the routine does not raise; it emits the move of the clamped literal 127.
\<close>

theorem insertSaturation_signed_char_literal_counterexample:
  "insertSaturation 0 emptyMethod (LiteralValue 300 TYPE_INT32)
       (LocalValue (Named ''y'') TYPE_INT8) True =
     Ok 0 (emptyMethod\<lparr>instructions :=
        [plain (Move (LocalValue (Named ''y'') TYPE_INT8) (LiteralValue 127 TYPE_INT8))]\<rparr>)"
  by (simp add: insertSaturation_def isSimpleType_def isFloatingType_def TYPE_INT8_def
        emplace_def emptyMethod_def saturatedLiteral_def saturate_def signedInt_def
        saturationDecorations_def addDecorations_def plain_def mkInstruction_def)

text \<open>
  C4, amended. For every source that is not a literal, a pair of destination width and
  signedness other than 8-bit unsigned, 16-bit signed and 32-bit raises
  UnsupportedSaturationTarget and leaves the method as it was. For a literal source and an
  integer destination of 8, 16 or 32 bits the routine emits one plain move of the literal
  clamped to the signed or unsigned range of that width: unsigned 8-bit of 300 is 255, signed
  16-bit of -40000 is -32768.
\<close>

theorem insertSaturation_targets:
  "(getLiteralValue src = None \<and>
    \<not> (getScalarBitCount (vtype dest) = 8 \<and> \<not> isSigned) \<and>
    \<not> (getScalarBitCount (vtype dest) = 16 \<and> isSigned) \<and>
    getScalarBitCount (vtype dest) \<noteq> 32
    \<longrightarrow> (\<exists>e. insertSaturation it method src dest isSigned = Fail e method \<and>
             UnsupportedSaturationTarget e)) \<and>
   (getLiteralValue src = Some l \<and> isSimpleType (vtype dest) \<and> \<not> isFloatingType (vtype dest) \<and>
    getScalarBitCount (vtype dest) \<in> {8, 16, 32}
    \<longrightarrow> insertSaturation it method src dest isSigned =
          Ok it (emplace it method
            (addDecorations (if isSigned then {} else {UNSIGNED_RESULT})
               (plain (Move dest (LiteralValue
                  (if isSigned
                   then of_int (max (- (2 ^ (getScalarBitCount (vtype dest) - 1)))
                                 (min (2 ^ (getScalarBitCount (vtype dest) - 1) - 1) (sint l)))
                   else of_int (max 0 (min (2 ^ getScalarBitCount (vtype dest) - 1) (uint l))))
                  (vtype dest))))))) \<and>
   insertSaturation 0 emptyMethod (LiteralValue 300 TYPE_INT32)
       (LocalValue (Named ''y'') TYPE_INT8) False =
     Ok 0 (emptyMethod\<lparr>instructions :=
        [addDecorations {UNSIGNED_RESULT}
           (plain (Move (LocalValue (Named ''y'') TYPE_INT8) (LiteralValue 255 TYPE_INT8)))]\<rparr>) \<and>
   insertSaturation 0 emptyMethod (LiteralValue (- 40000) TYPE_INT32)
       (LocalValue (Named ''y'') TYPE_INT16) True =
     Ok 0 (emptyMethod\<lparr>instructions :=
        [plain (Move (LocalValue (Named ''y'') TYPE_INT16) (LiteralValue (- 32768) TYPE_INT16))]\<rparr>)"
proof (intro conjI impI)
  assume "getLiteralValue src = None \<and>
    \<not> (getScalarBitCount (vtype dest) = 8 \<and> \<not> isSigned) \<and>
    \<not> (getScalarBitCount (vtype dest) = 16 \<and> isSigned) \<and>
    getScalarBitCount (vtype dest) \<noteq> 32"
  then show "\<exists>e. insertSaturation it method src dest isSigned = Fail e method \<and>
             UnsupportedSaturationTarget e"
    by (auto simp: insertSaturation_def UnsupportedSaturationTarget_def)
next
  assume "getLiteralValue src = Some l \<and> isSimpleType (vtype dest) \<and>
    \<not> isFloatingType (vtype dest) \<and> getScalarBitCount (vtype dest) \<in> {8, 16, 32}"
  then show "insertSaturation it method src dest isSigned =
          Ok it (emplace it method
            (addDecorations (if isSigned then {} else {UNSIGNED_RESULT})
               (plain (Move dest (LiteralValue
                  (if isSigned
                   then of_int (max (- (2 ^ (getScalarBitCount (vtype dest) - 1)))
                                 (min (2 ^ (getScalarBitCount (vtype dest) - 1) - 1) (sint l)))
                   else of_int (max 0 (min (2 ^ getScalarBitCount (vtype dest) - 1) (uint l))))
                  (vtype dest))))))"
    by (auto simp: insertSaturation_def saturatedLiteral_def saturate_def signedInt_def
          unsignedInt_def saturationDecorations_def)
next
  show "insertSaturation 0 emptyMethod (LiteralValue 300 TYPE_INT32)
       (LocalValue (Named ''y'') TYPE_INT8) False =
     Ok 0 (emptyMethod\<lparr>instructions :=
        [addDecorations {UNSIGNED_RESULT}
           (plain (Move (LocalValue (Named ''y'') TYPE_INT8) (LiteralValue 255 TYPE_INT8)))]\<rparr>)"
    by (simp add: insertSaturation_def isSimpleType_def isFloatingType_def TYPE_INT8_def
        emplace_def emptyMethod_def saturatedLiteral_def saturate_def unsignedInt_def
        saturationDecorations_def)
next
  have "sint (- 40000 :: 32 word) = - 40000" by simp
  then show "insertSaturation 0 emptyMethod (LiteralValue (- 40000) TYPE_INT32)
       (LocalValue (Named ''y'') TYPE_INT16) True =
     Ok 0 (emptyMethod\<lparr>instructions :=
        [plain (Move (LocalValue (Named ''y'') TYPE_INT16) (LiteralValue (- 32768) TYPE_INT16))]\<rparr>)"
    by (simp add: insertSaturation_def isSimpleType_def isFloatingType_def TYPE_INT16_def
        emplace_def emptyMethod_def saturatedLiteral_def saturate_def signedInt_def
        saturationDecorations_def addDecorations_def plain_def mkInstruction_def)
qed

theorem insertSaturation_targets_witness:
  "(\<exists>e. insertSaturation 0 emptyMethod (LocalValue (Named ''x'') TYPE_INT32)
       (LocalValue (Named ''y'') TYPE_INT8) True = Fail e emptyMethod \<and>
       UnsupportedSaturationTarget e) \<and>
   insertSaturation 0 emptyMethod (LiteralValue 70000 TYPE_INT32)
       (LocalValue (Named ''y'') TYPE_INT16) False =
     Ok 0 (emplace 0 emptyMethod (addDecorations {UNSIGNED_RESULT}
        (plain (Move (LocalValue (Named ''y'') TYPE_INT16) (LiteralValue 65535 TYPE_INT16)))))"
proof -
  have a: "\<exists>e. insertSaturation 0 emptyMethod (LocalValue (Named ''x'') TYPE_INT32)
       (LocalValue (Named ''y'') TYPE_INT8) True = Fail e emptyMethod \<and>
       UnsupportedSaturationTarget e"
    using insertSaturation_targets [of "LocalValue (Named ''x'') TYPE_INT32"
        "LocalValue (Named ''y'') TYPE_INT8" True 0 emptyMethod 0]
    by (simp add: TYPE_INT8_def)
  have b: "insertSaturation 0 emptyMethod (LiteralValue 70000 TYPE_INT32)
       (LocalValue (Named ''y'') TYPE_INT16) False =
     Ok 0 (emplace 0 emptyMethod (addDecorations {UNSIGNED_RESULT}
        (plain (Move (LocalValue (Named ''y'') TYPE_INT16) (LiteralValue 65535 TYPE_INT16)))))"
    using insertSaturation_targets [of "LiteralValue 70000 TYPE_INT32"
        "LocalValue (Named ''y'') TYPE_INT16" False 0 emptyMethod 70000]
    by (simp add: TYPE_INT16_def isSimpleType_def isFloatingType_def)
  show ?thesis using a b by simp
qed


subsection \<open>Zero extension\<close>

text \<open>
  C6, as stated, fails: a 64-bit destination is outside 8, 16 and 32 bits, and the
  zero-extension of a 32-bit source to it does not raise; it emits a plain move.
\<close>

theorem insertZeroExtension_wide_destination_counterexample:
  "getScalarBitCount (vtype (LocalValue (Named ''y'') TYPE_INT64)) \<notin> {8, 16, 32} \<and>
   insertZeroExtension 0 emptyMethod (LocalValue (Named ''x'') TYPE_INT32)
       (LocalValue (Named ''y'') TYPE_INT64) True COND_ALWAYS DONT_SET =
     Ok 1 (emptyMethod\<lparr>instructions :=
        [addDecorations {UNSIGNED_RESULT}
          (MoveOperation (LocalValue (Named ''y'') TYPE_INT64) (LocalValue (Named ''x'') TYPE_INT32)
             COND_ALWAYS DONT_SET)]\<rparr>)"
  by (simp add: insertZeroExtension_def TYPE_INT64_def TYPE_INT32_def emplace_def emptyMethod_def
        nextInBlock_def modifyAt_def)

text \<open>
  C6, amended. \<open>insertZeroExtension\<close> raises exactly when the source is 32 bits wide and the
  destination is narrower than 32 bits and neither 8 nor 16 bits wide; the error is then
  InvalidTypeWidth, raised after the move was put into the list. So it never raises for a
  destination of 8, 16 or 32 bits, nor for a wider one.
\<close>

theorem insertZeroExtension_fails_iff:
  "(insertZeroExtension it method src dest allowLiteral cond flags = Fail e method') =
     (e = InvalidTypeWidth \<and> method' = emplace it method (MoveOperation dest src cond flags) \<and>
      getScalarBitCount (vtype src) = 32 \<and> getScalarBitCount (vtype dest) < 32 \<and>
      getScalarBitCount (vtype dest) \<noteq> 8 \<and> getScalarBitCount (vtype dest) \<noteq> 16)"
  by (auto simp: insertZeroExtension_def Let_def split: if_splits prod.splits)

theorem insertZeroExtension_fails_iff_witness:
  "insertZeroExtension 0 emptyMethod (LocalValue (Named ''x'') TYPE_INT32)
       (LocalValue (Named ''y'') TYPE_BOOL) True COND_ALWAYS DONT_SET =
     Fail InvalidTypeWidth (emplace 0 emptyMethod
        (MoveOperation (LocalValue (Named ''y'') TYPE_BOOL) (LocalValue (Named ''x'') TYPE_INT32)
           COND_ALWAYS DONT_SET))"
  using insertZeroExtension_fails_iff [of 0 emptyMethod "LocalValue (Named ''x'') TYPE_INT32"
      "LocalValue (Named ''y'') TYPE_BOOL" True COND_ALWAYS DONT_SET InvalidTypeWidth
      "emplace 0 emptyMethod
        (MoveOperation (LocalValue (Named ''y'') TYPE_BOOL) (LocalValue (Named ''x'') TYPE_INT32)
           COND_ALWAYS DONT_SET)"]
  by (simp add: TYPE_INT32_def TYPE_BOOL_def)



subsection \<open>Switch\<close>

lemma findOrCreateLocal_fields:
  "fst (findOrCreateLocal m t s) = Named s"
  "instructions (snd (findOrCreateLocal m t s)) = instructions m"
  "localCounter (snd (findOrCreateLocal m t s)) = localCounter m"
  by (simp_all add: findOrCreateLocal_def split: option.splits)

lemma switch_loop:
  "instructions (fold (Switch_case cond) jumpLabels m) =
     instructions m @ concat (map (switchCase cond) (enumerate (localCounter m) jumpLabels)) \<and>
   localCounter (fold (Switch_case cond) jumpLabels m) = localCounter m + length jumpLabels"
proof (induction jumpLabels arbitrary: m)
  case Nil
  then show ?case by simp
next
  case (Cons a jumpLabels)
  have step: "instructions (Switch_case cond a m) = instructions m @ switchCase cond (localCounter m, a)"
    "localCounter (Switch_case cond a m) = Suc (localCounter m)"
    by (simp_all add: Switch_case_def Let_def split_beta addNewLocal_def appendToEnd_def
        findOrCreateLocal_fields switchCase_def)
  show ?case
    by (simp add: Cons.IH step)
qed

text \<open>
  C8. A switch is lowered to, for each case of the table in its iteration order, one equality
  comparison of the condition with the case value into a fresh boolean local and one branch
  to the case's label on flag-clear, and after all cases one unconditional branch to the
  default label. The fresh locals are numbered from the method's counter on, one per case.
\<close>

theorem Switch_lowering:
  "\<exists>method'. mapInstruction (Switch cond defaultLabel jumpLabels) method = Ok True method' \<and>
     instructions method' =
       instructions method @
       concat (map (\<lambda>(k, v, l).
           [plain (Comparison COMP_EQ (LocalValue (Temp ''%switch'' k) TYPE_BOOL) cond
              (LiteralValue (of_int v) TYPE_INT32)),
            mkInstruction (Branch (Named l) (LocalValue (Temp ''%switch'' k) TYPE_BOOL))
              COND_ZERO_CLEAR DONT_SET])
         (zip [localCounter method ..< localCounter method + length jumpLabels] jumpLabels)) @
       [mkInstruction (Branch (Named defaultLabel) BOOL_TRUE) COND_ALWAYS DONT_SET] \<and>
     localCounter method' = localCounter method + length jumpLabels"
proof -
  have eq: "(\<lambda>(k, v, l).
           [plain (Comparison COMP_EQ (LocalValue (Temp ''%switch'' k) TYPE_BOOL) cond
              (LiteralValue (of_int v) TYPE_INT32)),
            mkInstruction (Branch (Named l) (LocalValue (Temp ''%switch'' k) TYPE_BOOL))
              COND_ZERO_CLEAR DONT_SET]) = switchCase cond"
    by (auto simp: switchCase_def fun_eq_iff)
  show ?thesis
    unfolding eq
    by (simp add: Switch_mapInstruction_def Let_def split_beta switch_loop appendToEnd_def
        findOrCreateLocal_fields enumerate_eq_zip)
qed

theorem Switch_lowering_witness:
  "\<exists>method'. mapInstruction (Switch (LocalValue (Named ''c'') TYPE_INT32) ''default''
                  [(1, ''L1''), (2, ''L2'')]) emptyMethod = Ok True method' \<and>
     instructions method' =
      [plain (Comparison COMP_EQ (LocalValue (Temp ''%switch'' 0) TYPE_BOOL)
              (LocalValue (Named ''c'') TYPE_INT32) (LiteralValue 1 TYPE_INT32)),
       mkInstruction (Branch (Named ''L1'') (LocalValue (Temp ''%switch'' 0) TYPE_BOOL))
              COND_ZERO_CLEAR DONT_SET,
       plain (Comparison COMP_EQ (LocalValue (Temp ''%switch'' 1) TYPE_BOOL)
              (LocalValue (Named ''c'') TYPE_INT32) (LiteralValue 2 TYPE_INT32)),
       mkInstruction (Branch (Named ''L2'') (LocalValue (Temp ''%switch'' 1) TYPE_BOOL))
              COND_ZERO_CLEAR DONT_SET,
       mkInstruction (Branch (Named ''default'') BOOL_TRUE) COND_ALWAYS DONT_SET]"
  using Switch_lowering [of "LocalValue (Named ''c'') TYPE_INT32" "''default''"
      "[(1, ''L1''), (2, ''L2'')]" emptyMethod]
  by (auto simp: emptyMethod_def upt_rec)

subsection \<open>Selection\<close>

lemma run_two: "run [a, b] \<sigma> = (case exec a \<sigma> of None \<Rightarrow> None | Some s \<Rightarrow> exec b s)"
  by (simp split: option.splits)

lemma flagsetter:
  "(plain (Move d s))\<lparr>setFlags := SET_FLAGS\<rparr> = MoveOperation d s COND_ALWAYS SET_FLAGS"
  by (simp add: plain_def MoveOperation_def mkInstruction_def)

lemma broadcast_flags:
  assumes "readValue \<sigma> cond = Some v"
  shows "\<exists>\<sigma>'. run [plain (Move (RegisterValue REG_REPLICATE_ALL (vtype cond)) cond),
                   MoveOperation NOP_REGISTER (RegisterValue REG_REPLICATE_ALL (vtype cond))
                     COND_ALWAYS SET_FLAGS] \<sigma> = Some \<sigma>' \<and>
              (\<forall>j. zeroFlags \<sigma>' j = (v 0 = 0))"
  using assms
  by (simp add: run_two exec_def plain_def MoveOperation_def mkInstruction_def writeResult_def
      writeLanes_def NOP_REGISTER_def REG_NOP_def REG_REPLICATE_ALL_def)

text \<open>
  C9 takes the direct move for every selection that is not one of a scalar condition with
  vector options. The lowering tests for an option that is not scalar: with a scalar condition
  and two options of an array type, which is neither scalar nor a vector, it broadcasts the
  condition.
\<close>

theorem Selection_array_options_counterexample:
  "isScalarType (vtype (LocalValue (Named ''c'') TYPE_BOOL)) \<and>
   \<not> isVectorType (vtype (LocalValue (Named ''a'') ARRAY_TYPE)) \<and>
   \<not> isVectorType (vtype (LocalValue (Named ''b'') ARRAY_TYPE)) \<and>
   mapInstruction (Selection (Named ''d'') (LocalValue (Named ''c'') TYPE_BOOL)
       (LocalValue (Named ''a'') ARRAY_TYPE) (LocalValue (Named ''b'') ARRAY_TYPE)) emptyMethod =
     Ok True (emptyMethod\<lparr>instructions :=
          [plain (Move (RegisterValue REG_REPLICATE_ALL TYPE_BOOL) (LocalValue (Named ''c'') TYPE_BOOL)),
           MoveOperation NOP_REGISTER (RegisterValue REG_REPLICATE_ALL TYPE_BOOL)
             COND_ALWAYS SET_FLAGS,
           MoveOperation (LocalValue (Named ''d'') ARRAY_TYPE) (LocalValue (Named ''a'') ARRAY_TYPE)
             COND_ZERO_CLEAR DONT_SET,
           MoveOperation (LocalValue (Named ''d'') ARRAY_TYPE) (LocalValue (Named ''b'') ARRAY_TYPE)
             COND_ZERO_SET DONT_SET]\<rparr>)"
  by (simp add: isScalarType_def isVectorType_def isSimpleType_def TYPE_BOOL_def ARRAY_TYPE_def
      Selection_mapInstruction_def insertReplication_def emit_def emplace_def
      endOf_def nextInBlock_def previousInBlock_def modifyAt_def appendToEnd_def Let_def
      emptyMethod_def flagsetter)

text \<open>
  C9, with the test of the code. A selection whose condition is scalar and one of whose
  options is not scalar (a vector is not, nor is an array) is lowered to the broadcast of the
  condition into the replicate-all register, then the move of that register to the no-op
  register that sets the flags, then the move of the first option into the destination on
  flag-clear and the move of the second on flag-set. The flag-setting move covers all lanes:
  whatever the state, every lane's flag then tells whether lane 0 of the condition is zero.
  In every other case, a condition that is not scalar or two scalar options, the condition
  itself is moved to the no-op register, setting the flags, before the two predicated moves.
\<close>

theorem Selection_lowering:
  "(isScalarType (vtype cond) \<and>
    (\<not> isScalarType (vtype opt1) \<or> \<not> isScalarType (vtype opt2)) \<longrightarrow>
      mapInstruction (Selection dest cond opt1 opt2) method =
        Ok True (method\<lparr>instructions := instructions method @
          [plain (Move (RegisterValue REG_REPLICATE_ALL (vtype cond)) cond),
           MoveOperation NOP_REGISTER (RegisterValue REG_REPLICATE_ALL (vtype cond))
             COND_ALWAYS SET_FLAGS,
           MoveOperation (LocalValue dest (vtype opt1)) opt1 COND_ZERO_CLEAR DONT_SET,
           MoveOperation (LocalValue dest (vtype opt2)) opt2 COND_ZERO_SET DONT_SET]\<rparr>) \<and>
      (\<forall>\<sigma> v. readValue \<sigma> cond = Some v \<longrightarrow>
         (\<exists>\<sigma>'. run [plain (Move (RegisterValue REG_REPLICATE_ALL (vtype cond)) cond),
                     MoveOperation NOP_REGISTER (RegisterValue REG_REPLICATE_ALL (vtype cond))
                       COND_ALWAYS SET_FLAGS] \<sigma> = Some \<sigma>' \<and>
                (\<forall>j. zeroFlags \<sigma>' j = (v 0 = 0))))) \<and>
   (\<not> isScalarType (vtype cond) \<or> (isScalarType (vtype opt1) \<and> isScalarType (vtype opt2)) \<longrightarrow>
      mapInstruction (Selection dest cond opt1 opt2) method =
        Ok True (method\<lparr>instructions := instructions method @
          [MoveOperation NOP_REGISTER cond COND_ALWAYS SET_FLAGS,
           MoveOperation (LocalValue dest (vtype opt1)) opt1 COND_ZERO_CLEAR DONT_SET,
           MoveOperation (LocalValue dest (vtype opt2)) opt2 COND_ZERO_SET DONT_SET]\<rparr>))"
proof -
  have a: "mapInstruction (Selection dest cond opt1 opt2) method =
        Ok True (method\<lparr>instructions := instructions method @
          [plain (Move (RegisterValue REG_REPLICATE_ALL (vtype cond)) cond),
           MoveOperation NOP_REGISTER (RegisterValue REG_REPLICATE_ALL (vtype cond))
             COND_ALWAYS SET_FLAGS,
           MoveOperation (LocalValue dest (vtype opt1)) opt1 COND_ZERO_CLEAR DONT_SET,
           MoveOperation (LocalValue dest (vtype opt2)) opt2 COND_ZERO_SET DONT_SET]\<rparr>)"
    if "isScalarType (vtype cond)" "\<not> isScalarType (vtype opt1) \<or> \<not> isScalarType (vtype opt2)"
    using that
    by (auto simp: Selection_mapInstruction_def insertReplication_def emit_def emplace_def
        endOf_def nextInBlock_def previousInBlock_def modifyAt_def appendToEnd_def Let_def
        nth_append list_update_append flagsetter)
  have b: "mapInstruction (Selection dest cond opt1 opt2) method =
        Ok True (method\<lparr>instructions := instructions method @
          [MoveOperation NOP_REGISTER cond COND_ALWAYS SET_FLAGS,
           MoveOperation (LocalValue dest (vtype opt1)) opt1 COND_ZERO_CLEAR DONT_SET,
           MoveOperation (LocalValue dest (vtype opt2)) opt2 COND_ZERO_SET DONT_SET]\<rparr>)"
    if "\<not> isScalarType (vtype cond) \<or> (isScalarType (vtype opt1) \<and> isScalarType (vtype opt2))"
    using that
    by (auto simp: Selection_mapInstruction_def appendToEnd_def Let_def)
  show ?thesis
    using a b broadcast_flags by blast
qed

theorem Selection_lowering_witness:
  "isScalarType (vtype (LocalValue (Named ''c'') TYPE_BOOL)) \<and>
   \<not> isScalarType (vtype (LocalValue (Named ''a'') INT32x4)) \<and>
   mapInstruction (Selection (Named ''d'') (LocalValue (Named ''c'') TYPE_BOOL)
       (LocalValue (Named ''a'') INT32x4) (LocalValue (Named ''b'') INT32x4)) emptyMethod =
     Ok True (emptyMethod\<lparr>instructions :=
          [plain (Move (RegisterValue REG_REPLICATE_ALL TYPE_BOOL) (LocalValue (Named ''c'') TYPE_BOOL)),
           MoveOperation NOP_REGISTER (RegisterValue REG_REPLICATE_ALL TYPE_BOOL)
             COND_ALWAYS SET_FLAGS,
           MoveOperation (LocalValue (Named ''d'') INT32x4) (LocalValue (Named ''a'') INT32x4)
             COND_ZERO_CLEAR DONT_SET,
           MoveOperation (LocalValue (Named ''d'') INT32x4) (LocalValue (Named ''b'') INT32x4)
             COND_ZERO_SET DONT_SET]\<rparr>) \<and>
   (\<exists>\<sigma>'. run [plain (Move (RegisterValue REG_REPLICATE_ALL TYPE_BOOL) (LocalValue (Named ''c'') TYPE_BOOL)),
               MoveOperation NOP_REGISTER (RegisterValue REG_REPLICATE_ALL TYPE_BOOL)
                 COND_ALWAYS SET_FLAGS] zeroState = Some \<sigma>' \<and> zeroFlags \<sigma>' 15) \<and>
   mapInstruction (Selection (Named ''d'') (LocalValue (Named ''c'') TYPE_BOOL)
       (LocalValue (Named ''a'') TYPE_INT32) (LocalValue (Named ''b'') TYPE_INT32)) emptyMethod =
     Ok True (emptyMethod\<lparr>instructions :=
          [MoveOperation NOP_REGISTER (LocalValue (Named ''c'') TYPE_BOOL) COND_ALWAYS SET_FLAGS,
           MoveOperation (LocalValue (Named ''d'') TYPE_INT32) (LocalValue (Named ''a'') TYPE_INT32)
             COND_ZERO_CLEAR DONT_SET,
           MoveOperation (LocalValue (Named ''d'') TYPE_INT32) (LocalValue (Named ''b'') TYPE_INT32)
             COND_ZERO_SET DONT_SET]\<rparr>)"
proof -
  have s: "isScalarType (vtype (LocalValue (Named ''c'') TYPE_BOOL))"
    and v: "\<not> isScalarType (vtype (LocalValue (Named ''a'') INT32x4))"
       "\<not> isScalarType (vtype (LocalValue (Named ''b'') INT32x4))"
    and t: "isScalarType (vtype (LocalValue (Named ''a'') TYPE_INT32))"
       "isScalarType (vtype (LocalValue (Named ''b'') TYPE_INT32))"
    by (simp_all add: isScalarType_def TYPE_BOOL_def INT32x4_def TYPE_INT32_def)
  have r: "readValue zeroState (LocalValue (Named ''c'') TYPE_BOOL) = Some (\<lambda>j. 0)"
    by (simp add: zeroState_def)
  note A = Selection_lowering [of "LocalValue (Named ''c'') TYPE_BOOL"
      "LocalValue (Named ''a'') INT32x4" "LocalValue (Named ''b'') INT32x4" "Named ''d''"
      emptyMethod]
  note B = Selection_lowering [of "LocalValue (Named ''c'') TYPE_BOOL"
      "LocalValue (Named ''a'') TYPE_INT32" "LocalValue (Named ''b'') TYPE_INT32" "Named ''d''"
      emptyMethod]
  from A s v r have 1: "mapInstruction (Selection (Named ''d'') (LocalValue (Named ''c'') TYPE_BOOL)
       (LocalValue (Named ''a'') INT32x4) (LocalValue (Named ''b'') INT32x4)) emptyMethod =
     Ok True (emptyMethod\<lparr>instructions :=
          [plain (Move (RegisterValue REG_REPLICATE_ALL TYPE_BOOL) (LocalValue (Named ''c'') TYPE_BOOL)),
           MoveOperation NOP_REGISTER (RegisterValue REG_REPLICATE_ALL TYPE_BOOL)
             COND_ALWAYS SET_FLAGS,
           MoveOperation (LocalValue (Named ''d'') INT32x4) (LocalValue (Named ''a'') INT32x4)
             COND_ZERO_CLEAR DONT_SET,
           MoveOperation (LocalValue (Named ''d'') INT32x4) (LocalValue (Named ''b'') INT32x4)
             COND_ZERO_SET DONT_SET]\<rparr>)"
    by (simp add: emptyMethod_def)
  from A s v r have 2: "\<exists>\<sigma>'. run [plain (Move (RegisterValue REG_REPLICATE_ALL TYPE_BOOL) (LocalValue (Named ''c'') TYPE_BOOL)),
               MoveOperation NOP_REGISTER (RegisterValue REG_REPLICATE_ALL TYPE_BOOL)
                 COND_ALWAYS SET_FLAGS] zeroState = Some \<sigma>' \<and> zeroFlags \<sigma>' 15"
    by fastforce
  from B s t have 3: "mapInstruction (Selection (Named ''d'') (LocalValue (Named ''c'') TYPE_BOOL)
       (LocalValue (Named ''a'') TYPE_INT32) (LocalValue (Named ''b'') TYPE_INT32)) emptyMethod =
     Ok True (emptyMethod\<lparr>instructions :=
          [MoveOperation NOP_REGISTER (LocalValue (Named ''c'') TYPE_BOOL) COND_ALWAYS SET_FLAGS,
           MoveOperation (LocalValue (Named ''d'') TYPE_INT32) (LocalValue (Named ''a'') TYPE_INT32)
             COND_ZERO_CLEAR DONT_SET,
           MoveOperation (LocalValue (Named ''d'') TYPE_INT32) (LocalValue (Named ''b'') TYPE_INT32)
             COND_ZERO_SET DONT_SET]\<rparr>)"
    by (simp add: emptyMethod_def)
  show ?thesis using s v 1 2 3 by simp
qed

subsection \<open>Lifetime intrinsics\<close>




subsection \<open>Calls without a destination\<close>

text \<open>
  C10. \<open>CallSite::getAllLocals\<close> reads the name of the destination before it looks whether
  there is one. For a call built by one of the two constructors without a destination the
  read goes through the null pointer, whatever the name and the arguments, although such a
  call is lowered without an error: a call of a function that is no intrinsic becomes one
  method call without a result.
\<close>

theorem CallSite_getAllLocals_without_destination:
  "getAllLocals (CallSite_name methodName retType args) = Inl InvalidAccess \<and>
   (\<forall>cs. CallSite_method callee args = Inr cs \<longrightarrow> getAllLocals cs = Inl InvalidAccess) \<and>
   (\<not> isIntrinsicName methodName \<longrightarrow>
      mapInstruction (CallSite_name methodName retType args) method =
        Ok True (appendToEnd method (plain (MethodCall None methodName args))))"
  by (auto simp: CallSite_name_def CallSite_method_def isIntrinsicName_def
        CallSite_mapInstruction_def addDecorations_def plain_def mkInstruction_def
        split: if_splits)

theorem CallSite_getAllLocals_without_destination_witness:
  "\<not> isIntrinsicName ''get_global_id'' \<and>
   CallSite_method emptyMethod [] = Inr (CallSite None ''kernel'' TYPE_INT32 [] {}) \<and>
   getAllLocals (CallSite None ''kernel'' TYPE_INT32 [] {}) = Inl InvalidAccess \<and>
   getAllLocals (CallSite_name ''get_global_id'' TYPE_INT32 [LiteralValue 0 TYPE_INT32])
     = Inl InvalidAccess \<and>
   mapInstruction (CallSite_name ''get_global_id'' TYPE_INT32 [LiteralValue 0 TYPE_INT32])
       emptyMethod =
     Ok True (appendToEnd emptyMethod
       (plain (MethodCall None ''get_global_id'' [LiteralValue 0 TYPE_INT32])))"
proof -
  have g: "\<not> isIntrinsicName ''get_global_id''"
    by (simp add: isIntrinsicName_def)
  have c: "CallSite_method emptyMethod [] = Inr (CallSite None ''kernel'' TYPE_INT32 [] {})"
    by (simp add: CallSite_method_def emptyMethod_def)
  from CallSite_getAllLocals_without_destination
    [of "''get_global_id''" TYPE_INT32 "[LiteralValue 0 TYPE_INT32]" emptyMethod emptyMethod]
  have a: "getAllLocals (CallSite_name ''get_global_id'' TYPE_INT32 [LiteralValue 0 TYPE_INT32])
       = Inl InvalidAccess"
    and b: "mapInstruction (CallSite_name ''get_global_id'' TYPE_INT32 [LiteralValue 0 TYPE_INT32])
       emptyMethod =
     Ok True (appendToEnd emptyMethod
       (plain (MethodCall None ''get_global_id'' [LiteralValue 0 TYPE_INT32])))"
    using g by simp_all
  from CallSite_getAllLocals_without_destination [of "''f''" TYPE_INT32 "[]" emptyMethod] c
  have d: "getAllLocals (CallSite None ''kernel'' TYPE_INT32 [] {}) = Inl InvalidAccess"
    by blast
  show ?thesis using g c a b d by simp
qed

subsection \<open>Bit-casts: the emitted instructions\<close>

text \<open>
  Each loop of the two routines extends the instruction list by the list named for it above;
  the fresh locals are numbered consecutively from the counter of the method.
\<close>

lemma inserted_refl: "it \<le> length (instructions m) \<Longrightarrow> inserted it m it m []"
  by (simp add: inserted_def)

lemma inserted_step:
  assumes "inserted it m it' m' p" and "instructions m'' = instructions m'"
  shows "inserted it m (Suc it') (emplace it' m'' i) (p @ [i])"
  using assms by (simp add: inserted_def emplace_def)

lemma inserted_same:
  assumes "inserted it m it' m' p" and "instructions m'' = instructions m'"
  shows "inserted it m it' m'' p"
  using assms by (simp add: inserted_def)

lemma inserted_emitted: "inserted it m it' m' p \<Longrightarrow> emitted it it' m' = p"
  by (simp add: inserted_def emitted_def)

lemma addNewLocal_bitcast:
  "fst (addNewLocal m t BIT_CAST) = tempValue (localCounter m) t"
  "instructions (snd (addNewLocal m t p)) = instructions m"
  "localCounter (snd (addNewLocal m t p)) = Suc (localCounter m)"
  by (simp_all add: addNewLocal_def Let_def tempValue_def)

lemma localCounter_emplace [simp]: "localCounter (emplace it m i) = localCounter m"
  by (simp add: emplace_def)

lemma fold_upt_Suc: "fold f [0..<Suc n] s = f n (fold f [0..<n] s)"
  by simp

lemma combineShift_step:
  "combineShift src dest ts shift i (it, m, stvs) =
     (Suc it,
      emplace it (snd (addNewLocal m (toVectorType (vtype dest) (getVectorWidth (vtype src))) BIT_CAST))
        (plain (Operation OP_SHL
           (tempValue (localCounter m) (toVectorType (vtype dest) (getVectorWidth (vtype src)))) ts
           (Some (LiteralValue (of_nat (shift * i)) TYPE_INT8)))),
      stvs @ [tempValue (localCounter m) (toVectorType (vtype dest) (getVectorWidth (vtype src)))])"
  by (simp add: combineShift_def addNewLocal_bitcast split_beta emit_def nextInBlock_def Let_def)

lemma combineShift_loop:
  assumes "inserted it0 m0 it m p"
  shows "\<exists>m'. fold (combineShift src dest ts shift) [0..<n] (it, m, []) =
            (it + n, m', map (\<lambda>i. tempValue (localCounter m + i)
                                  (toVectorType (vtype dest) (getVectorWidth (vtype src)))) [0..<n]) \<and>
          inserted it0 m0 (it + n) m'
            (p @ shiftProgram (toVectorType (vtype dest) (getVectorWidth (vtype src))) ts shift
               (localCounter m) n) \<and>
          localCounter m' = localCounter m + n"
proof (induction n)
  case 0
  then show ?case using assms by (simp add: shiftProgram_def)
next
  case (Suc n)
  then obtain m' where
    f: "fold (combineShift src dest ts shift) [0..<n] (it, m, []) =
            (it + n, m', map (\<lambda>i. tempValue (localCounter m + i)
                                  (toVectorType (vtype dest) (getVectorWidth (vtype src)))) [0..<n])"
    and i: "inserted it0 m0 (it + n) m'
            (p @ shiftProgram (toVectorType (vtype dest) (getVectorWidth (vtype src))) ts shift
               (localCounter m) n)"
    and c: "localCounter m' = localCounter m + n"
    by blast
  show ?case
    unfolding fold_upt_Suc f combineShift_step
    using inserted_step [OF i addNewLocal_bitcast(2)]
    by (simp add: addNewLocal_bitcast c shiftProgram_def shlInstruction_def)
qed

lemma combineRotate_step:
  "combineRotate src dest stvs i (it, m, rvs) =
     (if i = 0 then (it, m, rvs @ [hd stvs])
      else (Suc it,
            emplace it (snd (addNewLocal m (toVectorType (vtype dest) (getVectorWidth (vtype src))) BIT_CAST))
              (plain (VectorRotation (stvs ! i) (LiteralValue (of_nat i) TYPE_INT8)
                 (tempValue (localCounter m) (toVectorType (vtype dest) (getVectorWidth (vtype src))))
                 DOWN)),
            rvs @ [tempValue (localCounter m) (toVectorType (vtype dest) (getVectorWidth (vtype src)))]))"
  by (simp add: combineRotate_def addNewLocal_bitcast split_beta emit_def nextInBlock_def Let_def
      insertVectorRotation_def)

lemma combineRotate_loop:
  assumes "inserted it0 m0 it m p"
    and "stvs = map (\<lambda>i. tempValue (b1 + i) tyV) [0..<N]"
    and "tyV = toVectorType (vtype dest) (getVectorWidth (vtype src))"
    and "n \<le> N"
  shows "\<exists>m'. fold (combineRotate src dest stvs) [0..<n] (it, m, []) =
            (it + (n - 1), m', map (rotatedValue tyV b1 (localCounter m)) [0..<n]) \<and>
          inserted it0 m0 (it + (n - 1)) m' (p @ rotateProgram tyV b1 (localCounter m) n) \<and>
          localCounter m' = localCounter m + (n - 1)"
  using assms(4)
proof (induction n)
  case 0
  then show ?case using assms(1) by (simp add: rotateProgram_def)
next
  case (Suc n)
  then obtain m' where
    f: "fold (combineRotate src dest stvs) [0..<n] (it, m, []) =
            (it + (n - 1), m', map (rotatedValue tyV b1 (localCounter m)) [0..<n])"
    and i: "inserted it0 m0 (it + (n - 1)) m' (p @ rotateProgram tyV b1 (localCounter m) n)"
    and c: "localCounter m' = localCounter m + (n - 1)"
    by auto
  have hd: "hd stvs = tempValue b1 tyV"
    using Suc.prems by (simp add: assms(2) hd_map)
  have nth: "stvs ! n = tempValue (b1 + n) tyV"
    using Suc.prems by (simp add: assms(2))
  show ?case
  proof (cases "n = 0")
    case True
    then show ?thesis
      unfolding fold_upt_Suc f combineRotate_step
      using i c by (simp add: hd rotatedValue_def rotateProgram_def rotateInstructions_def)
  next
    case False
    then have n: "Suc (it + (n - 1)) = it + n" by simp
    show ?thesis
      unfolding fold_upt_Suc f combineRotate_step
      using inserted_step [OF i addNewLocal_bitcast(2)] False n
      by (simp add: addNewLocal_bitcast c nth rotatedValue_def rotateProgram_def
          rotateInstructions_def assms(3) [symmetric])
  qed
qed

lemma combineOr_step:
  "combineOr src dest rv (it, m, cmb) =
     (Suc it,
      emplace it (snd (addNewLocal m (toVectorType (vtype dest) (getVectorWidth (vtype src))) BIT_CAST))
        (plain (Operation OP_OR
           (tempValue (localCounter m) (toVectorType (vtype dest) (getVectorWidth (vtype src))))
           cmb (Some rv))),
      tempValue (localCounter m) (toVectorType (vtype dest) (getVectorWidth (vtype src))))"
  by (simp add: combineOr_def addNewLocal_bitcast split_beta emit_def nextInBlock_def Let_def)

lemma combineOr_loop:
  assumes "inserted it0 m0 it m p"
    and "tyV = toVectorType (vtype dest) (getVectorWidth (vtype src))"
  shows "\<exists>m'. fold (combineOr src dest) (map rv [0..<n]) (it, m, INT_ZERO) =
            (it + n, m', combinedValue tyV (localCounter m) n) \<and>
          inserted it0 m0 (it + n) m' (p @ orProgram tyV rv (localCounter m) n) \<and>
          localCounter m' = localCounter m + n"
proof (induction n)
  case 0
  then show ?case using assms(1) by (simp add: orProgram_def combinedValue_def)
next
  case (Suc n)
  then obtain m' where
    f: "fold (combineOr src dest) (map rv [0..<n]) (it, m, INT_ZERO) =
            (it + n, m', combinedValue tyV (localCounter m) n)"
    and i: "inserted it0 m0 (it + n) m' (p @ orProgram tyV rv (localCounter m) n)"
    and c: "localCounter m' = localCounter m + n"
    by blast
  have u: "fold (combineOr src dest) (map rv [0..<Suc n]) (it, m, INT_ZERO) =
             combineOr src dest (rv n) (fold (combineOr src dest) (map rv [0..<n]) (it, m, INT_ZERO))"
    by simp
  show ?case
    unfolding u f combineOr_step
    using inserted_step [OF i addNewLocal_bitcast(2)]
    by (simp add: addNewLocal_bitcast c orProgram_def orInstruction_def combinedValue_def
        assms(2) [symmetric])
qed

lemma combineAssemble_step:
  "combineAssemble dest sf cv dst i (it, m) =
     (Suc (Suc it),
      emplace (Suc it)
        (emplace it (snd (addNewLocal m (vtype dest) BIT_CAST))
           (plain (VectorExtraction cv (LiteralValue (of_nat (i * sf)) TYPE_INT8)
              (tempValue (localCounter m) (vtype dest)))))
        (plain (VectorInsertion dst (LiteralValue (of_nat i) TYPE_INT8)
           (tempValue (localCounter m) (vtype dest)))))"
  by (simp add: combineAssemble_def addNewLocal_bitcast split_beta emit_def nextInBlock_def Let_def
      insertVectorExtraction_def insertVectorInsertion_def)

lemma inserted_step2:
  assumes "inserted it m it' m' p" and "instructions m'' = instructions m'"
  shows "inserted it m (Suc (Suc it')) (emplace (Suc it') (emplace it' m'' i) j) (p @ [i, j])"
  using inserted_step [OF inserted_step [OF assms, where i = i] refl, where i = j] by simp

lemma combineAssemble_loop:
  assumes "inserted it0 m0 it m p"
  shows "\<exists>m'. fold (combineAssemble dest sf cv dst) [0..<n] (it, m) = (it + 2 * n, m') \<and>
          inserted it0 m0 (it + 2 * n) m'
            (p @ assembleProgram (vtype dest) (\<lambda>i. cv) (\<lambda>i. i * sf) dst (localCounter m) n) \<and>
          localCounter m' = localCounter m + n"
proof (induction n)
  case 0
  then show ?case using assms(1) by (simp add: assembleProgram_def)
next
  case (Suc n)
  then obtain m' where
    f: "fold (combineAssemble dest sf cv dst) [0..<n] (it, m) = (it + 2 * n, m')"
    and i: "inserted it0 m0 (it + 2 * n) m'
            (p @ assembleProgram (vtype dest) (\<lambda>i. cv) (\<lambda>i. i * sf) dst (localCounter m) n)"
    and c: "localCounter m' = localCounter m + n"
    by blast
  show ?case
    unfolding fold_upt_Suc f combineAssemble_step
    using inserted_step2 [OF i addNewLocal_bitcast(2)]
    by (simp add: addNewLocal_bitcast c assembleProgram_def assembleInstructions_def)
qed

lemma length_shiftProgram [simp]: "length (shiftProgram tyV ts shift b n) = n"
  by (simp add: shiftProgram_def)

lemma length_orProgram [simp]: "length (orProgram tyV rv b n) = n"
  by (simp add: orProgram_def)

lemma inserted_length: "inserted it m it' m' p \<Longrightarrow> it' = it + length p"
  by (simp add: inserted_def)

lemma insertCombiningBitcast_inserted:
  assumes it: "it \<le> length (instructions m)"
    and sf: "0 < getScalarBitCount (vtype dest) div getScalarBitCount (vtype src)"
  shows "\<exists>it' m'. insertCombiningBitcast it m src dest = (it', m') \<and>
           inserted it m (Suc it') m'
             (combiningProgram (localCounter m) src dest @
              [plain (Move dest (tempValue (localCounter m +
                  3 * (getScalarBitCount (vtype dest) div getScalarBitCount (vtype src)))
                  (vtype dest)))])"
proof -
  define sf where "sf = getScalarBitCount (vtype dest) div getScalarBitCount (vtype src)"
  define c where "c = localCounter m"
  define tyV where "tyV = toVectorType (vtype dest) (getVectorWidth (vtype src))"
  define ts where "ts = tempValue c (vtype src)"
  define p0 where "p0 = [plain (Operation OP_AND ts src
                  (Some (LiteralValue (getScalarWidthMask (vtype src)) TYPE_INT32)))]"
  define m2 where "m2 = emplace it (snd (addNewLocal m (vtype src) BIT_CAST))
      (plain (Operation OP_AND ts src
                  (Some (LiteralValue (getScalarWidthMask (vtype src)) TYPE_INT32))))"
  have sf0: "0 < sf" using sf by (simp add: sf_def)
  have i2: "inserted it m (Suc it) m2 p0" and c2: "localCounter m2 = c + 1"
    using inserted_step [OF inserted_refl [OF it] addNewLocal_bitcast(2)]
    by (simp_all add: m2_def p0_def addNewLocal_bitcast c_def)
  from combineShift_loop [OF i2, of src dest ts "getScalarBitCount (vtype src)" sf]
  obtain m3 where
    A: "fold (combineShift src dest ts (getScalarBitCount (vtype src))) [0..<sf] (Suc it, m2, []) =
          (Suc it + sf, m3, map (\<lambda>i. tempValue (c + 1 + i) tyV) [0..<sf])"
    and i3: "inserted it m (Suc it + sf) m3
               (p0 @ shiftProgram tyV ts (getScalarBitCount (vtype src)) (c + 1) sf)"
    and c3: "localCounter m3 = c + 1 + sf"
    by (auto simp: c2 tyV_def)
  from combineRotate_loop [OF i3 refl tyV_def le_refl, where ?b1.0 = "c + 1" and N = sf]
  obtain m4 where
    B: "fold (combineRotate src dest (map (\<lambda>i. tempValue (c + 1 + i) tyV) [0..<sf])) [0..<sf]
          (Suc it + sf, m3, []) =
          (Suc it + sf + (sf - 1), m4, map (rotatedValue tyV (c + 1) (c + 1 + sf)) [0..<sf])"
    and i4: "inserted it m (Suc it + sf + (sf - 1)) m4
               (p0 @ shiftProgram tyV ts (getScalarBitCount (vtype src)) (c + 1) sf @
                rotateProgram tyV (c + 1) (c + 1 + sf) sf)"
    and c4: "localCounter m4 = c + 2 * sf"
    using sf0 by (auto simp: c3)
  from combineOr_loop [OF i4 tyV_def, of "rotatedValue tyV (c + 1) (c + 1 + sf)" sf]
  obtain m5 where
    C: "fold (combineOr src dest) (map (rotatedValue tyV (c + 1) (c + 1 + sf)) [0..<sf])
          (Suc it + sf + (sf - 1), m4, INT_ZERO) =
          (Suc it + sf + (sf - 1) + sf, m5, combinedValue tyV (c + 2 * sf) sf)"
    and i5: "inserted it m (Suc it + sf + (sf - 1) + sf) m5
               (p0 @ shiftProgram tyV ts (getScalarBitCount (vtype src)) (c + 1) sf @
                rotateProgram tyV (c + 1) (c + 1 + sf) sf @
                orProgram tyV (rotatedValue tyV (c + 1) (c + 1 + sf)) (c + 2 * sf) sf)"
    and c5: "localCounter m5 = c + 3 * sf"
    by (auto simp: c4)
  define dst where "dst = tempValue (c + 3 * sf) (vtype dest)"
  define m7 where "m7 = emplace (Suc it + sf + (sf - 1) + sf)
                          (snd (addNewLocal m5 (vtype dest) BIT_CAST)) (plain (Move dst INT_ZERO))"
  have i7: "inserted it m (Suc (Suc it + sf + (sf - 1) + sf)) m7
               ((p0 @ shiftProgram tyV ts (getScalarBitCount (vtype src)) (c + 1) sf @
                rotateProgram tyV (c + 1) (c + 1 + sf) sf @
                orProgram tyV (rotatedValue tyV (c + 1) (c + 1 + sf)) (c + 2 * sf) sf) @
                [plain (Move dst INT_ZERO)])"
    and c7: "localCounter m7 = c + 3 * sf + 1"
    using inserted_step [OF i5 addNewLocal_bitcast(2)]
    by (simp_all add: m7_def addNewLocal_bitcast c5)
  from combineAssemble_loop [OF i7, of dest sf "combinedValue tyV (c + 2 * sf) sf" dst
      "getVectorWidth (vtype dest)"]
  obtain m8 where
    D: "fold (combineAssemble dest sf (combinedValue tyV (c + 2 * sf) sf) dst)
          [0..<getVectorWidth (vtype dest)] (Suc (Suc it + sf + (sf - 1) + sf), m7) =
          (Suc (Suc it + sf + (sf - 1) + sf) + 2 * getVectorWidth (vtype dest), m8)"
    and i8: "inserted it m (Suc (Suc it + sf + (sf - 1) + sf) + 2 * getVectorWidth (vtype dest)) m8
               (combiningProgram c src dest)"
    by (auto simp: c7 combiningProgram_def Let_def sf_def [symmetric] tyV_def [symmetric]
        p0_def ts_def dst_def)
  have res: "insertCombiningBitcast it m src dest =
      (Suc (Suc it + sf + (sf - 1) + sf) + 2 * getVectorWidth (vtype dest),
       emplace (Suc (Suc it + sf + (sf - 1) + sf) + 2 * getVectorWidth (vtype dest)) m8
         (plain (Move dest dst)))"
    unfolding insertCombiningBitcast_def Let_def
    by (simp only: split_beta emit_def nextInBlock_def addNewLocal_bitcast fst_conv snd_conv
        sf_def [symmetric] c_def [symmetric] tyV_def [symmetric] ts_def [symmetric]
        m2_def [symmetric] A length_map length_upt diff_zero B C c5 dst_def [symmetric]
        m7_def [symmetric] D)
  have len: "Suc (Suc it + sf + (sf - 1) + sf) + 2 * getVectorWidth (vtype dest) \<le>
               length (instructions m8)"
    using i8 by (simp add: inserted_def)
  show ?thesis
    unfolding res sf_def [symmetric] c_def [symmetric] dst_def [symmetric]
    using inserted_step [OF i8 refl, of "plain (Move dest dst)"]
    by simp
qed

lemma splitShift_step:
  "splitShift src dest shift i (it, m, stvs) =
     (Suc (Suc it),
      emplace (Suc it)
        (emplace it (snd (addNewLocal (snd (addNewLocal m (vtype dest) BIT_CAST)) (vtype dest) BIT_CAST))
           (plain (Operation OP_SHR (tempValue (Suc (localCounter m)) (vtype dest)) src
              (Some (LiteralValue (of_nat (shift * i)) TYPE_INT8)))))
        (plain (Operation OP_AND (tempValue (localCounter m) (vtype dest))
           (tempValue (Suc (localCounter m)) (vtype dest))
           (Some (LiteralValue (getScalarWidthMask (vtype dest)) TYPE_INT32)))),
      stvs @ [tempValue (localCounter m) (vtype dest)])"
  by (simp add: splitShift_def addNewLocal_bitcast split_beta emit_def nextInBlock_def Let_def)

lemma splitShift_loop:
  assumes "inserted it0 m0 it m p"
  shows "\<exists>m'. fold (splitShift src dest shift) [0..<n] (it, m, []) =
            (it + 2 * n, m', map (\<lambda>i. tempValue (localCounter m + 2 * i) (vtype dest)) [0..<n]) \<and>
          inserted it0 m0 (it + 2 * n) m'
            (p @ splitShiftProgram (vtype dest) src shift (localCounter m) n) \<and>
          localCounter m' = localCounter m + 2 * n"
proof (induction n)
  case 0
  then show ?case using assms by (simp add: splitShiftProgram_def)
next
  case (Suc n)
  then obtain m' where
    f: "fold (splitShift src dest shift) [0..<n] (it, m, []) =
            (it + 2 * n, m', map (\<lambda>i. tempValue (localCounter m + 2 * i) (vtype dest)) [0..<n])"
    and i: "inserted it0 m0 (it + 2 * n) m'
            (p @ splitShiftProgram (vtype dest) src shift (localCounter m) n)"
    and c: "localCounter m' = localCounter m + 2 * n"
    by blast
  have same: "instructions (snd (addNewLocal (snd (addNewLocal m' (vtype dest) BIT_CAST))
                 (vtype dest) BIT_CAST)) = instructions m'"
    by (simp add: addNewLocal_bitcast)
  show ?case
    unfolding fold_upt_Suc f splitShift_step
    using inserted_step2 [OF i same]
    by (simp add: addNewLocal_bitcast c splitShiftProgram_def splitShiftInstructions_def)
qed

lemma splitAssemble_step:
  "splitAssemble dest stvs dst i (it, m) =
     (Suc (Suc it),
      emplace (Suc it)
        (emplace it (snd (addNewLocal m (vtype dest) BIT_CAST))
           (plain (VectorExtraction (stvs ! (i mod length stvs))
              (LiteralValue (of_nat (i div length stvs)) TYPE_INT8)
              (tempValue (localCounter m) (vtype dest)))))
        (plain (VectorInsertion dst (LiteralValue (of_nat i) TYPE_INT8)
           (tempValue (localCounter m) (vtype dest)))))"
  by (simp add: splitAssemble_def addNewLocal_bitcast split_beta emit_def nextInBlock_def Let_def
      insertVectorExtraction_def insertVectorInsertion_def)

lemma splitAssemble_loop:
  assumes "inserted it0 m0 it m p"
    and "stvs = map (\<lambda>i. tempValue (b + 2 * i) (vtype dest)) [0..<sf]"
    and "0 < sf"
  shows "\<exists>m'. fold (splitAssemble dest stvs dst) [0..<n] (it, m) = (it + 2 * n, m') \<and>
          inserted it0 m0 (it + 2 * n) m'
            (p @ assembleProgram (vtype dest) (\<lambda>i. tempValue (b + 2 * (i mod sf)) (vtype dest))
                   (\<lambda>i. i div sf) dst (localCounter m) n) \<and>
          localCounter m' = localCounter m + n"
proof (induction n)
  case 0
  then show ?case using assms(1) by (simp add: assembleProgram_def)
next
  case (Suc n)
  then obtain m' where
    f: "fold (splitAssemble dest stvs dst) [0..<n] (it, m) = (it + 2 * n, m')"
    and i: "inserted it0 m0 (it + 2 * n) m'
            (p @ assembleProgram (vtype dest) (\<lambda>i. tempValue (b + 2 * (i mod sf)) (vtype dest))
                   (\<lambda>i. i div sf) dst (localCounter m) n)"
    and c: "localCounter m' = localCounter m + n"
    by blast
  have len: "length stvs = sf" and nth: "stvs ! (n mod sf) = tempValue (b + 2 * (n mod sf)) (vtype dest)"
    using assms(3) by (simp_all add: assms(2))
  show ?case
    unfolding fold_upt_Suc f splitAssemble_step
    using inserted_step2 [OF i addNewLocal_bitcast(2)]
    by (simp add: addNewLocal_bitcast c assembleProgram_def assembleInstructions_def len nth)
qed

lemma insertSplittingBitcast_inserted:
  assumes it: "it \<le> length (instructions m)"
    and sf: "0 < getScalarBitCount (vtype src) div getScalarBitCount (vtype dest)"
  shows "\<exists>it' m'. insertSplittingBitcast it m src dest = Ok it' m' \<and>
           inserted it m (Suc it') m'
             (splittingProgram (localCounter m) src dest @
              [plain (Move dest (tempValue (localCounter m +
                  2 * (getScalarBitCount (vtype src) div getScalarBitCount (vtype dest)))
                  (vtype dest)))])"
proof -
  define sf where "sf = getScalarBitCount (vtype src) div getScalarBitCount (vtype dest)"
  define c where "c = localCounter m"
  have sf0: "0 < sf" using sf by (simp add: sf_def)
  from splitShift_loop [OF inserted_refl [OF it], of src dest "getScalarBitCount (vtype dest)" sf]
  obtain m1 where
    A: "fold (splitShift src dest (getScalarBitCount (vtype dest))) [0..<sf] (it, m, []) =
          (it + 2 * sf, m1, map (\<lambda>i. tempValue (c + 2 * i) (vtype dest)) [0..<sf])"
    and i1: "inserted it m (it + 2 * sf) m1
               ([] @ splitShiftProgram (vtype dest) src (getScalarBitCount (vtype dest)) c sf)"
    and c1: "localCounter m1 = c + 2 * sf"
    by (auto simp: c_def)
  define dst where "dst = tempValue (c + 2 * sf) (vtype dest)"
  define m3 where "m3 = emplace (it + 2 * sf)
                          (snd (addNewLocal m1 (vtype dest) BIT_CAST)) (plain (Move dst INT_ZERO))"
  have i3: "inserted it m (Suc (it + 2 * sf)) m3
               (([] @ splitShiftProgram (vtype dest) src (getScalarBitCount (vtype dest)) c sf) @
                [plain (Move dst INT_ZERO)])"
    and c3: "localCounter m3 = c + 2 * sf + 1"
    using inserted_step [OF i1 addNewLocal_bitcast(2)]
    by (simp_all add: m3_def addNewLocal_bitcast c1)
  from splitAssemble_loop [OF i3 refl sf0, of dest c dst "getVectorWidth (vtype dest)"]
  obtain m4 where
    D: "fold (splitAssemble dest (map (\<lambda>i. tempValue (c + 2 * i) (vtype dest)) [0..<sf]) dst)
          [0..<getVectorWidth (vtype dest)] (Suc (it + 2 * sf), m3) =
          (Suc (it + 2 * sf) + 2 * getVectorWidth (vtype dest), m4)"
    and i4: "inserted it m (Suc (it + 2 * sf) + 2 * getVectorWidth (vtype dest)) m4
               (splittingProgram c src dest)"
    by (auto simp: c3 splittingProgram_def Let_def sf_def [symmetric] dst_def)
  have ne: "map (\<lambda>i. tempValue (c + 2 * i) (vtype dest)) [0..<sf] \<noteq> []"
    using sf0 by simp
  have res: "insertSplittingBitcast it m src dest =
      Ok (Suc (it + 2 * sf) + 2 * getVectorWidth (vtype dest))
       (emplace (Suc (it + 2 * sf) + 2 * getVectorWidth (vtype dest)) m4
         (plain (Move dest dst)))"
    unfolding insertSplittingBitcast_def Let_def
    by (simp only: split_beta emit_def nextInBlock_def addNewLocal_bitcast fst_conv snd_conv
        sf_def [symmetric] c_def [symmetric] A c1 dst_def [symmetric]
        m3_def [symmetric] D ne simp_thms if_False)
  show ?thesis
    unfolding res sf_def [symmetric] c_def [symmetric] dst_def [symmetric]
    using inserted_step [OF i4 refl, of "plain (Move dest dst)"]
    by simp
qed

subsection \<open>Bit-casts: what the emitted instructions compute\<close>

text \<open>
  The effect of the instructions on the machine, one loop at a time. Only fresh temporaries
  are written before the final move into the destination.
\<close>

lemma tempLoc_eq [simp]: "(tempLoc a = tempLoc b) = (a = b)"
  by (simp add: tempLoc_def)

lemma tempLoc_not_replicate [simp]: "tempLoc a \<noteq> RegisterLoc r"
  by (simp add: tempLoc_def)

lemma readValue_tempValue [simp]: "readValue \<sigma> (tempValue k t) = Some (regs \<sigma> (tempLoc k))"
  by (simp add: tempValue_def tempLoc_def)

lemma locationOf_tempValue [simp]: "locationOf (tempValue k t) = Some (tempLoc k)"
  by (simp add: tempValue_def tempLoc_def)

lemma writeLanes_plain:
  "l \<noteq> RegisterLoc REG_REPLICATE_ALL \<Longrightarrow>
   writeLanes (plain b) l v \<sigma> = \<sigma>\<lparr>regs := (regs \<sigma>)(l := v)\<rparr>"
  by (cases \<sigma>) (simp add: writeLanes_def plain_def mkInstruction_def)

lemma plain_fields [simp]:
  "body (plain b) = b" "packMode (plain b) = PACK_NOP" "unpackMode (plain b) = UNPACK_NOP"
  by (simp_all add: plain_def mkInstruction_def)

lemma exec_plain_Operation:
  assumes "aluSupported opc" and "readValue \<sigma> a = Some va" and "readValue \<sigma> b = Some vb"
    and "locationOf d = Some l" and "l \<noteq> RegisterLoc REG_REPLICATE_ALL"
  shows "exec (plain (Operation opc d a (Some b))) \<sigma> =
           Some (\<sigma>\<lparr>regs := (regs \<sigma>)(l := (\<lambda>j. alu opc (va j) (vb j)))\<rparr>)"
  using assms by (simp add: exec_def writeResult_def laneIndex_def writeLanes_plain)

lemma exec_plain_Move:
  assumes "readValue \<sigma> s = Some v" and "locationOf d = Some l"
    and "l \<noteq> RegisterLoc REG_REPLICATE_ALL"
  shows "exec (plain (Move d s)) \<sigma> = Some (\<sigma>\<lparr>regs := (regs \<sigma>)(l := v)\<rparr>)"
  using assms by (simp add: exec_def writeResult_def laneIndex_def writeLanes_plain)

lemma exec_plain_Rotation:
  assumes "readValue \<sigma> s = Some v" and "locationOf d = Some l"
    and "l \<noteq> RegisterLoc REG_REPLICATE_ALL"
  shows "exec (plain (VectorRotation s (LiteralValue k t) d DOWN)) \<sigma> =
           Some (\<sigma>\<lparr>regs := (regs \<sigma>)(l := (\<lambda>j. v ((j + unat k) mod 16)))\<rparr>)"
  using assms by (simp add: exec_def writeResult_def laneIndex_def writeLanes_plain)

lemma exec_plain_Extraction:
  assumes "readValue \<sigma> c = Some v"
  shows "exec (plain (VectorExtraction c (LiteralValue k t) (tempValue a ty))) \<sigma> =
           Some (\<sigma>\<lparr>regs := (regs \<sigma>)(tempLoc a := (regs \<sigma> (tempLoc a))(0 := v (unat k)))\<rparr>)"
  using assms by (simp add: exec_def writeResult_def laneIndex_def writeLanes_plain)

lemma exec_plain_Insertion:
  assumes "readValue \<sigma> x = Some v"
  shows "exec (plain (VectorInsertion (tempValue a ty) (LiteralValue k t) x)) \<sigma> =
           Some (\<sigma>\<lparr>regs := (regs \<sigma>)(tempLoc a := (regs \<sigma> (tempLoc a))(unat k := v 0))\<rparr>)"
  using assms by (simp add: exec_def writeResult_def laneIndex_def writeLanes_plain)

lemma run_append:
  "run (xs @ ys) \<sigma> = (case run xs \<sigma> of None \<Rightarrow> None | Some \<sigma>' \<Rightarrow> run ys \<sigma>')"
  by (induction xs arbitrary: \<sigma>) (auto split: option.splits)

lemma run_single: "run [i] \<sigma> = exec i \<sigma>"
  by (simp split: option.splits)

lemma lane_number: "k < 2 ^ 32 \<Longrightarrow> unat (of_nat k :: 32 word) = k"
  by (simp add: unat_of_nat)

lemma shift_amount: "unat ((of_nat k :: 32 word) AND 31) = k mod 32"
proof -
  have m: "(31 :: 32 word) = mask 5"
    by (simp add: mask_eq_exp_minus_1)
  have "unat ((of_nat k :: 32 word) AND mask 5) = take_bit 5 (unat (of_nat k :: 32 word))"
    by (simp add: unsigned_take_bit_eq flip: take_bit_eq_mask)
  also have "\<dots> = take_bit 5 (take_bit 32 k)"
    by (simp add: unat_of_nat take_bit_eq_mod)
  also have "\<dots> = take_bit 5 k"
    by (simp only: take_bit_take_bit)
  also have "\<dots> = k mod 32"
    by (simp add: take_bit_eq_mod)
  finally show ?thesis by (simp add: m)
qed

lemma frame_temp:
  assumes "frame W \<sigma> \<sigma>'" and "\<not> W k"
  shows "regs \<sigma>' (tempLoc k) = regs \<sigma> (tempLoc k)"
proof -
  have "\<forall>k'. W k' \<longrightarrow> tempLoc k \<noteq> tempLoc k'"
    using assms(2) by auto
  then show ?thesis
    using assms(1) unfolding frame_def by blast
qed

lemma frame_update:
  assumes "frame W \<sigma> \<sigma>'" and "W' k0" and "\<forall>k. W k \<longrightarrow> W' k"
  shows "frame W' \<sigma> (\<sigma>'\<lparr>regs := (regs \<sigma>')(tempLoc k0 := v)\<rparr>)"
  unfolding frame_def
proof (intro allI impI)
  fix l
  assume l: "\<forall>k. W' k \<longrightarrow> l \<noteq> tempLoc k"
  then have "l \<noteq> tempLoc k0" and "\<forall>k. W k \<longrightarrow> l \<noteq> tempLoc k"
    using assms(2,3) by auto
  then show "regs (\<sigma>'\<lparr>regs := (regs \<sigma>')(tempLoc k0 := v)\<rparr>) l = regs \<sigma> l"
    using assms(1) by (simp add: frame_def)
qed

lemma frame_weaken: "frame W \<sigma> \<sigma>' \<Longrightarrow> \<forall>k. W k \<longrightarrow> W' k \<Longrightarrow> frame W' \<sigma> \<sigma>'"
  unfolding frame_def by blast

lemma frame_refl: "frame W \<sigma> \<sigma>"
  by (simp add: frame_def)

lemma frame_trans:
  "frame W \<sigma> \<sigma>' \<Longrightarrow> frame W' \<sigma>' \<sigma>'' \<Longrightarrow> frame (\<lambda>k. W k \<or> W' k) \<sigma> \<sigma>''"
  unfolding frame_def by auto

lemma shiftProgram_Suc:
  "shiftProgram tyV ts shift b (Suc n) = shiftProgram tyV ts shift b n @ [shlInstruction tyV ts shift b n]"
  by (simp add: shiftProgram_def)

lemma run_shiftProgram:
  assumes "c0 < b"
  shows "\<exists>\<sigma>'. run (shiftProgram tyV (tempValue c0 ty0) shift b n) \<sigma> = Some \<sigma>' \<and>
           (\<forall>i<n. regs \<sigma>' (tempLoc (b + i)) =
                    (\<lambda>j. push_bit (shift * i mod 32) (regs \<sigma> (tempLoc c0) j))) \<and>
           frame (\<lambda>k. b \<le> k \<and> k < b + n) \<sigma> \<sigma>'"
proof (induction n)
  case 0
  then show ?case by (simp add: shiftProgram_def frame_def)
next
  case (Suc n)
  then obtain \<sigma>' where r: "run (shiftProgram tyV (tempValue c0 ty0) shift b n) \<sigma> = Some \<sigma>'"
    and v: "\<forall>i<n. regs \<sigma>' (tempLoc (b + i)) =
                    (\<lambda>j. push_bit (shift * i mod 32) (regs \<sigma> (tempLoc c0) j))"
    and f: "frame (\<lambda>k. b \<le> k \<and> k < b + n) \<sigma> \<sigma>'"
    by auto
  have s: "regs \<sigma>' (tempLoc c0) = regs \<sigma> (tempLoc c0)"
    using frame_temp [OF f, of c0] assms by simp
  have sh': "unat ((of_nat shift * of_nat n :: 32 word) AND 31) = shift * n mod 32"
    using shift_amount [of "shift * n"] by simp
  have e: "exec (shlInstruction tyV (tempValue c0 ty0) shift b n) \<sigma>' =
        Some (\<sigma>'\<lparr>regs := (regs \<sigma>')(tempLoc (b + n) :=
                 (\<lambda>j. push_bit (shift * n mod 32) (regs \<sigma> (tempLoc c0) j)))\<rparr>)"
    unfolding shlInstruction_def
    apply (subst exec_plain_Operation [where l = "tempLoc (b + n)"])
         apply (simp_all add: s)
    apply (simp add: sh')
    done
  show ?case
    unfolding shiftProgram_Suc run_append r option.case run_single e
    using v f by (auto simp: frame_def less_Suc_eq)
qed

lemma rotateProgram_Suc:
  "rotateProgram tyV b1 b2 (Suc n) = rotateProgram tyV b1 b2 n @ rotateInstructions tyV b1 b2 n"
  by (simp add: rotateProgram_def)

lemma run_rotateProgram:
  assumes "n \<le> 32" and "b1 + n \<le> b2"
  shows "\<exists>\<sigma>'. run (rotateProgram tyV b1 b2 n) \<sigma> = Some \<sigma>' \<and>
           (\<forall>i. 0 < i \<and> i < n \<longrightarrow> regs \<sigma>' (tempLoc (b2 + i - 1)) =
                    (\<lambda>j. regs \<sigma> (tempLoc (b1 + i)) ((j + i) mod 16))) \<and>
           frame (\<lambda>k. b2 \<le> k \<and> k < b2 + (n - 1)) \<sigma> \<sigma>'"
  using assms
proof (induction n)
  case 0
  then show ?case by (simp add: rotateProgram_def frame_def)
next
  case (Suc n)
  then obtain \<sigma>' where r: "run (rotateProgram tyV b1 b2 n) \<sigma> = Some \<sigma>'"
    and v: "\<forall>i. 0 < i \<and> i < n \<longrightarrow> regs \<sigma>' (tempLoc (b2 + i - 1)) =
                    (\<lambda>j. regs \<sigma> (tempLoc (b1 + i)) ((j + i) mod 16))"
    and f: "frame (\<lambda>k. b2 \<le> k \<and> k < b2 + (n - 1)) \<sigma> \<sigma>'"
    by auto
  show ?case
  proof (cases "n = 0")
    case True
    then show ?thesis
      using r f by (simp add: rotateProgram_Suc rotateInstructions_def run_append)
  next
    case False
    have s: "regs \<sigma>' (tempLoc (b1 + n)) = regs \<sigma> (tempLoc (b1 + n))"
      using frame_temp [OF f, of "b1 + n"] Suc.prems by simp
    have ln: "unat (of_nat n :: 32 word) = n"
      using Suc.prems by (simp add: lane_number)
    have e: "run (rotateInstructions tyV b1 b2 n) \<sigma>' =
        Some (\<sigma>'\<lparr>regs := (regs \<sigma>')(tempLoc (b2 + n - 1) :=
                 (\<lambda>j. regs \<sigma> (tempLoc (b1 + n)) ((j + n) mod 16)))\<rparr>)"
      using False unfolding rotateInstructions_def
      by (simp add: run_single exec_plain_Rotation [where l = "tempLoc (b2 + n - 1)"] s ln)
    let ?\<sigma> = "\<sigma>'\<lparr>regs := (regs \<sigma>')(tempLoc (b2 + n - 1) :=
                 (\<lambda>j. regs \<sigma> (tempLoc (b1 + n)) ((j + n) mod 16)))\<rparr>"
    have 1: "run (rotateProgram tyV b1 b2 (Suc n)) \<sigma> = Some ?\<sigma>"
      unfolding rotateProgram_Suc run_append r option.case e ..
    have 2: "\<forall>i. 0 < i \<and> i < Suc n \<longrightarrow> regs ?\<sigma> (tempLoc (b2 + i - 1)) =
                    (\<lambda>j. regs \<sigma> (tempLoc (b1 + i)) ((j + i) mod 16))"
      using v False by (auto simp: less_Suc_eq)
    have 3: "frame (\<lambda>k. b2 \<le> k \<and> k < b2 + (Suc n - 1)) \<sigma> ?\<sigma>"
      using False by (intro frame_update [OF f]) auto
    show ?thesis using 1 2 3 by blast
  qed
qed

lemma orProgram_Suc:
  "orProgram tyV rv b3 (Suc n) = orProgram tyV rv b3 n @ [orInstruction tyV rv b3 n]"
  by (simp add: orProgram_def)

lemma run_orProgram:
  assumes "\<forall>i<n. rv i = tempValue (rl i) tyV \<and> rl i < b3"
  shows "\<exists>\<sigma>'. run (orProgram tyV rv b3 n) \<sigma> = Some \<sigma>' \<and>
           (\<forall>k<n. regs \<sigma>' (tempLoc (b3 + k)) =
                    (\<lambda>j. bigOr (\<lambda>i. regs \<sigma> (tempLoc (rl i)) j) (Suc k))) \<and>
           frame (\<lambda>k. b3 \<le> k \<and> k < b3 + n) \<sigma> \<sigma>'"
  using assms
proof (induction n)
  case 0
  then show ?case by (simp add: orProgram_def frame_def)
next
  case (Suc n)
  then obtain \<sigma>' where r: "run (orProgram tyV rv b3 n) \<sigma> = Some \<sigma>'"
    and v: "\<forall>k<n. regs \<sigma>' (tempLoc (b3 + k)) =
                    (\<lambda>j. bigOr (\<lambda>i. regs \<sigma> (tempLoc (rl i)) j) (Suc k))"
    and f: "frame (\<lambda>k. b3 \<le> k \<and> k < b3 + n) \<sigma> \<sigma>'"
    by auto
  have rvn: "rv n = tempValue (rl n) tyV" and rln: "rl n < b3"
    using Suc.prems by auto
  have s: "regs \<sigma>' (tempLoc (rl n)) = regs \<sigma> (tempLoc (rl n))"
    using frame_temp [OF f, of "rl n"] rln by simp
  have cmb: "readValue \<sigma>' (combinedValue tyV b3 n) =
               Some (\<lambda>j. bigOr (\<lambda>i. regs \<sigma> (tempLoc (rl i)) j) n)"
  proof (cases n)
    case 0
    then show ?thesis by (simp add: combinedValue_def INT_ZERO_def)
  next
    case (Suc k)
    then show ?thesis using v by (simp add: combinedValue_def)
  qed
  let ?\<sigma> = "\<sigma>'\<lparr>regs := (regs \<sigma>')(tempLoc (b3 + n) :=
                 (\<lambda>j. bigOr (\<lambda>i. regs \<sigma> (tempLoc (rl i)) j) (Suc n)))\<rparr>"
  have e: "exec (orInstruction tyV rv b3 n) \<sigma>' = Some ?\<sigma>"
    unfolding orInstruction_def
    by (subst exec_plain_Operation [where l = "tempLoc (b3 + n)", OF _ cmb])
       (simp_all add: rvn s)
  have 1: "run (orProgram tyV rv b3 (Suc n)) \<sigma> = Some ?\<sigma>"
    unfolding orProgram_Suc run_append r option.case run_single e ..
  have 2: "\<forall>k<Suc n. regs ?\<sigma> (tempLoc (b3 + k)) =
                    (\<lambda>j. bigOr (\<lambda>i. regs \<sigma> (tempLoc (rl i)) j) (Suc k))"
    using v by (auto simp: less_Suc_eq)
  have 3: "frame (\<lambda>k. b3 \<le> k \<and> k < b3 + Suc n) \<sigma> ?\<sigma>"
    by (intro frame_update [OF f]) auto
  show ?case using 1 2 3 by blast
qed

lemma assembleProgram_Suc:
  "assembleProgram tyD vec lane dst b (Suc n) =
     assembleProgram tyD vec lane dst b n @ assembleInstructions tyD vec lane dst b n"
  by (simp add: assembleProgram_def)

lemma run_assembleProgram:
  assumes "\<forall>i<n. vec i = tempValue (vl i) tyX \<and> vl i < b \<and> vl i \<noteq> dl \<and> lane i < 2 ^ 32"
    and "dst = tempValue dl tyD" and "dl < b" and "n \<le> 32"
  shows "\<exists>\<sigma>'. run (assembleProgram tyD vec lane dst b n) \<sigma> = Some \<sigma>' \<and>
           (\<forall>i<n. regs \<sigma>' (tempLoc dl) i = regs \<sigma> (tempLoc (vl i)) (lane i)) \<and>
           (\<forall>j. n \<le> j \<longrightarrow> regs \<sigma>' (tempLoc dl) j = regs \<sigma> (tempLoc dl) j) \<and>
           frame (\<lambda>k. k = dl \<or> (b \<le> k \<and> k < b + n)) \<sigma> \<sigma>'"
  using assms(1,4)
proof (induction n)
  case 0
  then show ?case by (simp add: assembleProgram_def frame_def)
next
  case (Suc n)
  then obtain \<sigma>' where r: "run (assembleProgram tyD vec lane dst b n) \<sigma> = Some \<sigma>'"
    and v: "\<forall>i<n. regs \<sigma>' (tempLoc dl) i = regs \<sigma> (tempLoc (vl i)) (lane i)"
    and u: "\<forall>j. n \<le> j \<longrightarrow> regs \<sigma>' (tempLoc dl) j = regs \<sigma> (tempLoc dl) j"
    and f: "frame (\<lambda>k. k = dl \<or> (b \<le> k \<and> k < b + n)) \<sigma> \<sigma>'"
    by auto
  have vn: "vec n = tempValue (vl n) tyX" and vl: "vl n < b" "vl n \<noteq> dl"
    and ln: "lane n < 2 ^ 32"
    using Suc.prems by auto
  have s: "regs \<sigma>' (tempLoc (vl n)) = regs \<sigma> (tempLoc (vl n))"
    using frame_temp [OF f, of "vl n"] vl by simp
  have un: "unat (of_nat (lane n) :: 32 word) = lane n" "unat (of_nat n :: 32 word) = n"
    using ln Suc.prems by (simp_all add: lane_number)
  let ?a = "\<sigma>'\<lparr>regs := (regs \<sigma>')(tempLoc (b + n) :=
                 (regs \<sigma>' (tempLoc (b + n)))(0 := regs \<sigma> (tempLoc (vl n)) (lane n)))\<rparr>"
  let ?b = "?a\<lparr>regs := (regs ?a)(tempLoc dl :=
                 (regs \<sigma>' (tempLoc dl))(n := regs \<sigma> (tempLoc (vl n)) (lane n)))\<rparr>"
  have e1: "exec (plain (VectorExtraction (vec n) (LiteralValue (of_nat (lane n)) TYPE_INT8)
               (tempValue (b + n) tyD))) \<sigma>' = Some ?a"
    by (subst exec_plain_Extraction [where v = "regs \<sigma>' (tempLoc (vl n))"])
       (simp_all add: vn un s)
  have e2: "exec (plain (VectorInsertion dst (LiteralValue (of_nat n) TYPE_INT8)
               (tempValue (b + n) tyD))) ?a = Some ?b"
    unfolding assms(2)
    using assms(3)
    by (subst exec_plain_Insertion [where v = "regs ?a (tempLoc (b + n))"])
       (simp_all add: un)
  have 1: "run (assembleProgram tyD vec lane dst b (Suc n)) \<sigma> = Some ?b"
    unfolding assembleProgram_Suc run_append r option.case assembleInstructions_def
    by (simp add: e1 e2)
  have 2: "\<forall>i<Suc n. regs ?b (tempLoc dl) i = regs \<sigma> (tempLoc (vl i)) (lane i)"
    using v by (auto simp: less_Suc_eq)
  have 3: "\<forall>j. Suc n \<le> j \<longrightarrow> regs ?b (tempLoc dl) j = regs \<sigma> (tempLoc dl) j"
    using u by auto
  have "frame (\<lambda>k. k = dl \<or> (b \<le> k \<and> k < b + Suc n)) \<sigma> ?a"
    by (rule frame_update [OF f]) auto
  then have 4: "frame (\<lambda>k. k = dl \<or> (b \<le> k \<and> k < b + Suc n)) \<sigma> ?b"
    by (rule frame_update) auto
  show ?case using 1 2 3 4 by blast
qed

lemma splitShiftProgram_Suc:
  "splitShiftProgram tyD src shift b (Suc n) =
     splitShiftProgram tyD src shift b n @ splitShiftInstructions tyD src shift b n"
  by (simp add: splitShiftProgram_def)

lemma run_splitShiftProgram:
  assumes "\<And>\<sigma>'. frame (\<lambda>k. b \<le> k) \<sigma> \<sigma>' \<Longrightarrow> readValue \<sigma>' src = Some v"
  shows "\<exists>\<sigma>'. run (splitShiftProgram tyD src shift b n) \<sigma> = Some \<sigma>' \<and>
           (\<forall>i<n. regs \<sigma>' (tempLoc (b + 2 * i)) =
                    (\<lambda>j. drop_bit (shift * i mod 32) (v j) AND getScalarWidthMask tyD)) \<and>
           frame (\<lambda>k. b \<le> k \<and> k < b + 2 * n) \<sigma> \<sigma>'"
proof (induction n)
  case 0
  then show ?case by (simp add: splitShiftProgram_def frame_def)
next
  case (Suc n)
  then obtain \<sigma>' where r: "run (splitShiftProgram tyD src shift b n) \<sigma> = Some \<sigma>'"
    and v: "\<forall>i<n. regs \<sigma>' (tempLoc (b + 2 * i)) =
                    (\<lambda>j. drop_bit (shift * i mod 32) (v j) AND getScalarWidthMask tyD)"
    and f: "frame (\<lambda>k. b \<le> k \<and> k < b + 2 * n) \<sigma> \<sigma>'"
    by auto
  have s: "readValue \<sigma>' src = Some v"
    by (rule assms [OF frame_weaken [OF f]]) simp
  have sh': "unat ((of_nat shift * of_nat n :: 32 word) AND 31) = shift * n mod 32"
    using shift_amount [of "shift * n"] by simp
  let ?a = "\<sigma>'\<lparr>regs := (regs \<sigma>')(tempLoc (b + 2 * n + 1) :=
                 (\<lambda>j. drop_bit (shift * n mod 32) (v j)))\<rparr>"
  let ?b = "?a\<lparr>regs := (regs ?a)(tempLoc (b + 2 * n) :=
                 (\<lambda>j. drop_bit (shift * n mod 32) (v j) AND getScalarWidthMask tyD))\<rparr>"
  have e1: "exec (plain (Operation OP_SHR (tempValue (b + 2 * n + 1) tyD) src
        (Some (LiteralValue (of_nat (shift * n)) TYPE_INT8)))) \<sigma>' = Some ?a"
    apply (subst exec_plain_Operation [where l = "tempLoc (b + 2 * n + 1)", OF _ s])
        apply simp_all
    apply (simp add: sh')
    done
  have e2: "exec (plain (Operation OP_AND (tempValue (b + 2 * n) tyD) (tempValue (b + 2 * n + 1) tyD)
        (Some (LiteralValue (getScalarWidthMask tyD) TYPE_INT32)))) ?a = Some ?b"
    by (subst exec_plain_Operation [where l = "tempLoc (b + 2 * n)"]) simp_all
  have 1: "run (splitShiftProgram tyD src shift b (Suc n)) \<sigma> = Some ?b"
    unfolding splitShiftProgram_Suc run_append r option.case splitShiftInstructions_def
    using e1 e2 by simp
  have 2: "\<forall>i<Suc n. regs ?b (tempLoc (b + 2 * i)) =
                    (\<lambda>j. drop_bit (shift * i mod 32) (v j) AND getScalarWidthMask tyD)"
    using v by (auto simp: less_Suc_eq)
  have "frame (\<lambda>k. b \<le> k \<and> k < b + 2 * Suc n) \<sigma> ?a"
    by (rule frame_update [OF f]) auto
  then have 3: "frame (\<lambda>k. b \<le> k \<and> k < b + 2 * Suc n) \<sigma> ?b"
    by (rule frame_update) auto
  show ?case using 1 2 3 by blast
qed

lemma bigOr_cong: "(\<And>k. k < n \<Longrightarrow> f k = g k) \<Longrightarrow> bigOr f n = bigOr g n"
  by (induction n) auto

lemma run_combiningProgram:
  fixes src dest :: Value and c :: nat
  defines "sb \<equiv> getScalarBitCount (vtype src)"
    and "sf \<equiv> getScalarBitCount (vtype dest) div getScalarBitCount (vtype src)"
  assumes src: "readValue \<sigma> src = Some v"
    and sf0: "0 < sf" and dvw0: "0 < getVectorWidth (vtype dest)"
    and lanes: "sf * getVectorWidth (vtype dest) \<le> 16"
    and d: "dest = LocalValue d t"
  shows "\<exists>\<sigma>'. run (combiningProgram c src dest @
                   [plain (Move dest (tempValue (c + 3 * sf) (vtype dest)))]) \<sigma> = Some \<sigma>' \<and>
           (\<forall>i < getVectorWidth (vtype dest).
              regs \<sigma>' (LocalLoc d) i =
                bigOr (\<lambda>k. push_bit (sb * k mod 32) (v (i * sf + k) AND mask sb)) sf)"
proof -
  define tyV where "tyV = toVectorType (vtype dest) (getVectorWidth (vtype src))"
  define rl where "rl = (\<lambda>i. if i = 0 then c + 1 else c + 1 + sf + i - 1)"
  define dvw where "dvw = getVectorWidth (vtype dest)"
  have sf32: "sf \<le> 32"
  proof -
    have "sf \<le> sf * dvw" using dvw0 unfolding dvw_def by (cases "getVectorWidth (vtype dest)") simp_all
    then show ?thesis using lanes unfolding dvw_def by linarith
  qed
  have dvw16: "dvw \<le> 32"
  proof -
    have "dvw \<le> sf * dvw" using sf0 by (cases sf) simp_all
    then show ?thesis using lanes unfolding dvw_def by linarith
  qed
  define s1 where "s1 = \<sigma>\<lparr>regs := (regs \<sigma>)(tempLoc c := (\<lambda>j. v j AND mask sb))\<rparr>"
  have e1: "run [plain (Operation OP_AND (tempValue c (vtype src)) src
                  (Some (LiteralValue (getScalarWidthMask (vtype src)) TYPE_INT32)))] \<sigma> = Some s1"
    unfolding run_single
    by (subst exec_plain_Operation [where l = "tempLoc c", OF _ src])
       (simp_all add: s1_def getScalarWidthMask_def sb_def)
  from run_shiftProgram [where ?c0.0 = c and b = "c + 1" and n = sf and tyV = tyV and ?ty0.0 = "vtype src" and shift = sb and \<sigma> = s1]
  obtain s2 where e2: "run (shiftProgram tyV (tempValue c (vtype src)) sb (c + 1) sf) s1 = Some s2"
    and v2: "\<forall>i < sf. regs s2 (tempLoc (c + 1 + i)) = (\<lambda>j. push_bit (sb * i mod 32) (v j AND mask sb))"
    and f2: "frame (\<lambda>k. c + 1 \<le> k \<and> k < c + 1 + sf) s1 s2"
    by (auto simp: s1_def)
  from run_rotateProgram [OF sf32, of "c + 1" "c + 1 + sf" tyV s2]
  obtain s3 where e3: "run (rotateProgram tyV (c + 1) (c + 1 + sf) sf) s2 = Some s3"
    and v3: "\<forall>i. 0 < i \<and> i < sf \<longrightarrow> regs s3 (tempLoc (c + 1 + sf + i - 1)) =
                    (\<lambda>j. regs s2 (tempLoc (c + 1 + i)) ((j + i) mod 16))"
    and f3: "frame (\<lambda>k. c + 1 + sf \<le> k \<and> k < c + 1 + sf + (sf - 1)) s2 s3"
    by auto
  have r3: "regs s3 (tempLoc (rl i)) j = push_bit (sb * i mod 32) (v ((j + i) mod 16) AND mask sb)"
    if "i < sf" and "j < 16" for i j
  proof (cases "i = 0")
    case True
    have a: "regs s3 (tempLoc (c + 1)) = regs s2 (tempLoc (c + 1))"
      by (rule frame_temp [OF f3]) (use sf0 in simp)
    have b: "regs s2 (tempLoc (c + 1 + 0)) = (\<lambda>j. push_bit (sb * 0 mod 32) (v j AND mask sb))"
      using v2 sf0 by blast
    show ?thesis
      using that a b by (simp add: rl_def True)
  next
    case False
    have a: "regs s3 (tempLoc (c + 1 + sf + i - 1)) =
               (\<lambda>j. regs s2 (tempLoc (c + 1 + i)) ((j + i) mod 16))"
      using v3 False that by blast
    have b: "regs s2 (tempLoc (c + 1 + i)) = (\<lambda>j. push_bit (sb * i mod 32) (v j AND mask sb))"
      using v2 that by blast
    show ?thesis
      using False a b by (simp add: rl_def)
  qed
  have rv: "\<forall>i < sf. rotatedValue tyV (c + 1) (c + 1 + sf) i = tempValue (rl i) tyV \<and>
               rl i < c + 2 * sf"
    by (auto simp: rotatedValue_def rl_def)
  from run_orProgram [OF rv, of s3]
  obtain s4 where e4: "run (orProgram tyV (rotatedValue tyV (c + 1) (c + 1 + sf)) (c + 2 * sf) sf) s3
                         = Some s4"
    and v4: "\<forall>k < sf. regs s4 (tempLoc (c + 2 * sf + k)) =
                    (\<lambda>j. bigOr (\<lambda>i. regs s3 (tempLoc (rl i)) j) (Suc k))"
    and f4: "frame (\<lambda>k. c + 2 * sf \<le> k \<and> k < c + 2 * sf + sf) s3 s4"
    by auto
  have cv: "combinedValue tyV (c + 2 * sf) sf = tempValue (c + 3 * sf - 1) tyV"
  proof -
    have "c + 2 * sf + sf - 1 = c + 3 * sf - 1" by arith
    then show ?thesis using sf0 by (simp only: combinedValue_def) simp
  qed
  have r4: "regs s4 (tempLoc (c + 3 * sf - 1)) j =
              bigOr (\<lambda>k. push_bit (sb * k mod 32) (v ((j + k) mod 16) AND mask sb)) sf"
    if "j < 16" for j
  proof -
    have idx: "c + 3 * sf - 1 = c + 2 * sf + (sf - 1)" using sf0 by simp
    have lt: "sf - 1 < sf" using sf0 by simp
    have sc: "Suc (sf - 1) = sf" using sf0 by simp
    have "regs s4 (tempLoc (c + 2 * sf + (sf - 1))) j =
            bigOr (\<lambda>i. regs s3 (tempLoc (rl i)) j) (Suc (sf - 1))"
      by (simp only: v4 [rule_format, OF lt])
    then have "regs s4 (tempLoc (c + 3 * sf - 1)) j =
                 bigOr (\<lambda>i. regs s3 (tempLoc (rl i)) j) sf"
      by (simp only: idx sc)
    also have "\<dots> = bigOr (\<lambda>k. push_bit (sb * k mod 32) (v ((j + k) mod 16) AND mask sb)) sf"
      by (rule bigOr_cong) (simp add: r3 that)
    finally show ?thesis .
  qed
  define s5 where "s5 = s4\<lparr>regs := (regs s4)(tempLoc (c + 3 * sf) := (\<lambda>j. 0))\<rparr>"
  have e5: "run [plain (Move (tempValue (c + 3 * sf) (vtype dest)) INT_ZERO)] s4 = Some s5"
    unfolding run_single
    by (subst exec_plain_Move [where l = "tempLoc (c + 3 * sf)" and v = "\<lambda>j. 0"])
       (simp_all add: s5_def INT_ZERO_def)
  have asm: "\<forall>i<dvw. (\<lambda>i. combinedValue tyV (c + 2 * sf) sf) i = tempValue ((\<lambda>i. c + 3 * sf - 1) i) tyV \<and>
               (\<lambda>i. c + 3 * sf - 1) i < c + 3 * sf + 1 \<and> (\<lambda>i. c + 3 * sf - 1) i \<noteq> c + 3 * sf \<and>
               (\<lambda>i. i * sf) i < 2 ^ 32"
  proof (intro allI impI conjI)
    fix i assume "i < dvw"
    then have "i * sf \<le> dvw * sf" by simp
    then have "i * sf \<le> 16" using lanes unfolding dvw_def mult.commute [of sf] by linarith
    then show "i * sf < 2 ^ 32" by simp
  qed (use sf0 in \<open>simp_all add: cv\<close>)
  from run_assembleProgram [OF asm refl _ dvw16, of "vtype dest" s5]
  obtain s6 where e6: "run (assembleProgram (vtype dest) (\<lambda>i. combinedValue tyV (c + 2 * sf) sf)
                          (\<lambda>i. i * sf) (tempValue (c + 3 * sf) (vtype dest)) (c + 3 * sf + 1) dvw) s5
                         = Some s6"
    and v6: "\<forall>i<dvw. regs s6 (tempLoc (c + 3 * sf)) i = regs s5 (tempLoc (c + 3 * sf - 1)) (i * sf)"
    by auto
  define s7 where "s7 = s6\<lparr>regs := (regs s6)(LocalLoc d := regs s6 (tempLoc (c + 3 * sf)))\<rparr>"
  have e7: "run [plain (Move dest (tempValue (c + 3 * sf) (vtype dest)))] s6 = Some s7"
    unfolding run_single d
    by (subst exec_plain_Move [where l = "LocalLoc d"]) (simp_all add: s7_def)
  have all: "run (combiningProgram c src dest @
                   [plain (Move dest (tempValue (c + 3 * sf) (vtype dest)))]) \<sigma> = Some s7"
    unfolding combiningProgram_def Let_def
    unfolding sf_def [symmetric]
    unfolding sb_def [symmetric] tyV_def [symmetric] dvw_def [symmetric]
    by (simp only: run_append e1 e2 e3 e4 e5 e6 e7 option.case)
  have res: "regs s7 (LocalLoc d) i = bigOr (\<lambda>k. push_bit (sb * k mod 32) (v (i * sf + k) AND mask sb)) sf"
    if i: "i < dvw" for i
  proof -
    have "Suc i * sf \<le> dvw * sf" using i by (intro mult_le_mono1) simp
    then have b: "i * sf + sf \<le> 16"
      using lanes unfolding dvw_def mult.commute [of sf] by simp
    then have j: "i * sf < 16" using sf0 by simp
    have "regs s7 (LocalLoc d) i = regs s6 (tempLoc (c + 3 * sf)) i"
      by (simp add: s7_def)
    also have "\<dots> = regs s4 (tempLoc (c + 3 * sf - 1)) (i * sf)"
    proof -
      have ne: "c + 3 * sf - 1 \<noteq> c + 3 * sf" using sf0 by arith
      have "regs s5 (tempLoc (c + 3 * sf - 1)) = regs s4 (tempLoc (c + 3 * sf - 1))"
        using ne by (simp add: s5_def tempLoc_eq)
      then show ?thesis using v6 i by simp
    qed
    also have "\<dots> = bigOr (\<lambda>k. push_bit (sb * k mod 32) (v ((i * sf + k) mod 16) AND mask sb)) sf"
      by (rule r4 [OF j])
    also have "\<dots> = bigOr (\<lambda>k. push_bit (sb * k mod 32) (v (i * sf + k) AND mask sb)) sf"
      using b by (intro bigOr_cong) simp
    finally show ?thesis .
  qed
  show ?thesis
    using all res by (auto simp: dvw_def)
qed

lemma run_splittingProgram:
  fixes src dest :: Value and c :: nat
  defines "db \<equiv> getScalarBitCount (vtype dest)"
    and "sf \<equiv> getScalarBitCount (vtype src) div getScalarBitCount (vtype dest)"
  assumes src: "\<And>\<sigma>'. frame (\<lambda>k. c \<le> k) \<sigma> \<sigma>' \<Longrightarrow> readValue \<sigma>' src = Some v"
    and sf0: "0 < sf"
    and lanes: "getVectorWidth (vtype dest) \<le> 16"
    and d: "dest = LocalValue d t"
  shows "\<exists>\<sigma>'. run (splittingProgram c src dest @
                   [plain (Move dest (tempValue (c + 2 * sf) (vtype dest)))]) \<sigma> = Some \<sigma>' \<and>
           (\<forall>i < getVectorWidth (vtype dest).
              regs \<sigma>' (LocalLoc d) i =
                drop_bit (db * (i mod sf) mod 32) (v (i div sf)) AND mask db)"
proof -
  define dvw where "dvw = getVectorWidth (vtype dest)"
  define tyD where "tyD = vtype dest"
  from run_splitShiftProgram [where b = c and src = src and v = v and \<sigma> = \<sigma> and tyD = tyD
      and shift = db and n = sf, OF src]
  obtain s1 where e1: "run (splitShiftProgram tyD src db c sf) \<sigma> = Some s1"
    and v1: "\<forall>i < sf. regs s1 (tempLoc (c + 2 * i)) =
                (\<lambda>j. drop_bit (db * i mod 32) (v j) AND getScalarWidthMask tyD)"
    by auto
  define s2 where "s2 = s1\<lparr>regs := (regs s1)(tempLoc (c + 2 * sf) := (\<lambda>j. 0))\<rparr>"
  have e2: "run [plain (Move (tempValue (c + 2 * sf) tyD) INT_ZERO)] s1 = Some s2"
    unfolding run_single
    by (subst exec_plain_Move [where l = "tempLoc (c + 2 * sf)" and v = "\<lambda>j. 0"])
       (simp_all add: s2_def INT_ZERO_def)
  have asm: "\<forall>i<dvw. (\<lambda>i. tempValue (c + 2 * (i mod sf)) tyD) i =
                 tempValue ((\<lambda>i. c + 2 * (i mod sf)) i) tyD \<and>
               (\<lambda>i. c + 2 * (i mod sf)) i < c + 2 * sf + 1 \<and>
               (\<lambda>i. c + 2 * (i mod sf)) i \<noteq> c + 2 * sf \<and>
               (\<lambda>i. i div sf) i < 2 ^ 32"
  proof (intro allI impI conjI)
    fix i assume i: "i < dvw"
    have m: "i mod sf < sf" using sf0 by simp
    show "c + 2 * (i mod sf) < c + 2 * sf + 1" using m by simp
    show "c + 2 * (i mod sf) \<noteq> c + 2 * sf" using m by simp
    have "i div sf \<le> i" by (rule div_le_dividend)
    then have "i div sf < 16" using i lanes unfolding dvw_def by linarith
    then show "i div sf < 2 ^ 32" by simp
  qed simp
  have dvw32: "dvw \<le> 32" using lanes unfolding dvw_def by simp
  from run_assembleProgram [OF asm refl _ dvw32, of tyD s2]
  obtain s3 where e3: "run (assembleProgram tyD (\<lambda>i. tempValue (c + 2 * (i mod sf)) tyD)
                          (\<lambda>i. i div sf) (tempValue (c + 2 * sf) tyD) (c + 2 * sf + 1) dvw) s2
                         = Some s3"
    and v3: "\<forall>i<dvw. regs s3 (tempLoc (c + 2 * sf)) i =
                regs s2 (tempLoc (c + 2 * (i mod sf))) (i div sf)"
    by auto
  define s4 where "s4 = s3\<lparr>regs := (regs s3)(LocalLoc d := regs s3 (tempLoc (c + 2 * sf)))\<rparr>"
  have e4: "run [plain (Move dest (tempValue (c + 2 * sf) tyD))] s3 = Some s4"
    unfolding run_single d
    by (subst exec_plain_Move [where l = "LocalLoc d"]) (simp_all add: s4_def)
  have all: "run (splittingProgram c src dest @
                   [plain (Move dest (tempValue (c + 2 * sf) (vtype dest)))]) \<sigma> = Some s4"
    unfolding splittingProgram_def Let_def
    unfolding sf_def [symmetric]
    unfolding db_def [symmetric] dvw_def [symmetric]
    unfolding tyD_def [symmetric]
    by (simp only: run_append e1 e2 e3 e4 option.case)
  have res: "regs s4 (LocalLoc d) i = drop_bit (db * (i mod sf) mod 32) (v (i div sf)) AND mask db"
    if i: "i < dvw" for i
  proof -
    have m: "i mod sf < sf" using sf0 by simp
    then have ne: "c + 2 * (i mod sf) \<noteq> c + 2 * sf" by simp
    have "regs s4 (LocalLoc d) i = regs s3 (tempLoc (c + 2 * sf)) i"
      by (simp add: s4_def)
    also have "\<dots> = regs s2 (tempLoc (c + 2 * (i mod sf))) (i div sf)"
      using v3 i by simp
    also have "\<dots> = regs s1 (tempLoc (c + 2 * (i mod sf))) (i div sf)"
      using ne by (simp add: s2_def)
    also have "\<dots> = drop_bit (db * (i mod sf) mod 32) (v (i div sf)) AND mask db"
      by (simp only: v1 [rule_format, OF m] getScalarWidthMask_def tyD_def db_def)
    finally show ?thesis .
  qed
  show ?thesis
    using all res by (auto simp: dvw_def)
qed

subsection \<open>Bit-casts: the raw bit pattern\<close>

text \<open>
  Bit \<open>b\<close> of a combined or split lane is bit \<open>b\<close> of the pattern of the source, as long as
  the wider of the two element types fits into a lane.
\<close>

lemma bit_bigOr: "bit (bigOr f n) b = (\<exists>k<n. bit (f k) b)"
  by (induction n) (auto simp: bit_or_iff less_Suc_eq)

lemma combine_bit:
  fixes v :: "nat \<Rightarrow> 32 word"
  assumes db: "db = sb * sf" and sb0: "0 < sb" and sf0: "0 < sf" and w: "db \<le> 32"
  shows "bit (bigOr (\<lambda>k. push_bit (sb * k mod 32) (v ((b div db) * sf + k) AND mask sb)) sf) (b mod db)
           = bit (v (b div sb)) (b mod sb)"
proof -
  define r where "r = b mod db"
  define i where "i = b div db"
  define k0 where "k0 = r div sb"
  have db0: "0 < db" using db sb0 sf0 by simp
  have r: "r < db" unfolding r_def using db0 by simp
  have r32: "r < 32" using r w by simp
  have k0: "k0 < sf"
    unfolding k0_def using r db by (simp add: less_mult_imp_div_less mult.commute)
  have sh: "sb * k mod 32 = sb * k" if "k < sf" for k
  proof -
    have "sb * k < sb * sf" using that sb0 by simp
    moreover have "sb * sf \<le> 32" using w db by simp
    ultimately have "sb * k < 32" by (rule order.strict_trans2)
    then show ?thesis by (rule mod_less)
  qed
  have uniq: "(sb * k \<le> r \<and> r - sb * k < sb) = (k = k0)" for k
  proof
    assume a: "sb * k \<le> r \<and> r - sb * k < sb"
    then have "r < sb * k + sb" by linarith
    then have "r < sb * Suc k" by simp
    with a have "r div sb = k" by (intro div_nat_eqI) simp_all
    then show "k = k0" by (simp add: k0_def)
  next
    assume "k = k0"
    then have k: "k = r div sb" by (simp add: k0_def)
    have 1: "sb * (r div sb) \<le> r" by simp
    have "r - sb * (r div sb) = r mod sb" by (simp add: minus_mult_div_eq_mod)
    then have 2: "r - sb * (r div sb) < sb" using sb0 by simp
    show "sb * k \<le> r \<and> r - sb * k < sb" using 1 2 k by simp
  qed
  have b: "b = i * db + r"
    unfolding i_def r_def by simp
  have bd: "b div sb = i * sf + k0"
  proof -
    have "b = (i * sf) * sb + r" using b db by (simp add: mult.commute mult.left_commute)
    then have "b div sb = (r + (i * sf) * sb) div sb" by (simp add: add.commute)
    also have "\<dots> = r div sb + i * sf" using sb0 by simp
    finally show ?thesis by (simp add: k0_def)
  qed
  have bm: "b mod sb = r - sb * k0"
  proof -
    have "b = (i * sf) * sb + r" using b db by (simp add: mult.commute mult.left_commute)
    then have "b mod sb = (r + (i * sf) * sb) mod sb" by (simp add: add.commute)
    also have "\<dots> = r mod sb" by simp
    finally show ?thesis by (simp add: k0_def minus_mult_div_eq_mod)
  qed
  have "bit (bigOr (\<lambda>k. push_bit (sb * k mod 32) (v (i * sf + k) AND mask sb)) sf) r
          = (\<exists>k < sf. bit (push_bit (sb * k) (v (i * sf + k) AND mask sb)) r)"
    unfolding bit_bigOr using sh by auto
  also have "\<dots> = (\<exists>k < sf. (sb * k \<le> r \<and> r - sb * k < sb) \<and> bit (v (i * sf + k)) (r - sb * k))"
    using r32 by (auto simp: bit_push_bit_iff bit_and_iff bit_mask_iff)
  also have "\<dots> = bit (v (i * sf + k0)) (r - sb * k0)"
    unfolding uniq using k0 by auto
  finally show ?thesis
    unfolding r_def [symmetric] i_def [symmetric] bd bm .
qed

lemma split_bit:
  fixes v :: "nat \<Rightarrow> 32 word"
  assumes ss: "ss = db * sf" and db0: "0 < db" and sf0: "0 < sf" and w: "ss \<le> 32"
  shows "bit (drop_bit (db * ((b div db) mod sf) mod 32) (v ((b div db) div sf)) AND mask db) (b mod db)
           = bit (v (b div ss)) (b mod ss)"
proof -
  have m: "(b div db) mod sf < sf" using sf0 by simp
  then have "db * ((b div db) mod sf) < db * sf" using db0 by simp
  moreover have "db * sf \<le> 32" using w ss by simp
  ultimately have "db * ((b div db) mod sf) < 32" by (rule order.strict_trans2)
  then have sh: "db * ((b div db) mod sf) mod 32 = db * ((b div db) mod sf)"
    by (rule mod_less)
  have r: "b mod db < db" using db0 by simp
  have "db \<le> db * sf" using sf0 by (cases sf) simp_all
  moreover have "db * sf \<le> 32" using w ss by simp
  ultimately have "db \<le> 32" by (rule order_trans)
  then have r32: "b mod db < 32" using r by simp
  have bd: "b div ss = (b div db) div sf"
    unfolding ss by (simp add: div_mult2_eq)
  have bm: "b mod ss = db * ((b div db) mod sf) + b mod db"
    unfolding ss by (simp add: mod_mult2_eq)
  show ?thesis
    unfolding sh bd bm using r r32 by (simp add: bit_and_iff bit_mask_iff bit_drop_bit_eq)
qed

lemma instructions_mapDestinationToSource [simp]:
  "instructions (mapDestinationToSource m dest src) = instructions m"
  by (simp add: mapDestinationToSource_def setReference_def split: Value.splits)

lemma addDecorations_fields:
  "body (addDecorations d i) = body i"
  "packMode (addDecorations d i) = packMode i"
  "unpackMode (addDecorations d i) = unpackMode i"
  "writeResult (addDecorations d i) = writeResult i"
  by (simp_all add: addDecorations_def writeResult_def writeLanes_def fun_eq_iff)

lemma exec_addDecorations: "exec (addDecorations d i) \<sigma> = exec i \<sigma>"
  unfolding exec_def addDecorations_fields by (rule refl)

lemma run_decorate_last: "run (p @ [addDecorations d i]) \<sigma> = run (p @ [i]) \<sigma>"
  by (simp add: run_append run_single exec_addDecorations split: option.splits)

lemma inserted_modify_last:
  assumes "inserted it m (Suc it1) m1 (p @ [i])" and "instructions m2 = instructions m1"
  shows "inserted it m (Suc it1) (modifyAt it1 m2 f) (p @ [f i])"
proof -
  have it: "it \<le> length (instructions m)" and it1: "it1 = it + length p"
    and ins: "instructions m1 = take it (instructions m) @ (p @ [i]) @ drop it (instructions m)"
    using assms(1) by (simp_all add: inserted_def)
  have len: "length (take it (instructions m) @ p) = it1"
    using it it1 by simp
  have "instructions m1 = (take it (instructions m) @ p) @ i # drop it (instructions m)"
    using ins by simp
  then have "(instructions m1)[it1 := f (instructions m1 ! it1)] =
               (take it (instructions m) @ p) @ f i # drop it (instructions m)"
    using len by (metis list_update_length nth_append_length)
  then show ?thesis
    using it it1 assms(2) by (simp add: inserted_def modifyAt_def)
qed

lemma readValue_known:
  assumes "knownValue m src" and "frame (\<lambda>k. localCounter m \<le> k) \<sigma> \<sigma>'"
  shows "readValue \<sigma>' src = readValue \<sigma> src"
proof (cases src)
  case (LocalValue n t)
  have "\<forall>k. localCounter m \<le> k \<longrightarrow> LocalLoc n \<noteq> tempLoc k"
    using assms(1) LocalValue by (cases n) (auto simp: tempLoc_def)
  then have "regs \<sigma>' (LocalLoc n) = regs \<sigma> (LocalLoc n)"
    using assms(2) unfolding frame_def by blast
  then show ?thesis using LocalValue by simp
next
  case (RegisterValue r t)
  have "\<forall>k. localCounter m \<le> k \<longrightarrow> RegisterLoc r \<noteq> tempLoc k"
    by (simp add: tempLoc_def)
  then have "regs \<sigma>' (RegisterLoc r) = regs \<sigma> (RegisterLoc r)"
    using assms(2) unfolding frame_def by blast
  then show ?thesis using RegisterValue by simp
qed simp_all

lemma width_arith:
  fixes ss ds swv dwv :: nat
  assumes "ss \<in> {8, 16, 32}" and "ds \<in> {8, 16, 32}" and "ss * swv = ds * dwv" and "dwv < swv"
  shows "ds = ss * (ds div ss)" and "0 < ds div ss" and "(ds div ss) * dwv = swv"
  using assms by auto

lemma insertBitcast_finish:
  assumes r: "insertBitcast it m src dest deco =
                Ok (Suc it1) (modifyAt it1 (mapDestinationToSource m1 dest src) (addDecorations deco))"
    and ins: "inserted it m (Suc it1) m1 (q @ [i])"
    and sem: "\<And>\<sigma> v. readValue \<sigma> src = Some v \<Longrightarrow>
                \<exists>\<sigma>'. run (q @ [i]) \<sigma> = Some \<sigma>' \<and>
                  (\<forall>b < totalBits (vtype src).
                     rawBit (vtype dest) (regs \<sigma>' (LocalLoc d)) b = rawBit (vtype src) v b)"
    and d: "dest = LocalValue d t"
  shows "\<exists>it' m' p. insertBitcast it m src dest deco = Ok it' m' \<and> inserted it m it' m' p \<and>
           (\<forall>\<sigma> v. readValue \<sigma> src = Some v \<longrightarrow>
              (\<exists>\<sigma>' v'. run p \<sigma> = Some \<sigma>' \<and> readValue \<sigma>' dest = Some v' \<and>
                 (\<forall>b < totalBits (vtype src). rawBit (vtype dest) v' b = rawBit (vtype src) v b)))"
proof -
  let ?m' = "modifyAt it1 (mapDestinationToSource m1 dest src) (addDecorations deco)"
  let ?p = "q @ [addDecorations deco i]"
  have ins': "inserted it m (Suc it1) ?m' ?p"
    by (rule inserted_modify_last [OF ins]) simp
  have sem': "\<exists>\<sigma>' v'. run ?p \<sigma> = Some \<sigma>' \<and> readValue \<sigma>' dest = Some v' \<and>
      (\<forall>b < totalBits (vtype src). rawBit (vtype dest) v' b = rawBit (vtype src) v b)"
    if "readValue \<sigma> src = Some v" for \<sigma> v
  proof -
    from sem [OF that] obtain \<sigma>' where
      1: "run (q @ [i]) \<sigma> = Some \<sigma>'" and
      2: "\<forall>b < totalBits (vtype src).
            rawBit (vtype dest) (regs \<sigma>' (LocalLoc d)) b = rawBit (vtype src) v b"
      by blast
    have "run ?p \<sigma> = Some \<sigma>'"
      unfolding run_decorate_last by (rule 1)
    moreover have "readValue \<sigma>' dest = Some (regs \<sigma>' (LocalLoc d))"
      by (simp add: d)
    ultimately show ?thesis
      using 2 by blast
  qed
  show ?thesis
    using r ins' sem' by blast
qed

lemma insertBitcast_combining:
  fixes src dest :: Value
  defines "ss \<equiv> getScalarBitCount (vtype src)"
    and "sf \<equiv> getScalarBitCount (vtype dest) div getScalarBitCount (vtype src)"
  assumes it: "it \<le> length (instructions m)"
    and nz: "\<not> isUndefined src" "\<not> isZeroInitializer src"
    and gt: "getVectorWidth (vtype dest) < getVectorWidth (vtype src)"
    and sf0: "0 < sf" and dvw0: "0 < getVectorWidth (vtype dest)"
    and lanes: "sf * getVectorWidth (vtype dest) \<le> 16"
    and d: "dest = LocalValue d t"
  shows "\<exists>it1 m1 q i.
           insertBitcast it m src dest deco =
             Ok (Suc it1) (modifyAt it1 (mapDestinationToSource m1 dest src) (addDecorations deco)) \<and>
           inserted it m (Suc it1) m1 (q @ [i]) \<and>
           (\<forall>\<sigma> v. readValue \<sigma> src = Some v \<longrightarrow>
              (\<exists>\<sigma>'. run (q @ [i]) \<sigma> = Some \<sigma>' \<and>
                 (\<forall>j < getVectorWidth (vtype dest). regs \<sigma>' (LocalLoc d) j =
                    bigOr (\<lambda>k. push_bit (ss * k mod 32) (v (j * sf + k) AND mask ss)) sf)))"
proof -
  from insertCombiningBitcast_inserted [OF it sf0 [unfolded sf_def]]
  obtain it1 m1 where e: "insertCombiningBitcast it m src dest = (it1, m1)"
    and ins: "inserted it m (Suc it1) m1
           (combiningProgram (localCounter m) src dest @
            [plain (Move dest (tempValue (localCounter m + 3 * sf) (vtype dest)))])"
    unfolding sf_def by blast
  have r: "insertBitcast it m src dest deco =
             Ok (Suc it1) (modifyAt it1 (mapDestinationToSource m1 dest src) (addDecorations deco))"
    using nz gt e by (simp add: insertBitcast_def nextInBlock_def)
  have sem: "\<exists>\<sigma>'. run (combiningProgram (localCounter m) src dest @
            [plain (Move dest (tempValue (localCounter m + 3 * sf) (vtype dest)))]) \<sigma> = Some \<sigma>' \<and>
               (\<forall>j < getVectorWidth (vtype dest). regs \<sigma>' (LocalLoc d) j =
                  bigOr (\<lambda>k. push_bit (ss * k mod 32) (v (j * sf + k) AND mask ss)) sf)"
    if rd: "readValue \<sigma> src = Some v" for \<sigma> v
    unfolding sf_def ss_def
    by (rule run_combiningProgram [OF rd sf0 [unfolded sf_def] dvw0 lanes [unfolded sf_def] d])
  show ?thesis
    using r ins sem by blast
qed

lemma insertBitcast_program:
  assumes it: "it \<le> length (instructions m)" and c: "castable m src dest"
  shows "\<exists>it' m' p. insertBitcast it m src dest deco = Ok it' m' \<and> inserted it m it' m' p \<and>
           (\<forall>\<sigma> v. readValue \<sigma> src = Some v \<longrightarrow>
              (\<exists>\<sigma>' v'. run p \<sigma> = Some \<sigma>' \<and> readValue \<sigma>' dest = Some v' \<and>
                 (\<forall>b < totalBits (vtype src). rawBit (vtype dest) v' b = rawBit (vtype src) v b)))"
proof -
  define ss where "ss = getScalarBitCount (vtype src)"
  define ds where "ds = getScalarBitCount (vtype dest)"
  define swv where "swv = getVectorWidth (vtype src)"
  define dwv where "dwv = getVectorWidth (vtype dest)"
  obtain d t where d: "dest = LocalValue d t"
    using c by (cases dest) (simp_all add: castable_def)
  have known: "knownValue m src"
    and ss: "ss \<in> {8, 16, 32}" and ds: "ds \<in> {8, 16, 32}"
    and swv: "0 < swv" "swv \<le> 16" and dwv: "0 < dwv" "dwv \<le> 16"
    and total: "ss * swv = ds * dwv"
    using c by (simp_all add: castable_def totalBits_def ss_def ds_def swv_def dwv_def)
  have ss0: "0 < ss" and ss32: "ss \<le> 32" using ss by auto
  have ds0: "0 < ds" and ds32: "ds \<le> 32" using ds by auto
  have single: "inserted it m (Suc it) (emplace it m i) ([] @ [i])" for i
    by (rule inserted_step [OF inserted_refl [OF it] refl])
  consider (undef) "isUndefined src"
    | (zero) "\<not> isUndefined src" "isZeroInitializer src"
    | (comb) "\<not> isUndefined src" "\<not> isZeroInitializer src" "dwv < swv"
    | (split) "\<not> isUndefined src" "\<not> isZeroInitializer src" "swv < dwv"
    | (move) "\<not> isUndefined src" "\<not> isZeroInitializer src" "swv = dwv"
    by linarith
  then show ?thesis
  proof cases
    case undef
    let ?i = "plain (Move dest UNDEFINED_VALUE)"
    have r: "insertBitcast it m src dest deco =
               Ok (Suc it) (modifyAt it (mapDestinationToSource (emplace it m ?i) dest src)
                 (addDecorations deco))"
      using undef by (simp add: insertBitcast_def nextInBlock_def)
    have sem: "\<exists>\<sigma>'. run ([] @ [?i]) \<sigma> = Some \<sigma>' \<and>
                  (\<forall>b < totalBits (vtype src).
                     rawBit (vtype dest) (regs \<sigma>' (LocalLoc d)) b = rawBit (vtype src) v b)"
      if "readValue \<sigma> src = Some v" for \<sigma> v
      using that undef by (cases src) simp_all
    show ?thesis
      by (rule insertBitcast_finish [OF r single sem d])
  next
    case zero
    let ?i = "plain (Move dest INT_ZERO)"
    have r: "insertBitcast it m src dest deco =
               Ok (Suc it) (modifyAt it (mapDestinationToSource (emplace it m ?i) dest src)
                 (addDecorations deco))"
      using zero by (simp add: insertBitcast_def nextInBlock_def)
    have sem: "\<exists>\<sigma>'. run ([] @ [?i]) \<sigma> = Some \<sigma>' \<and>
                  (\<forall>b < totalBits (vtype src).
                     rawBit (vtype dest) (regs \<sigma>' (LocalLoc d)) b = rawBit (vtype src) v b)"
      if rd: "readValue \<sigma> src = Some v" for \<sigma> v
    proof -
      have v: "v = (\<lambda>j. 0)"
        using rd zero by (cases src) auto
      have "exec ?i \<sigma> = Some (\<sigma>\<lparr>regs := (regs \<sigma>)(LocalLoc d := (\<lambda>j. 0))\<rparr>)"
        unfolding d
        by (rule exec_plain_Move) (simp_all add: INT_ZERO_def)
      then show ?thesis
        by (simp add: v rawBit_def)
    qed
    show ?thesis
      by (rule insertBitcast_finish [OF r single sem d])
  next
    case comb
    define sf where "sf = ds div ss"
    have a: "ds = ss * sf" "0 < sf" "sf * dwv = swv"
      unfolding sf_def by (rule width_arith [OF ss ds total comb(3)])+
    have sf0: "0 < getScalarBitCount (vtype dest) div getScalarBitCount (vtype src)"
      using a(2) by (simp add: sf_def ds_def ss_def)
    have gt: "getVectorWidth (vtype dest) < getVectorWidth (vtype src)"
      using comb(3) by (simp add: swv_def dwv_def)
    have dvw0: "0 < getVectorWidth (vtype dest)" using dwv by (simp add: dwv_def)
    have lanes: "getScalarBitCount (vtype dest) div getScalarBitCount (vtype src) *
                   getVectorWidth (vtype dest) \<le> 16"
      using a(3) swv by (simp add: sf_def ds_def ss_def dwv_def)
    from insertBitcast_combining [OF it comb(1,2) gt sf0 dvw0 lanes d, of deco]
    obtain it1 m1 q i where
      r: "insertBitcast it m src dest deco =
            Ok (Suc it1) (modifyAt it1 (mapDestinationToSource m1 dest src) (addDecorations deco))"
      and ins: "inserted it m (Suc it1) m1 (q @ [i])"
      and lanes: "\<And>\<sigma> v. readValue \<sigma> src = Some v \<Longrightarrow>
              \<exists>\<sigma>'. run (q @ [i]) \<sigma> = Some \<sigma>' \<and>
                 (\<forall>j < dwv. regs \<sigma>' (LocalLoc d) j =
                    bigOr (\<lambda>k. push_bit (ss * k mod 32) (v (j * sf + k) AND mask ss)) sf)"
      unfolding sf_def ds_def ss_def dwv_def by blast
    have sem: "\<exists>\<sigma>'. run (q @ [i]) \<sigma> = Some \<sigma>' \<and>
                  (\<forall>b < totalBits (vtype src).
                     rawBit (vtype dest) (regs \<sigma>' (LocalLoc d)) b = rawBit (vtype src) v b)"
      if rd: "readValue \<sigma> src = Some v" for \<sigma> v
    proof -
      from lanes [OF rd]
      obtain \<sigma>' where run: "run (q @ [i]) \<sigma> = Some \<sigma>'"
        and lane: "\<forall>i < dwv. regs \<sigma>' (LocalLoc d) i =
                bigOr (\<lambda>k. push_bit (ss * k mod 32) (v (i * sf + k) AND mask ss)) sf"
        by blast
      have "rawBit (vtype dest) (regs \<sigma>' (LocalLoc d)) b = rawBit (vtype src) v b"
        if b: "b < totalBits (vtype src)" for b
      proof -
        have "b < dwv * ds"
          using b total by (simp add: totalBits_def ss_def swv_def mult.commute)
        then have i: "b div ds < dwv"
          by (rule less_mult_imp_div_less)
        have "rawBit (vtype dest) (regs \<sigma>' (LocalLoc d)) b =
                bit (bigOr (\<lambda>k. push_bit (ss * k mod 32) (v ((b div ds) * sf + k) AND mask ss)) sf)
                  (b mod ds)"
          using lane i by (simp add: rawBit_def ds_def)
        also have "\<dots> = bit (v (b div ss)) (b mod ss)"
          by (rule combine_bit [OF a(1) ss0 a(2) ds32])
        finally show ?thesis
          by (simp add: rawBit_def ss_def)
      qed
      then show ?thesis using run by blast
    qed
    show ?thesis
      by (rule insertBitcast_finish [OF r ins sem d])
  next
    case split
    define sf where "sf = ss div ds"
    have a: "ss = ds * sf" "0 < sf" "sf * swv = dwv"
      unfolding sf_def by (rule width_arith [OF ds ss total [symmetric] split(3)])+
    have sf0: "0 < getScalarBitCount (vtype src) div getScalarBitCount (vtype dest)"
      using a(2) by (simp add: sf_def ds_def ss_def)
    from insertSplittingBitcast_inserted [OF it sf0]
    obtain it1 m1 where e: "insertSplittingBitcast it m src dest = Ok it1 m1"
      and ins: "inserted it m (Suc it1) m1
             (splittingProgram (localCounter m) src dest @
              [plain (Move dest (tempValue (localCounter m +
                  2 * (getScalarBitCount (vtype src) div getScalarBitCount (vtype dest)))
                  (vtype dest)))])"
      by blast
    have r: "insertBitcast it m src dest deco =
               Ok (Suc it1) (modifyAt it1 (mapDestinationToSource m1 dest src) (addDecorations deco))"
      using split e by (simp add: insertBitcast_def nextInBlock_def swv_def dwv_def)
    have sem: "\<exists>\<sigma>'. run (splittingProgram (localCounter m) src dest @
              [plain (Move dest (tempValue (localCounter m +
                  2 * (getScalarBitCount (vtype src) div getScalarBitCount (vtype dest)))
                  (vtype dest)))]) \<sigma> = Some \<sigma>' \<and>
                  (\<forall>b < totalBits (vtype src).
                     rawBit (vtype dest) (regs \<sigma>' (LocalLoc d)) b = rawBit (vtype src) v b)"
      if rd: "readValue \<sigma> src = Some v" for \<sigma> v
    proof -
      have stable: "readValue \<sigma>' src = Some v" if "frame (\<lambda>k. localCounter m \<le> k) \<sigma> \<sigma>'" for \<sigma>'
        using readValue_known [OF known that] rd by simp
      have lanes: "getVectorWidth (vtype dest) \<le> 16" using dwv by (simp add: dwv_def)
      from run_splittingProgram [OF stable sf0 lanes d]
      obtain \<sigma>' where run: "run (splittingProgram (localCounter m) src dest @
              [plain (Move dest (tempValue (localCounter m +
                  2 * (getScalarBitCount (vtype src) div getScalarBitCount (vtype dest)))
                  (vtype dest)))]) \<sigma> = Some \<sigma>'"
        and lane: "\<forall>i < dwv. regs \<sigma>' (LocalLoc d) i =
                drop_bit (ds * (i mod sf) mod 32) (v (i div sf)) AND mask ds"
        unfolding sf_def ds_def ss_def dwv_def by blast
      have "rawBit (vtype dest) (regs \<sigma>' (LocalLoc d)) b = rawBit (vtype src) v b"
        if b: "b < totalBits (vtype src)" for b
      proof -
        have "b < dwv * ds"
          using b total by (simp add: totalBits_def ss_def swv_def mult.commute)
        then have i: "b div ds < dwv"
          by (rule less_mult_imp_div_less)
        have "rawBit (vtype dest) (regs \<sigma>' (LocalLoc d)) b =
                bit (drop_bit (ds * ((b div ds) mod sf) mod 32) (v ((b div ds) div sf)) AND mask ds)
                  (b mod ds)"
          using lane i by (simp add: rawBit_def ds_def)
        also have "\<dots> = bit (v (b div ss)) (b mod ss)"
          by (rule split_bit [OF a(1) ds0 a(2) ss32])
        finally show ?thesis
          by (simp add: rawBit_def ss_def)
      qed
      then show ?thesis using run by blast
    qed
    show ?thesis
      by (rule insertBitcast_finish [OF r ins sem d])
  next
    case move
    let ?i = "addDecorations deco (plain (Move dest src))"
    have eq: "ss = ds"
      using total move(3) dwv by simp
    have r: "insertBitcast it m src dest deco =
               Ok (Suc it) (modifyAt it (mapDestinationToSource (emplace it m ?i) dest src)
                 (addDecorations deco))"
      using move by (simp add: insertBitcast_def nextInBlock_def swv_def dwv_def)
    have sem: "\<exists>\<sigma>'. run ([] @ [?i]) \<sigma> = Some \<sigma>' \<and>
                  (\<forall>b < totalBits (vtype src).
                     rawBit (vtype dest) (regs \<sigma>' (LocalLoc d)) b = rawBit (vtype src) v b)"
      if rd: "readValue \<sigma> src = Some v" for \<sigma> v
    proof -
      have "exec (plain (Move dest src)) \<sigma> = Some (\<sigma>\<lparr>regs := (regs \<sigma>)(LocalLoc d := v)\<rparr>)"
        unfolding d
        by (rule exec_plain_Move [OF rd]) simp_all
      then have "run ([] @ [?i]) \<sigma> = Some (\<sigma>\<lparr>regs := (regs \<sigma>)(LocalLoc d := v)\<rparr>)"
        by (simp add: exec_addDecorations)
      moreover have "rawBit (vtype dest) v b = rawBit (vtype src) v b" for b
        using eq by (simp add: rawBit_def ss_def ds_def)
      ultimately show ?thesis by simp
    qed
    show ?thesis
      by (rule insertBitcast_finish [OF r single sem d])
  qed
qed

lemma inserted_trans:
  assumes "inserted it m it' m' p" and "inserted it' m' it'' m'' q"
  shows "inserted it m it'' m'' (p @ q)"
proof -
  have it: "it \<le> length (instructions m)" and it': "it' = it + length p"
    and ins: "instructions m' = take it (instructions m) @ p @ drop it (instructions m)"
    using assms(1) by (simp_all add: inserted_def)
  have it'': "it'' = it' + length q"
    and ins': "instructions m'' = take it' (instructions m') @ q @ drop it' (instructions m')"
    using assms(2) by (simp_all add: inserted_def)
  have len: "length (take it (instructions m) @ p) = it'"
    using it it' by simp
  have "instructions m' = (take it (instructions m) @ p) @ drop it (instructions m)"
    using ins by simp
  then have "take it' (instructions m') = take it (instructions m) @ p"
    and "drop it' (instructions m') = drop it (instructions m)"
    using len by (metis append_eq_conv_conj)+
  then show ?thesis
    using it it' it'' ins' by (simp add: inserted_def)
qed

lemma inserted_bound: "inserted it m it' m' p \<Longrightarrow> it' \<le> length (instructions m')"
  by (auto simp: inserted_def)

lemma combined_lane:
  fixes v v' :: Lanes
  assumes bits: "\<forall>b < 32 * n. rawBit T v' b = rawBit S v b"
    and T: "getScalarBitCount T = 32" and S: "getScalarBitCount S = 16" and i: "i < n"
  shows "v' i = (v (2 * i) AND mask 16) OR push_bit 16 (v (2 * i + 1))"
proof (rule bit_word_eqI)
  fix k assume "k < LENGTH(32)"
  then have k: "k < 32" by simp
  have "32 * i + k < 32 * n" using i k by simp
  then have "rawBit T v' (32 * i + k) = rawBit S v (32 * i + k)"
    using bits by blast
  then have e: "bit (v' i) k = bit (v ((32 * i + k) div 16)) ((32 * i + k) mod 16)"
    using k by (simp add: rawBit_def T S)
  show "bit (v' i) k = bit ((v (2 * i) AND mask 16) OR push_bit 16 (v (2 * i + 1))) k"
  proof (cases "k < 16")
    case True
    have eq: "32 * i + k = k + (2 * i) * 16" by simp
    have "(k + (2 * i) * 16) mod 16 = k mod 16" by (rule mod_mult_self1)
    moreover have "(k + (2 * i) * 16) div 16 = 2 * i + k div 16" by (rule div_mult_self1) simp
    ultimately have "(32 * i + k) div 16 = 2 * i" and "(32 * i + k) mod 16 = k"
      unfolding eq using True by (simp_all only: mod_less div_less add_0_right)
    then show ?thesis
      using e True by (simp add: bit_or_iff bit_and_iff bit_mask_iff bit_push_bit_iff)
  next
    case False
    then have eq: "32 * i + k = (k - 16) + (2 * i + 1) * 16" by simp
    have "k - 16 < 16" using k by simp
    moreover have "((k - 16) + (2 * i + 1) * 16) mod 16 = (k - 16) mod 16"
      by (rule mod_mult_self1)
    moreover have "((k - 16) + (2 * i + 1) * 16) div 16 = (2 * i + 1) + (k - 16) div 16"
      by (rule div_mult_self1) simp
    ultimately have "(32 * i + k) div 16 = 2 * i + 1" and "(32 * i + k) mod 16 = k - 16"
      unfolding eq by (simp_all only: mod_less div_less add_0_right)
    then show ?thesis
      using e False k by (simp add: bit_or_iff bit_and_iff bit_mask_iff bit_push_bit_iff)
  qed
qed

lemma split_lane:
  fixes v v' :: Lanes
  assumes bits: "\<forall>b < 16 * n. rawBit S v' b = rawBit S v b"
    and S: "getScalarBitCount S = 16" and i: "i < n"
  shows "take_bit 16 (v' i) = take_bit 16 (v i)"
proof (rule bit_word_eqI)
  fix k assume "k < LENGTH(32)"
  show "bit (take_bit 16 (v' i)) k = bit (take_bit 16 (v i)) k"
  proof (cases "k < 16")
    case True
    then have "16 * i + k < 16 * n" using i by simp
    then have "rawBit S v' (16 * i + k) = rawBit S v (16 * i + k)"
      using bits by blast
    then show ?thesis
      using True by (simp add: rawBit_def S bit_take_bit_iff)
  next
    case False
    then show ?thesis by (simp add: bit_take_bit_iff)
  qed
qed

text \<open>
  C1 does not hold for every pair of types of equal total size: a lane has 32 bits, and a
  bit-cast to a 64-bit element drops bits. The two 32-bit lanes \<open>{0, 1}\<close> and one 64-bit
  element both have 64 bits. The combining bit-cast shifts the second lane by 32, of which the
  machine takes the low five bits, and ORs both lanes into lane 0 of the destination: it holds
  1, and bit 32 of the pattern of the source is set in no lane of the destination.
\<close>

theorem insertBitcast_wide_elements_counterexample:
  "totalBits (vtype intVector) = totalBits (vtype longValue) \<and>
   (\<exists>it' m' \<sigma>' v'. insertBitcast 0 emptyMethod intVector longValue {} = Ok it' m' \<and>
      run (emitted 0 it' m') (holding (Named ''y'') (lanesOf [0, 1])) = Some \<sigma>' \<and>
      readValue \<sigma>' longValue = Some v' \<and> v' 0 = 1 \<and>
      rawBit (vtype intVector) (lanesOf [0, 1]) 32 \<and> \<not> rawBit (vtype longValue) v' 32)"
proof -
  let ?\<sigma> = "holding (Named ''y'') (lanesOf [0, 1])"
  have ty: "getScalarBitCount (vtype intVector) = 32" "getVectorWidth (vtype intVector) = 2"
    "getScalarBitCount (vtype longValue) = 64" "getVectorWidth (vtype longValue) = 1"
    by (simp_all add: intVector_def longValue_def INT32x2_def TYPE_INT32_def TYPE_INT64_def)
  have total: "totalBits (vtype intVector) = totalBits (vtype longValue)"
    by (simp add: totalBits_def ty)
  have rd: "readValue ?\<sigma> intVector = Some (lanesOf [0, 1])"
    by (simp add: intVector_def holding_def)
  have "\<exists>it1 m1 q i.
           insertBitcast 0 emptyMethod intVector longValue {} =
             Ok (Suc it1) (modifyAt it1 (mapDestinationToSource m1 longValue intVector) (addDecorations {})) \<and>
           inserted 0 emptyMethod (Suc it1) m1 (q @ [i]) \<and>
           (\<forall>\<sigma> v. readValue \<sigma> intVector = Some v \<longrightarrow>
              (\<exists>\<sigma>'. run (q @ [i]) \<sigma> = Some \<sigma>' \<and>
                 (\<forall>j < getVectorWidth (vtype longValue). regs \<sigma>' (LocalLoc (Named ''w'')) j =
                    bigOr (\<lambda>k. push_bit (getScalarBitCount (vtype intVector) * k mod 32)
                      (v (j * (getScalarBitCount (vtype longValue) div
                                 getScalarBitCount (vtype intVector)) + k)
                         AND mask (getScalarBitCount (vtype intVector))))
                      (getScalarBitCount (vtype longValue) div getScalarBitCount (vtype intVector)))))"
    by (rule insertBitcast_combining [where t = TYPE_INT64])
       (simp_all add: ty, simp_all add: intVector_def longValue_def)
  then obtain it1 m1 q i where
    r: "insertBitcast 0 emptyMethod intVector longValue {} =
          Ok (Suc it1) (modifyAt it1 (mapDestinationToSource m1 longValue intVector) (addDecorations {}))"
    and ins: "inserted 0 emptyMethod (Suc it1) m1 (q @ [i])"
    and sem: "\<exists>\<sigma>'. run (q @ [i]) ?\<sigma> = Some \<sigma>' \<and>
                 (\<forall>j < 1. regs \<sigma>' (LocalLoc (Named ''w'')) j =
                    bigOr (\<lambda>k. push_bit (32 * k mod 32) (lanesOf [0, 1] (j * 2 + k) AND mask 32)) 2)"
    using rd unfolding ty by fastforce
  from sem obtain \<sigma>' where run: "run (q @ [i]) ?\<sigma> = Some \<sigma>'"
    and lane: "regs \<sigma>' (LocalLoc (Named ''w'')) 0 =
                 bigOr (\<lambda>k. push_bit (32 * k mod 32) (lanesOf [0, 1] (0 * 2 + k) AND mask 32)) 2"
    by auto
  let ?m' = "modifyAt it1 (mapDestinationToSource m1 longValue intVector) (addDecorations {})"
  have "inserted 0 emptyMethod (Suc it1) ?m' (q @ [addDecorations {} i])"
    by (rule inserted_modify_last [OF ins]) simp
  then have em: "emitted 0 (Suc it1) ?m' = q @ [addDecorations {} i]"
    by (rule inserted_emitted)
  have run': "run (emitted 0 (Suc it1) ?m') ?\<sigma> = Some \<sigma>'"
    unfolding em run_decorate_last by (rule run)
  have v0: "regs \<sigma>' (LocalLoc (Named ''w'')) 0 = 1"
    unfolding lane by (simp add: numeral_2_eq_2 lanesOf_def)
  have rd': "readValue \<sigma>' longValue = Some (regs \<sigma>' (LocalLoc (Named ''w'')))"
    by (simp add: longValue_def)
  have lost: "rawBit (vtype intVector) (lanesOf [0, 1]) 32"
    "\<not> rawBit (vtype longValue) (regs \<sigma>' (LocalLoc (Named ''w''))) 32"
    by (simp_all add: rawBit_def ty lanesOf_def v0)
  show ?thesis
    using total r run' rd' v0 lost by blast
qed

text \<open>
  C1, for element types of 8, 16 or 32 bits in vectors of 1 to 16 lanes of equal total size
  (\<open>castable\<close>), a source that holds a value and a destination that is a local:
  \<open>insertBitcast\<close> succeeds, and the instructions it emitted leave in the destination the raw
  bit pattern of the source, bit for bit, the low-index element in the low bits. A second
  bit-cast of that destination to the type of the source gives a value with the bit pattern of
  the source again.
\<close>

theorem insertBitcast_raw_bits:
  assumes "it \<le> length (instructions m)" and "castable m src dest"
    and "readValue \<sigma> src = Some v"
  shows "\<exists>it' m' \<sigma>' v'. insertBitcast it m src dest deco = Ok it' m' \<and>
           run (emitted it it' m') \<sigma> = Some \<sigma>' \<and> readValue \<sigma>' dest = Some v' \<and>
           (\<forall>b < totalBits (vtype src). rawBit (vtype dest) v' b = rawBit (vtype src) v b) \<and>
           (\<forall>again deco'. castable m' dest again \<and> vtype again = vtype src \<longrightarrow>
              (\<exists>it'' m'' \<sigma>'' v''. insertBitcast it' m' dest again deco' = Ok it'' m'' \<and>
                 run (emitted it it'' m'') \<sigma> = Some \<sigma>'' \<and> readValue \<sigma>'' again = Some v'' \<and>
                 (\<forall>b < totalBits (vtype src).
                    rawBit (vtype src) v'' b = rawBit (vtype src) v b)))"
proof -
  from insertBitcast_program [OF assms(1,2), of deco]
  obtain it' m' p where r: "insertBitcast it m src dest deco = Ok it' m'"
    and ins: "inserted it m it' m' p"
    and sem: "\<And>\<sigma> v. readValue \<sigma> src = Some v \<Longrightarrow>
              \<exists>\<sigma>' v'. run p \<sigma> = Some \<sigma>' \<and> readValue \<sigma>' dest = Some v' \<and>
                 (\<forall>b < totalBits (vtype src). rawBit (vtype dest) v' b = rawBit (vtype src) v b)"
    by blast
  from sem [OF assms(3)]
  obtain \<sigma>' v' where run: "run p \<sigma> = Some \<sigma>'" and rd: "readValue \<sigma>' dest = Some v'"
    and bits: "\<forall>b < totalBits (vtype src). rawBit (vtype dest) v' b = rawBit (vtype src) v b"
    by blast
  have em: "emitted it it' m' = p"
    by (rule inserted_emitted [OF ins])
  have total: "totalBits (vtype src) = totalBits (vtype dest)"
    using assms(2) by (simp add: castable_def)
  have trip: "\<exists>it'' m'' \<sigma>'' v''. insertBitcast it' m' dest again deco' = Ok it'' m'' \<and>
                 run (emitted it it'' m'') \<sigma> = Some \<sigma>'' \<and> readValue \<sigma>'' again = Some v'' \<and>
                 (\<forall>b < totalBits (vtype src).
                    rawBit (vtype src) v'' b = rawBit (vtype src) v b)"
    if cb: "castable m' dest again" and ty: "vtype again = vtype src" for again deco'
  proof -
    from insertBitcast_program [OF inserted_bound [OF ins] cb, of deco']
    obtain it'' m'' q where r2: "insertBitcast it' m' dest again deco' = Ok it'' m''"
      and ins2: "inserted it' m' it'' m'' q"
      and sem2: "\<And>\<sigma> v. readValue \<sigma> dest = Some v \<Longrightarrow>
              \<exists>\<sigma>' v'. run q \<sigma> = Some \<sigma>' \<and> readValue \<sigma>' again = Some v' \<and>
                 (\<forall>b < totalBits (vtype dest). rawBit (vtype again) v' b = rawBit (vtype dest) v b)"
      by blast
    from sem2 [OF rd]
    obtain \<sigma>'' v'' where run2: "run q \<sigma>' = Some \<sigma>''" and rd2: "readValue \<sigma>'' again = Some v''"
      and bits2: "\<forall>b < totalBits (vtype dest). rawBit (vtype again) v'' b = rawBit (vtype dest) v' b"
      by blast
    have "emitted it it'' m'' = p @ q"
      by (rule inserted_emitted [OF inserted_trans [OF ins ins2]])
    then have "run (emitted it it'' m'') \<sigma> = Some \<sigma>''"
      by (simp add: run_append run run2)
    moreover have "\<forall>b < totalBits (vtype src). rawBit (vtype src) v'' b = rawBit (vtype src) v b"
      using bits bits2 total ty by simp
    ultimately show ?thesis
      using r2 rd2 by blast
  qed
  show ?thesis
    using r run rd bits trip unfolding em [symmetric] by blast
qed

text \<open>
  The example of C1: the four 16-bit lanes \<open>{0x1111, 0x2222, 0x3333, 0x4444}\<close> combine to the
  two 32-bit lanes \<open>{0x22221111, 0x44443333}\<close>, and splitting these gives the four 16-bit
  elements again.
\<close>

theorem insertBitcast_raw_bits_witness:
  "\<exists>it' m' \<sigma>' v'. insertBitcast 0 emptyMethod shortVector intVector {} = Ok it' m' \<and>
     run (emitted 0 it' m')
       (holding (Named ''x'') (lanesOf [0x1111, 0x2222, 0x3333, 0x4444])) = Some \<sigma>' \<and>
     readValue \<sigma>' intVector = Some v' \<and> v' 0 = 0x22221111 \<and> v' 1 = 0x44443333 \<and>
     (\<exists>it'' m'' \<sigma>'' v''. insertBitcast it' m' intVector shortResult {} = Ok it'' m'' \<and>
        run (emitted 0 it'' m'')
          (holding (Named ''x'') (lanesOf [0x1111, 0x2222, 0x3333, 0x4444])) = Some \<sigma>'' \<and>
        readValue \<sigma>'' shortResult = Some v'' \<and>
        take_bit 16 (v'' 0) = 0x1111 \<and> take_bit 16 (v'' 1) = 0x2222 \<and>
        take_bit 16 (v'' 2) = 0x3333 \<and> take_bit 16 (v'' 3) = 0x4444)"
proof -
  let ?v = "lanesOf [0x1111, 0x2222, 0x3333, 0x4444]"
  let ?\<sigma> = "holding (Named ''x'') ?v"
  have ty: "getScalarBitCount INT16x4 = 16" "getVectorWidth INT16x4 = 4"
    "getScalarBitCount INT32x2 = 32" "getVectorWidth INT32x2 = 2"
    by (simp_all add: INT16x4_def INT32x2_def TYPE_INT16_def TYPE_INT32_def)
  have vt: "vtype shortVector = INT16x4" "vtype intVector = INT32x2" "vtype shortResult = INT16x4"
    by (simp_all add: shortVector_def intVector_def shortResult_def)
  have it: "0 \<le> length (instructions emptyMethod)" by simp
  have c: "castable emptyMethod shortVector intVector"
    by (simp add: castable_def totalBits_def vt ty) (simp add: shortVector_def intVector_def)
  have rd: "readValue ?\<sigma> shortVector = Some ?v"
    by (simp add: shortVector_def holding_def)
  from insertBitcast_raw_bits [OF it c rd, of "{}"]
  obtain it' m' \<sigma>' v' where r: "insertBitcast 0 emptyMethod shortVector intVector {} = Ok it' m'"
    and run: "run (emitted 0 it' m') ?\<sigma> = Some \<sigma>'"
    and rd': "readValue \<sigma>' intVector = Some v'"
    and bits: "\<forall>b < totalBits (vtype shortVector).
                 rawBit (vtype intVector) v' b = rawBit (vtype shortVector) ?v b"
    and trip: "\<And>again deco'. castable m' intVector again \<and> vtype again = vtype shortVector \<Longrightarrow>
              (\<exists>it'' m'' \<sigma>'' v''. insertBitcast it' m' intVector again deco' = Ok it'' m'' \<and>
                 run (emitted 0 it'' m'') ?\<sigma> = Some \<sigma>'' \<and> readValue \<sigma>'' again = Some v'' \<and>
                 (\<forall>b < totalBits (vtype shortVector).
                    rawBit (vtype shortVector) v'' b = rawBit (vtype shortVector) ?v b))"
    by blast
  have c2: "castable m' intVector shortResult \<and> vtype shortResult = vtype shortVector"
    by (simp add: castable_def totalBits_def vt ty) (simp add: shortResult_def intVector_def)
  from trip [OF c2, of "{}"]
  obtain it'' m'' \<sigma>'' v'' where r2: "insertBitcast it' m' intVector shortResult {} = Ok it'' m''"
    and run2: "run (emitted 0 it'' m'') ?\<sigma> = Some \<sigma>''"
    and rd2: "readValue \<sigma>'' shortResult = Some v''"
    and bits2: "\<forall>b < totalBits (vtype shortVector).
                    rawBit (vtype shortVector) v'' b = rawBit (vtype shortVector) ?v b"
    by blast
  have b32: "\<forall>b < 32 * 2. rawBit INT32x2 v' b = rawBit INT16x4 ?v b"
    using bits by (simp add: totalBits_def vt ty)
  have b16: "\<forall>b < 16 * 4. rawBit INT16x4 v'' b = rawBit INT16x4 ?v b"
    using bits2 by (simp add: totalBits_def vt ty)
  have lane: "v' i = (?v (2 * i) AND mask 16) OR push_bit 16 (?v (2 * i + 1))" if "i < 2" for i
    by (rule combined_lane [OF b32 ty(3) ty(1) that])
  have half: "take_bit 16 (v'' i) = take_bit 16 (?v i)" if "i < 4" for i
    by (rule split_lane [OF b16 ty(1) that])
  have l0: "v' 0 = 0x22221111" and l1: "v' 1 = 0x44443333"
    using lane [of 0] lane [of 1] by (simp_all add: lanesOf_def mask_eq_exp_minus_1)
  have h: "take_bit 16 (v'' 0) = 0x1111" "take_bit 16 (v'' 1) = 0x2222"
    "take_bit 16 (v'' 2) = 0x3333" "take_bit 16 (v'' 3) = 0x4444"
    using half [of 0] half [of 1] half [of 2] half [of 3] by (simp_all add: lanesOf_def)
  show ?thesis
    using r run rd' l0 l1 r2 run2 rd2 h by blast
qed

end
